theory Spec2Isabelle
  imports Main "HOL-Library.AList"
begin

section \<open>Hocuspocus server kernel: promises, rejections and the hook pipeline\<close>

text \<open>
  The development embeds \<^verbatim>\<open>packages/server/src/Hocuspocus.ts\<close>. The server runs on one
  JavaScript event loop: a function body between two suspension points runs without
  interruption, and every \<^verbatim>\<open>.then\<close>/\<^verbatim>\<open>await\<close> on a hook chain is a suspension point.
  Pure pieces are HOL functions; the asynchronous kernel is a transition function over an
  explicit server state, one transition per event-loop turn (section "The kernel as a
  transition system").
\<close>

subsection \<open>Hook names and rejection values\<close>

text \<open>The hook names used by \<^verbatim>\<open>this.hooks(name, ...)\<close> throughout the class.\<close>

datatype hook_name =
    onConfigure | onListen | onUpgrade | onConnect | connected | onAuthenticate
  | onLoadDocument | afterLoadDocument | beforeHandleMessage | beforeBroadcastStateless
  | onStateless | onChange | onStoreDocument | afterStoreDocument | onAwarenessUpdate
  | onRequest | onDisconnect | onDestroy

text \<open>
  A handler rejects with \<^verbatim>\<open>undefined\<close> (a bare \<^verbatim>\<open>reject()\<close> or \<^verbatim>\<open>throw undefined\<close>) or
  with an object whose optional fields the kernel reads: \<^verbatim>\<open>code\<close>, \<^verbatim>\<open>reason\<close> and
  \<^verbatim>\<open>message\<close>. A field that is absent (or \<^verbatim>\<open>null\<close>) is \<open>None\<close>.
\<close>

datatype rejection =
    Undefined
  | Thrown (error_code: "int option") (error_reason: "string option") (error_message: "string option")

text \<open>
  \<^verbatim>\<open>error?.message\<close> in a condition: truthy when the rejection is an object that carries
  a non-empty message.
\<close>

fun has_message :: "rejection \<Rightarrow> bool" where
  "has_message Undefined = False"
| "has_message (Thrown c r m) = (case m of None \<Rightarrow> False | Some txt \<Rightarrow> txt \<noteq> [])"

subsection \<open>Settled promises\<close>

text \<open>
  A promise that has settled, paired with the state its computation left behind.
  \<open>promise_then\<close> is \<^verbatim>\<open>.then(f)\<close>: \<open>f\<close> runs on a fulfilled promise only, a rejection
  passes through. \<open>promise_catch\<close> is \<^verbatim>\<open>.catch(g)\<close>: \<open>g\<close> runs on a rejected promise only.
\<close>

datatype 'a promise = Resolved 'a | Rejected rejection

definition promise_then ::
  "'a promise \<times> 's \<Rightarrow> ('a \<Rightarrow> 's \<Rightarrow> 'b promise \<times> 's) \<Rightarrow> 'b promise \<times> 's" where
  "promise_then chain f =
     (case chain of (Resolved v, s) \<Rightarrow> f v s | (Rejected e, s) \<Rightarrow> (Rejected e, s))"

definition promise_catch ::
  "'a promise \<times> 's \<Rightarrow> (rejection \<Rightarrow> 's \<Rightarrow> 'a promise \<times> 's) \<Rightarrow> 'a promise \<times> 's" where
  "promise_catch chain g =
     (case chain of (Resolved v, s) \<Rightarrow> (Resolved v, s) | (Rejected e, s) \<Rightarrow> g e s)"

subsection \<open>Extensions and the hook chain\<close>

text \<open>
  An extension exposes any subset of the named handlers and an optional priority. A
  handler receives the payload, may change the world outside the kernel (\<open>'w\<close>: a
  database, the objects the payload refers to) and settles with a value or a rejection.
  The handler's value is \<open>None\<close> for \<^verbatim>\<open>undefined\<close>.
\<close>

type_synonym ('p, 'v, 'w) handler = "'p \<Rightarrow> 'w \<Rightarrow> 'v option promise \<times> 'w"

record ('p, 'v, 'w) extension =
  priority :: "int option"
  handlers :: "hook_name \<Rightarrow> ('p, 'v, 'w) handler option"

text \<open>
  What one run of \<^verbatim>\<open>hooks\<close> acts on: the world, the lines written by
  \<^verbatim>\<open>console.error\<close>, and two observation logs: the positions (in the stored extension
  list) of the extensions whose handler was called, and the positions after whose
  handler the per-hook callback was called, both in call order.
\<close>

record 'w hook_run =
  world :: 'w
  console :: "(hook_name \<times> string) list"
  invoked :: "nat list"
  called_back :: "nat list"

type_synonym ('v, 'w) callback = "'v option \<Rightarrow> 'w \<Rightarrow> 'v option promise \<times> 'w"

text \<open>\<^verbatim>\<open>.filter(extension => typeof extension[name] === 'function')\<close>, on positions.\<close>

definition has_hook :: "hook_name \<Rightarrow> nat \<times> ('p, 'v, 'w) extension \<Rightarrow> bool" where
  "has_hook name ie = (handlers (snd ie) name \<noteq> None)"

text \<open>\<^verbatim>\<open>() => (extension[name] as any)?.(payload)\<close>\<close>

definition call_handler ::
  "hook_name \<Rightarrow> 'p \<Rightarrow> nat \<times> ('p, 'v, 'w) extension \<Rightarrow> 'w hook_run
     \<Rightarrow> 'v option promise \<times> 'w hook_run" where
  "call_handler name payload ie st =
     (case handlers (snd ie) name of
        None \<Rightarrow> (Resolved None, st)
      | Some h \<Rightarrow>
          (let (r, w) = h payload (world st)
           in (r, st\<lparr>world := w, invoked := invoked st @ [fst ie]\<rparr>)))"

text \<open>
  The \<^verbatim>\<open>.catch\<close> of every link: log the message when there is one, then rethrow.
\<close>

definition log_and_rethrow ::
  "hook_name \<Rightarrow> rejection \<Rightarrow> 'w hook_run \<Rightarrow> 'v option promise \<times> 'w hook_run" where
  "log_and_rethrow name error st =
     (Rejected error,
      if has_message error
      then st\<lparr>console := console st @ [(name, the (error_message error))]\<rparr>
      else st)"

text \<open>\<^verbatim>\<open>(...args) => callback(...args)\<close>\<close>

definition run_callback ::
  "nat \<Rightarrow> ('v, 'w) callback \<Rightarrow> 'v option \<Rightarrow> 'w hook_run \<Rightarrow> 'v option promise \<times> 'w hook_run" where
  "run_callback i cb v st =
     (let (r, w) = cb v (world st)
      in (r, st\<lparr>world := w, called_back := called_back st @ [i]\<rparr>))"

text \<open>The body of the \<^verbatim>\<open>forEach\<close>: one extension's links appended to the chain.\<close>

definition hooks_link ::
  "hook_name \<Rightarrow> 'p \<Rightarrow> ('v, 'w) callback option
     \<Rightarrow> 'v option promise \<times> 'w hook_run \<Rightarrow> nat \<times> ('p, 'v, 'w) extension
     \<Rightarrow> 'v option promise \<times> 'w hook_run" where
  "hooks_link name payload callback chain ie =
     (let chain1 = promise_catch (promise_then chain (\<lambda>_. call_handler name payload ie))
                     (log_and_rethrow name)
      in case callback of
           None \<Rightarrow> chain1
         | Some cb \<Rightarrow> promise_then chain1 (run_callback (fst ie) cb))"

text \<open>
  \<^verbatim>\<open>hooks(name, payload, callback)\<close>: the chain starts as \<^verbatim>\<open>Promise.resolve()\<close> and
  is extended once per extension that has the hook, in the order of
  \<^verbatim>\<open>this.configuration.extensions\<close>. The result is the chain as it settles.
\<close>

definition hooks ::
  "hook_name \<Rightarrow> 'p \<Rightarrow> ('v, 'w) callback option \<Rightarrow> ('p, 'v, 'w) extension list
     \<Rightarrow> 'w hook_run \<Rightarrow> 'v option promise \<times> 'w hook_run" where
  "hooks name payload callback extensions st =
     foldl (hooks_link name payload callback) (Resolved None, st)
       (filter (has_hook name) (enumerate 0 extensions))"

text \<open>The positions of the extensions that have the hook, in stored order.\<close>

definition hook_positions :: "hook_name \<Rightarrow> ('p, 'v, 'w) extension list \<Rightarrow> nat list" where
  "hook_positions name extensions = map fst (filter (has_hook name) (enumerate 0 extensions))"

section \<open>The kernel as a transition system\<close>

subsection \<open>Values the kernel exchanges with its collaborators\<close>

type_synonym documentName = string
type_synonym socketId = nat
type_synonym docref = nat
type_synonym handle = nat

text \<open>
  A \<open>socketId\<close> stands for the \<^verbatim>\<open>uuid()\<close> of one accepted transport, a \<open>docref\<close> for the
  identity of one \<^verbatim>\<open>Document\<close> object, a \<open>handle\<close> for one \<^verbatim>\<open>NodeJS.Timeout\<close>.
\<close>

text \<open>
  Modelled from the spec: the close events of \<^verbatim>\<open>@hocuspocus/common\<close>, which is not part of
  the sources ("each a {code: uint16, reason: string} pair").
\<close>

record CloseEvent =
  code :: int
  reason :: string

text \<open>
  What \<^verbatim>\<open>Hocuspocus.ts\<close> imports and the sources do not contain is a parameter of the
  model: the three close events, and the set of arguments on which \<^verbatim>\<open>WebSocket.close\<close>
  of the \<^verbatim>\<open>ws\<close> package throws (an invalid status code, an overlong reason).
\<close>

record library =
  Forbidden :: CloseEvent
  Unauthorized :: CloseEvent
  ResetConnection :: CloseEvent
  close_throws :: "int option \<Rightarrow> string option \<Rightarrow> bool"

text \<open>
  Modelled from the spec: the message types of \<^verbatim>\<open>./types\<close> ("Sync, Awareness, Auth,
  QueryAwareness, Stateless, BroadcastStateless, SyncStatus, SyncReply"); any other
  number on the wire is \<open>Unknown\<close>.
\<close>

datatype MessageType =
    Sync | Awareness | Auth | QueryAwareness | Stateless | BroadcastStateless
  | SyncStatus | SyncReply | Unknown nat

text \<open>
  An inbound message as far as the kernel decodes it: \<^verbatim>\<open>readVarString\<close> for the document
  name, \<^verbatim>\<open>readVarUint\<close> for the type and, on an \<^verbatim>\<open>Auth\<close> message only, a second
  \<^verbatim>\<open>readVarUint\<close> and the token. \<open>Malformed\<close> has no readable name, \<open>Untyped\<close> a name but
  no readable type; the last field of \<open>Frame\<close> is the token, \<open>None\<close> when the
  authentication submessage cannot be read.
\<close>

datatype frame =
    Malformed
  | Untyped documentName
  | Frame documentName MessageType "string option"

datatype outgoing =
    Authenticated documentName
  | PermissionDenied documentName string

text \<open>Modelled from the spec: \<^verbatim>\<open>WsReadyStates\<close> of \<^verbatim>\<open>@hocuspocus/common\<close>.\<close>

datatype WsReadyState = Connecting | Open | Closing | Closed

record ConnectionConfiguration =
  readOnly :: bool
  requiresAuthentication :: bool
  isAuthenticated :: bool

subsection \<open>Suspended computations\<close>

text \<open>
  \<^verbatim>\<open>setUpNewConnection\<close> is called from two promise chains; a failure inside it is
  handled by the \<^verbatim>\<open>.catch\<close> of the chain it was called from.
\<close>

datatype route = ViaOnConnect | ViaOnAuthenticate

text \<open>The two places that build the function handed to \<^verbatim>\<open>debounce\<close>.\<close>

datatype store_origin = OnUpdate | OnLastDisconnect

text \<open>
  The closure handed to \<^verbatim>\<open>debounce\<close>: run the \<^verbatim>\<open>onStoreDocument\<close> hooks for a document,
  with the socket id of the payload.
\<close>

datatype thunk = StoreDocument store_origin socketId docref

text \<open>
  A computation suspended at a promise, with what its continuation needs. Each
  constructor is one \<^verbatim>\<open>.then\<close>/\<^verbatim>\<open>await\<close> of the source:
  \<^item> \<open>AwaitOnConnect\<close>: \<^verbatim>\<open>this.hooks('onConnect', ...).then(...).catch(...)\<close> in \<^verbatim>\<open>messageHandler\<close>;
  \<^item> \<open>AwaitOnAuthenticate\<close>: \<^verbatim>\<open>this.hooks('onAuthenticate', ...).then(...)\<close> in
    \<^verbatim>\<open>handleQueueingMessage\<close>;
  \<^item> \<open>AwaitDenialSent\<close>: the callback of \<^verbatim>\<open>incoming.send(message, () => ...)\<close>;
  \<^item> \<open>AwaitOnLoadDocument\<close>, \<open>AwaitAfterLoadDocument\<close>: the two \<^verbatim>\<open>await\<close>s of \<^verbatim>\<open>createDocument\<close>;
  \<^item> \<open>AwaitCreateDocument\<close>: \<^verbatim>\<open>await this.createDocument(...)\<close> in \<^verbatim>\<open>setUpNewConnection\<close>,
    once the promise is fulfilled with a document;
  \<^item> \<open>AwaitOnDisconnect\<close>: \<^verbatim>\<open>this.hooks('onDisconnect', hookPayload).then(...)\<close>;
  \<^item> \<open>AwaitOnStoreDocument\<close>, \<open>AwaitAfterStoreDocument\<close>: the two chains of the store
    pipeline;
  \<^item> \<open>Detached\<close>: a hook chain whose settlement no kernel code waits for.
\<close>

datatype task =
    AwaitOnConnect socketId documentName
  | AwaitOnAuthenticate socketId documentName
  | AwaitDenialSent socketId rejection
  | AwaitOnLoadDocument route socketId documentName docref
  | AwaitAfterLoadDocument route socketId documentName docref
  | AwaitCreateDocument route socketId documentName docref
  | AwaitOnDisconnect socketId docref
  | AwaitOnStoreDocument store_origin socketId docref
  | AwaitAfterStoreDocument store_origin socketId docref
  | Detached hook_name

subsection \<open>What the kernel does to the outside, in order\<close>

text \<open>
  The trace of one server: every call of \<^verbatim>\<open>this.hooks\<close> (hook name, \<^verbatim>\<open>socketId\<close>,
  \<^verbatim>\<open>documentName\<close> and \<^verbatim>\<open>document\<close> of the payload), every settlement of an awaited chain as
  the kernel resumes from it, every message sent, every \<^verbatim>\<open>incoming.close(code, reason)\<close>
  that did not throw, every inbound message handed to a \<^verbatim>\<open>Connection\<close> (with the document
  the connection is attached to), every \<^verbatim>\<open>Connection\<close> that closes, every
  \<^verbatim>\<open>document.destroy()\<close>, and every rejection that no handler catches.
\<close>

datatype effect =
    HookCall hook_name "socketId option" documentName "docref option"
  | Settled task "unit promise"
  | Send socketId outgoing
  | Close socketId "int option" "string option"
  | Delivered socketId documentName frame docref
  | ConnectionClosed socketId documentName docref
  | Destroyed docref
  | Uncaught rejection

subsection \<open>The server state\<close>

text \<open>
  Modelled from the spec: \<^verbatim>\<open>Document\<close> (\<^verbatim>\<open>./Document\<close> is not part of the sources): its
  name, its \<^verbatim>\<open>isLoading\<close> flag ("true from creation until afterLoadDocument returns"; the
  kernel clears it), the connections attached to it (each named by its transport) and
  whether \<^verbatim>\<open>destroy()\<close> was called. \<open>onUpdate_wired\<close> records that \<^verbatim>\<open>createDocument\<close> has
  registered the kernel's \<^verbatim>\<open>onUpdate\<close> callback.
\<close>

record Document =
  document_name :: documentName
  isLoading :: bool
  connections :: "socketId list"
  isDestroyed :: bool
  onUpdate_wired :: bool

text \<open>
  The variables \<^verbatim>\<open>handleConnection\<close> closes over, one set per transport: the
  \<^verbatim>\<open>ConnectionConfiguration\<close>, the three records keyed by document name, whether the
  \<^verbatim>\<open>closeIdleConnection\<close> timer is still pending, and the socket's \<^verbatim>\<open>readyState\<close>.
  \<open>instances\<close> holds the \<^verbatim>\<open>Connection\<close> objects created on this socket, keyed by the
  name of their document: the document each is attached to, and whether the second
  \<^verbatim>\<open>onClose\<close> callback (the one \<^verbatim>\<open>setUpNewConnection\<close> registers) is registered yet.
  JavaScript objects and Maps are association lists in insertion order.
\<close>

record transport =
  connection :: ConnectionConfiguration
  documentConnections :: "(documentName \<times> bool) list"
  incomingMessageQueue :: "(documentName \<times> frame list) list"
  connectionEstablishing :: "(documentName \<times> bool) list"
  closeIdleConnection :: bool
  readyState :: WsReadyState
  instances :: "(documentName \<times> docref \<times> bool) list"

text \<open>An entry of \<^verbatim>\<open>this.timers\<close>, and an entry of the runtime's table of pending timeouts.\<close>

record timer =
  timeout :: handle
  start :: int

record scheduled =
  due :: int
  run_id :: string
  run_func :: thunk

record ('p, 'v, 'w) Configuration =
  extensions :: "('p, 'v, 'w) extension list"
  config_timeout :: int
  config_debounce :: int
  config_maxDebounce :: int

text \<open>
  The fields of the \<^verbatim>\<open>Hocuspocus\<close> instance (\<open>configuration\<close>, \<open>documents\<close>, \<open>timers\<close>) and
  what the runtime holds for it: the \<^verbatim>\<open>Document\<close> objects ever constructed (a \<open>docref\<close> is
  a position in \<open>heap\<close>), the accepted transports (a \<open>socketId\<close> is a position in
  \<open>sockets\<close>), the pending timeouts, the clock read by \<^verbatim>\<open>Date.now()\<close>, the suspended
  computations and the trace.
\<close>

record ('p, 'v, 'w) server =
  library :: library
  configuration :: "('p, 'v, 'w) Configuration"
  documents :: "(documentName \<times> docref) list"
  timers :: "(string \<times> timer) list"
  heap :: "Document list"
  sockets :: "transport list"
  timeouts :: "(handle \<times> scheduled) list"
  next_handle :: handle
  clock :: int
  pending :: "task list"
  effects :: "effect list"

text \<open>\<^verbatim>\<open>new Hocuspocus(configuration)\<close>: no documents, no timers, nothing pending.\<close>

definition new_server :: "library \<Rightarrow> ('p, 'v, 'w) Configuration \<Rightarrow> int \<Rightarrow> ('p, 'v, 'w) server" where
  "new_server lib cfg now =
     \<lparr>library = lib, configuration = cfg, documents = [], timers = [], heap = [],
      sockets = [], timeouts = [], next_handle = 0, clock = now, pending = [], effects = []\<rparr>"

subsection \<open>Small steps shared by the kernel functions\<close>

definition emit :: "effect \<Rightarrow> ('p, 'v, 'w) server \<Rightarrow> ('p, 'v, 'w) server" where
  "emit e s = s\<lparr>effects := effects s @ [e]\<rparr>"

definition suspend :: "task \<Rightarrow> ('p, 'v, 'w) server \<Rightarrow> ('p, 'v, 'w) server" where
  "suspend k s = s\<lparr>pending := pending s @ [k]\<rparr>"

text \<open>
  \<^verbatim>\<open>this.hooks(name, payload, ...)\<close> as the kernel sees it: the call is recorded and the
  caller's continuation \<open>k\<close> waits for the chain to settle. How the chain itself runs is
  \<open>hooks\<close> above; to the kernel its outcome is an input.
\<close>

definition call_hooks ::
  "hook_name \<Rightarrow> socketId option \<Rightarrow> documentName \<Rightarrow> docref option \<Rightarrow> task
     \<Rightarrow> ('p, 'v, 'w) server \<Rightarrow> ('p, 'v, 'w) server" where
  "call_hooks hook sid documentName document k s =
     suspend k (emit (HookCall hook sid documentName document) s)"

definition on_socket ::
  "socketId \<Rightarrow> (transport \<Rightarrow> transport) \<Rightarrow> ('p, 'v, 'w) server \<Rightarrow> ('p, 'v, 'w) server" where
  "on_socket sid f s = s\<lparr>sockets := (sockets s)[sid := f (sockets s ! sid)]\<rparr>"

definition on_document ::
  "docref \<Rightarrow> (Document \<Rightarrow> Document) \<Rightarrow> ('p, 'v, 'w) server \<Rightarrow> ('p, 'v, 'w) server" where
  "on_document d f s = s\<lparr>heap := (heap s)[d := f (heap s ! d)]\<rparr>"

text \<open>
  \<^verbatim>\<open>incoming.close(code, reason)\<close>: throws on arguments the \<^verbatim>\<open>ws\<close> package refuses (the
  first component of the result); otherwise the close is recorded and an open socket
  starts closing.
\<close>

definition ws_close ::
  "socketId \<Rightarrow> int option \<Rightarrow> string option \<Rightarrow> ('p, 'v, 'w) server \<Rightarrow> bool \<times> ('p, 'v, 'w) server" where
  "ws_close sid c r s =
     (if close_throws (library s) c r then (True, s)
      else (False,
            emit (Close sid c r)
              (on_socket sid
                 (\<lambda>t. if readyState t = Open then t\<lparr>readyState := Closing\<rparr> else t) s)))"

text \<open>\<^verbatim>\<open>incoming.close(event.code, event.reason)\<close> where nothing catches a throw.\<close>

definition close_with :: "socketId \<Rightarrow> CloseEvent \<Rightarrow> ('p, 'v, 'w) server \<Rightarrow> ('p, 'v, 'w) server" where
  "close_with sid event s = snd (ws_close sid (Some (code event)) (Some (reason event)) s)"

text \<open>
  \<^verbatim>\<open>(error = Forbidden) => ... error.code ?? Forbidden.code\<close> and
  \<^verbatim>\<open>error.reason ?? fallback\<close>: an undefined rejection is replaced by the default
  parameter, an absent field by the right operand of \<^verbatim>\<open>??\<close>.
\<close>

fun code_or :: "CloseEvent \<Rightarrow> rejection \<Rightarrow> int" where
  "code_or dflt Undefined = code dflt"
| "code_or dflt (Thrown c r m) = (case c of None \<Rightarrow> code dflt | Some x \<Rightarrow> x)"

fun reason_or :: "CloseEvent \<Rightarrow> string \<Rightarrow> rejection \<Rightarrow> string" where
  "reason_or dflt fallback Undefined = reason dflt"
| "reason_or dflt fallback (Thrown c r m) = (case r of None \<Rightarrow> fallback | Some x \<Rightarrow> x)"

subsection \<open>The debouncer\<close>

text \<open>\<^verbatim>\<open>setTimeout(run, delay)\<close> and \<^verbatim>\<open>clearTimeout(handle)\<close> on the runtime's table.\<close>

definition setTimeout ::
  "string \<Rightarrow> thunk \<Rightarrow> int \<Rightarrow> ('p, 'v, 'w) server \<Rightarrow> handle \<times> ('p, 'v, 'w) server" where
  "setTimeout key func delay s =
     (next_handle s,
      s\<lparr>timeouts := timeouts s @ [(next_handle s, \<lparr>due = clock s + delay, run_id = key, run_func = func\<rparr>)],
        next_handle := Suc (next_handle s)\<rparr>)"

definition clearTimeout :: "handle \<Rightarrow> ('p, 'v, 'w) server \<Rightarrow> ('p, 'v, 'w) server" where
  "clearTimeout h s = s\<lparr>timeouts := AList.delete h (timeouts s)\<rparr>"

text \<open>
  Calling the function handed to \<^verbatim>\<open>debounce\<close>. Both call sites pass
  \<^verbatim>\<open>() => { this.hooks('onStoreDocument', hookPayload).catch(...).then(...) }\<close>: the call
  starts the \<^verbatim>\<open>onStoreDocument\<close> chain and returns.
\<close>

fun call_thunk :: "thunk \<Rightarrow> ('p, 'v, 'w) server \<Rightarrow> ('p, 'v, 'w) server" where
  "call_thunk (StoreDocument origin sid d) s =
     call_hooks onStoreDocument (Some sid) (document_name (heap s ! d)) (Some d)
       (AwaitOnStoreDocument origin sid d) s"

text \<open>\<^verbatim>\<open>const run = () => { this.timers.delete(id); func() }\<close>\<close>

definition run :: "string \<Rightarrow> thunk \<Rightarrow> ('p, 'v, 'w) server \<Rightarrow> ('p, 'v, 'w) server" where
  "run key func s = call_thunk func (s\<lparr>timers := AList.delete key (timers s)\<rparr>)"

text \<open>
  \<^verbatim>\<open>const start = old?.start || Date.now()\<close>: a missing entry and a stored start of \<open>0\<close>
  (falsy) both give the current time.
\<close>

definition start_of :: "timer option \<Rightarrow> int \<Rightarrow> int" where
  "start_of old now = (case old of None \<Rightarrow> now | Some e \<Rightarrow> if start e = 0 then now else start e)"

text \<open>
  \<^verbatim>\<open>debounce(id, func, immediately = false)\<close>; \<open>key\<close> is the source's \<^verbatim>\<open>id\<close>.
  \<^verbatim>\<open>Date.now()\<close> is the clock of the state:
  time passes between the turns of the event loop, not inside one.
\<close>

definition debounce ::
  "string \<Rightarrow> thunk \<Rightarrow> bool \<Rightarrow> ('p, 'v, 'w) server \<Rightarrow> ('p, 'v, 'w) server" where
  "debounce key func immediately s =
     (let old = map_of (timers s) key;
          start = start_of old (clock s);
          s1 = (case old of None \<Rightarrow> s | Some e \<Rightarrow> clearTimeout (timeout e) s)
      in if immediately then run key func s1
         else if clock s1 - start \<ge> config_maxDebounce (configuration s1) then run key func s1
         else (let (h, s2) = setTimeout key func (config_debounce (configuration s1)) s1
               in s2\<lparr>timers := AList.update key \<lparr>timeout = h, start = start\<rparr> (timers s2)\<rparr>))"

text \<open>A pending timeout elapses: the runtime removes it and calls \<^verbatim>\<open>run\<close>.\<close>

definition timeout_elapses :: "handle \<Rightarrow> ('p, 'v, 'w) server \<Rightarrow> ('p, 'v, 'w) server" where
  "timeout_elapses h s =
     (case map_of (timeouts s) h of
        None \<Rightarrow> s
      | Some sc \<Rightarrow>
          if due sc \<le> clock s
          then run (run_id sc) (run_func sc) (s\<lparr>timeouts := AList.delete h (timeouts s)\<rparr>)
          else s)"

subsection \<open>Connections closing\<close>

text \<open>
  The second \<^verbatim>\<open>onClose\<close> callback of a connection, registered by \<^verbatim>\<open>setUpNewConnection\<close>:
  forget the handshake state of the document name and close the socket when no other
  document is attached to it.
\<close>

definition reset_handshake ::
  "socketId \<Rightarrow> documentName \<Rightarrow> CloseEvent option \<Rightarrow> ('p, 'v, 'w) server \<Rightarrow> ('p, 'v, 'w) server" where
  "reset_handshake sid documentName event s =
     (let s1 = on_socket sid
                 (\<lambda>t. t\<lparr>documentConnections := AList.delete documentName (documentConnections t),
                        incomingMessageQueue := AList.delete documentName (incomingMessageQueue t),
                        connectionEstablishing := AList.delete documentName (connectionEstablishing t)\<rparr>) s
      in if documentConnections (sockets s1 ! sid) = []
         then snd (ws_close sid (map_option code event) (map_option reason event) s1)
         else s1)"

text \<open>
  Modelled from the spec: \<^verbatim>\<open>Connection.close(event)\<close> (\<^verbatim>\<open>./Connection\<close> is not part of the
  sources): idempotent; the connection leaves its document's connection set and its
  close callbacks run in registration order. The first callback is the one
  \<^verbatim>\<open>createConnection\<close> registers (it starts the \<^verbatim>\<open>onDisconnect\<close> chain with the document
  in the payload), the second is \<open>reset_handshake\<close>.
\<close>

definition connection_close ::
  "socketId \<Rightarrow> documentName \<Rightarrow> CloseEvent option \<Rightarrow> ('p, 'v, 'w) server \<Rightarrow> ('p, 'v, 'w) server" where
  "connection_close sid documentName event s =
     (case map_of (instances (sockets s ! sid)) documentName of
        None \<Rightarrow> s
      | Some (d, registered) \<Rightarrow>
          (let s1 = on_socket sid (\<lambda>t. t\<lparr>instances := AList.delete documentName (instances t)\<rparr>) s;
               s2 = on_document d (\<lambda>doc. doc\<lparr>connections := remove1 sid (connections doc)\<rparr>) s1;
               s3 = call_hooks onDisconnect (Some sid) (document_name (heap s2 ! d)) (Some d)
                      (AwaitOnDisconnect sid d) (emit (ConnectionClosed sid documentName d) s2)
           in if registered then reset_handshake sid documentName event s3 else s3))"

text \<open>
  \<^verbatim>\<open>closeConnections(documentName?)\<close>: every registered document in registry order, skipped
  when \<^verbatim>\<open>documentName && document.name !== documentName\<close> (an empty name is falsy); each
  of its connections is closed with \<^verbatim>\<open>ResetConnection\<close>.
\<close>

definition closeConnections ::
  "documentName option \<Rightarrow> ('p, 'v, 'w) server \<Rightarrow> ('p, 'v, 'w) server" where
  "closeConnections documentName s =
     foldl (\<lambda>s1 (n, d).
              if (case documentName of None \<Rightarrow> False
                  | Some wanted \<Rightarrow> wanted \<noteq> [] \<and> document_name (heap s1 ! d) \<noteq> wanted)
              then s1
              else foldl (\<lambda>s2 sid. connection_close sid (document_name (heap s2 ! d))
                                     (Some (ResetConnection (library s2))) s2)
                     s1 (connections (heap s1 ! d)))
       s (documents s)"

subsection \<open>The two rejection handlers of the handshake\<close>

text \<open>
  The \<^verbatim>\<open>.catch\<close> of the \<^verbatim>\<open>onConnect\<close> chain in \<^verbatim>\<open>messageHandler\<close>.
\<close>

definition onConnect_catch :: "socketId \<Rightarrow> rejection \<Rightarrow> ('p, 'v, 'w) server \<Rightarrow> ('p, 'v, 'w) server" where
  "onConnect_catch sid error s =
     (let (threw, s1) = ws_close sid (Some (code_or (Forbidden (library s)) error))
                          (Some (reason_or (Forbidden (library s)) (reason (Forbidden (library s))) error)) s
      in if threw then close_with sid (Unauthorized (library s1)) s1 else s1)"

text \<open>
  The \<^verbatim>\<open>.catch\<close> of the \<^verbatim>\<open>onAuthenticate\<close> chain in \<^verbatim>\<open>handleQueueingMessage\<close>: send
  the permission-denied message; the close waits for the callback of \<^verbatim>\<open>send\<close>.
\<close>

definition onAuthenticate_catch ::
  "socketId \<Rightarrow> documentName \<Rightarrow> rejection \<Rightarrow> ('p, 'v, 'w) server \<Rightarrow> ('p, 'v, 'w) server" where
  "onAuthenticate_catch sid documentName error s =
     suspend (AwaitDenialSent sid error)
       (emit (Send sid (PermissionDenied documentName
                 (reason_or (Forbidden (library s)) ''permission-denied'' error))) s)"

text \<open>The callback of that \<^verbatim>\<open>send\<close>.\<close>

definition denial_sent :: "socketId \<Rightarrow> rejection \<Rightarrow> ('p, 'v, 'w) server \<Rightarrow> ('p, 'v, 'w) server" where
  "denial_sent sid error s =
     (if documentConnections (sockets s ! sid) = []
      then (let (threw, s1) = ws_close sid (Some (code_or (Forbidden (library s)) error))
                                (Some (reason_or (Forbidden (library s)) (reason (Forbidden (library s))) error)) s
            in if threw then close_with sid (Forbidden (library s1)) s1 else s1)
      else s)"

definition setUp_failed ::
  "route \<Rightarrow> socketId \<Rightarrow> documentName \<Rightarrow> rejection \<Rightarrow> ('p, 'v, 'w) server \<Rightarrow> ('p, 'v, 'w) server" where
  "setUp_failed via sid documentName error s =
     (case via of
        ViaOnConnect \<Rightarrow> onConnect_catch sid error s
      | ViaOnAuthenticate \<Rightarrow> onAuthenticate_catch sid documentName error s)"

subsection \<open>Inbound messages\<close>

definition frame_name :: "frame \<Rightarrow> documentName" where
  "frame_name data = (case data of Malformed \<Rightarrow> [] | Untyped n \<Rightarrow> n | Frame n ty tok \<Rightarrow> n)"

text \<open>
  \<^verbatim>\<open>handleQueueingMessage(data)\<close>. Every decoding failure and the \<^verbatim>\<open>push\<close> on a missing
  queue end in the \<^verbatim>\<open>catch\<close> that closes with \<^verbatim>\<open>Unauthorized\<close>.
\<close>

definition handleQueueingMessage ::
  "socketId \<Rightarrow> frame \<Rightarrow> ('p, 'v, 'w) server \<Rightarrow> ('p, 'v, 'w) server" where
  "handleQueueingMessage sid data s =
     (case data of
        Malformed \<Rightarrow> close_with sid (Unauthorized (library s)) s
      | Untyped documentName \<Rightarrow> close_with sid (Unauthorized (library s)) s
      | Frame documentName type token \<Rightarrow>
          if type = Auth \<and> map_of (connectionEstablishing (sockets s ! sid)) documentName \<noteq> Some True
          then (let s1 = on_socket sid
                           (\<lambda>t. t\<lparr>connectionEstablishing :=
                                    AList.update documentName True (connectionEstablishing t)\<rparr>) s
                in case token of
                     None \<Rightarrow> close_with sid (Unauthorized (library s1)) s1
                   | Some tok \<Rightarrow>
                       call_hooks onAuthenticate (Some sid) documentName None
                         (AwaitOnAuthenticate sid documentName) s1)
          else (case map_of (incomingMessageQueue (sockets s ! sid)) documentName of
                  None \<Rightarrow> close_with sid (Unauthorized (library s)) s
                | Some queue \<Rightarrow>
                    on_socket sid
                      (\<lambda>t. t\<lparr>incomingMessageQueue :=
                               AList.update documentName (queue @ [data]) (incomingMessageQueue t)\<rparr>) s))"

text \<open>\<^verbatim>\<open>messageHandler(data)\<close>, the listener \<^verbatim>\<open>handleConnection\<close> registers on the socket.\<close>

definition messageHandler ::
  "socketId \<Rightarrow> frame \<Rightarrow> ('p, 'v, 'w) server \<Rightarrow> ('p, 'v, 'w) server" where
  "messageHandler sid data s =
     (case data of
        Malformed \<Rightarrow> close_with sid (Unauthorized (library s)) s
      | _ \<Rightarrow>
          if map_of (documentConnections (sockets s ! sid)) (frame_name data) = Some True then s
          else handleQueueingMessage sid data
                 (if map_of (incomingMessageQueue (sockets s ! sid)) (frame_name data) = None
                  then call_hooks onConnect (Some sid) (frame_name data) None
                         (AwaitOnConnect sid (frame_name data))
                         (on_socket sid
                            (\<lambda>t. t\<lparr>incomingMessageQueue :=
                                     AList.update (frame_name data) [] (incomingMessageQueue t)\<rparr>) s)
                  else s))"

text \<open>
  Modelled from the spec: the message listener of a \<^verbatim>\<open>Connection\<close> ("If attached, ignore
  (the Connection now handles messages directly)"; "A Connection never receives messages
  routed to a different documentName"): the connection of this socket for the frame's
  document name, when there is one, takes the frame.
\<close>

definition connection_receives ::
  "socketId \<Rightarrow> frame \<Rightarrow> ('p, 'v, 'w) server \<Rightarrow> ('p, 'v, 'w) server" where
  "connection_receives sid data s =
     (case data of
        Frame documentName type token \<Rightarrow>
          (case map_of (instances (sockets s ! sid)) documentName of
             None \<Rightarrow> s
           | Some (d, registered) \<Rightarrow> emit (Delivered sid documentName data d) s)
      | _ \<Rightarrow> s)"

text \<open>
  A \<^verbatim>\<open>'message'\<close> event on the socket (from the network, or \<^verbatim>\<open>incoming.emit('message', input)\<close>
  in the replay): the listeners run in registration order, \<^verbatim>\<open>messageHandler\<close> first.
\<close>

definition socket_message ::
  "socketId \<Rightarrow> frame \<Rightarrow> ('p, 'v, 'w) server \<Rightarrow> ('p, 'v, 'w) server" where
  "socket_message sid data s = connection_receives sid data (messageHandler sid data s)"

subsection \<open>Creating documents and connections\<close>

definition new_Document :: "documentName \<Rightarrow> Document" where
  "new_Document documentName =
     \<lparr>document_name = documentName, isLoading = True, connections = [],
      isDestroyed = False, onUpdate_wired = False\<rparr>"

text \<open>
  \<^verbatim>\<open>createDocument(documentName, ...)\<close> up to its first suspension. With a registered
  document the promise is fulfilled with it at once (\<open>Some d\<close>) and nothing else
  happens. Otherwise a document is constructed and registered, the \<^verbatim>\<open>onLoadDocument\<close>
  chain is started and the function suspends (\<open>None\<close>).
\<close>

definition createDocument ::
  "route \<Rightarrow> socketId \<Rightarrow> documentName \<Rightarrow> ('p, 'v, 'w) server \<Rightarrow> docref option \<times> ('p, 'v, 'w) server" where
  "createDocument via sid documentName s =
     (case map_of (documents s) documentName of
        Some d \<Rightarrow> (Some d, s)
      | None \<Rightarrow>
          (let d = length (heap s);
               s1 = s\<lparr>heap := heap s @ [new_Document documentName],
                      documents := AList.update documentName d (documents s)\<rparr>
           in (None, call_hooks onLoadDocument (Some sid) documentName (Some d)
                       (AwaitOnLoadDocument via sid documentName d) s1)))"

text \<open>
  \<^verbatim>\<open>setUpNewConnection(documentName)\<close> up to \<^verbatim>\<open>await this.createDocument(...)\<close>.
\<close>

definition setUpNewConnection ::
  "route \<Rightarrow> socketId \<Rightarrow> documentName \<Rightarrow> ('p, 'v, 'w) server \<Rightarrow> ('p, 'v, 'w) server" where
  "setUpNewConnection via sid documentName s =
     (case createDocument via sid documentName
             (on_socket sid (\<lambda>t. t\<lparr>closeIdleConnection := False\<rparr>) s) of
        (Some d, s1) \<Rightarrow> suspend (AwaitCreateDocument via sid documentName d) s1
      | (None, s1) \<Rightarrow> s1)"

text \<open>
  \<^verbatim>\<open>createDocument\<close> resumed from \<^verbatim>\<open>await this.hooks('onLoadDocument', ...)\<close>: on a
  rejection the \<^verbatim>\<open>catch\<close> block closes the connections of that name, deletes the
  registry entry and rethrows, which rejects \<^verbatim>\<open>setUpNewConnection\<close>.
\<close>

definition onLoadDocument_settled ::
  "route \<Rightarrow> socketId \<Rightarrow> documentName \<Rightarrow> docref \<Rightarrow> unit promise
     \<Rightarrow> ('p, 'v, 'w) server \<Rightarrow> ('p, 'v, 'w) server" where
  "onLoadDocument_settled via sid documentName d outcome s =
     (case outcome of
        Rejected e \<Rightarrow>
          (let s1 = closeConnections (Some documentName) s;
               s2 = s1\<lparr>documents := AList.delete documentName (documents s1)\<rparr>
           in setUp_failed via sid documentName e s2)
      | Resolved _ \<Rightarrow>
          call_hooks afterLoadDocument (Some sid) documentName (Some d)
            (AwaitAfterLoadDocument via sid documentName d)
            (on_document d (\<lambda>doc. doc\<lparr>isLoading := False\<rparr>) s))"

text \<open>
  \<^verbatim>\<open>createDocument\<close> resumed from \<^verbatim>\<open>await this.hooks('afterLoadDocument', ...)\<close>: the
  update, stateless and awareness callbacks are registered and the document is returned.
\<close>

definition afterLoadDocument_settled ::
  "route \<Rightarrow> socketId \<Rightarrow> documentName \<Rightarrow> docref \<Rightarrow> unit promise
     \<Rightarrow> ('p, 'v, 'w) server \<Rightarrow> ('p, 'v, 'w) server" where
  "afterLoadDocument_settled via sid documentName d outcome s =
     (case outcome of
        Rejected e \<Rightarrow> setUp_failed via sid documentName e s
      | Resolved _ \<Rightarrow>
          suspend (AwaitCreateDocument via sid documentName d)
            (on_document d (\<lambda>doc. doc\<lparr>onUpdate_wired := True\<rparr>) s))"

text \<open>
  \<^verbatim>\<open>createConnection(...)\<close>. Modelled from the spec: constructing the \<^verbatim>\<open>Connection\<close>
  attaches it to its document and makes it listen on the socket. The kernel registers
  its first \<^verbatim>\<open>onClose\<close> callback and closes the instance at once when the socket is
  already closing or closed.
\<close>

definition createConnection ::
  "socketId \<Rightarrow> documentName \<Rightarrow> docref \<Rightarrow> ('p, 'v, 'w) server \<Rightarrow> ('p, 'v, 'w) server" where
  "createConnection sid documentName d s =
     (let s1 = on_socket sid
                 (\<lambda>t. t\<lparr>instances := AList.update documentName (d, False) (instances t)\<rparr>) s;
          s2 = on_document d (\<lambda>doc. doc\<lparr>connections := connections doc @ [sid]\<rparr>) s1
      in if readyState (sockets s2 ! sid) = Closing \<or> readyState (sockets s2 ! sid) = Closed
         then connection_close sid documentName None s2
         else s2)"

text \<open>
  \<^verbatim>\<open>setUpNewConnection\<close> resumed with the document: create the connection, register the
  second \<^verbatim>\<open>onClose\<close> callback, mark the name as attached, replay the queue through the
  socket's \<^verbatim>\<open>'message'\<close> listeners, start the \<^verbatim>\<open>connected\<close> chain. Reading the queue of a
  name that has none throws, which rejects \<^verbatim>\<open>setUpNewConnection\<close>.
\<close>

definition createDocument_settled ::
  "route \<Rightarrow> socketId \<Rightarrow> documentName \<Rightarrow> docref \<Rightarrow> ('p, 'v, 'w) server \<Rightarrow> ('p, 'v, 'w) server" where
  "createDocument_settled via sid documentName d s =
     (let s1 = createConnection sid documentName d s;
          s2 = on_socket sid
                 (\<lambda>t. t\<lparr>instances := map (\<lambda>(n, r, registered). if n = documentName then (n, r, True)
                                                              else (n, r, registered)) (instances t),
                        documentConnections := AList.update documentName True (documentConnections t)\<rparr>) s1
      in case map_of (incomingMessageQueue (sockets s2 ! sid)) documentName of
           None \<Rightarrow> setUp_failed via sid documentName (Thrown None None (Some ''TypeError'')) s2
         | Some queue \<Rightarrow>
             call_hooks connected (Some sid) documentName None (Detached connected)
               (foldl (\<lambda>s3 input. socket_message sid input s3) s2 queue))"

subsection \<open>The handshake chains settle\<close>

text \<open>The \<^verbatim>\<open>.then\<close> and \<^verbatim>\<open>.catch\<close> of the \<^verbatim>\<open>onConnect\<close> chain.\<close>

definition onConnect_settled ::
  "socketId \<Rightarrow> documentName \<Rightarrow> unit promise \<Rightarrow> ('p, 'v, 'w) server \<Rightarrow> ('p, 'v, 'w) server" where
  "onConnect_settled sid documentName outcome s =
     (case outcome of
        Rejected error \<Rightarrow> onConnect_catch sid error s
      | Resolved _ \<Rightarrow>
          if requiresAuthentication (connection (sockets s ! sid))
             \<or> map_of (connectionEstablishing (sockets s ! sid)) documentName = Some True
          then s
          else setUpNewConnection ViaOnConnect sid documentName
                 (on_socket sid
                    (\<lambda>t. t\<lparr>connectionEstablishing :=
                             AList.update documentName True (connectionEstablishing t)\<rparr>) s))"

text \<open>The two \<^verbatim>\<open>.then\<close> and the \<^verbatim>\<open>.catch\<close> of the \<^verbatim>\<open>onAuthenticate\<close> chain.\<close>

definition onAuthenticate_settled ::
  "socketId \<Rightarrow> documentName \<Rightarrow> unit promise \<Rightarrow> ('p, 'v, 'w) server \<Rightarrow> ('p, 'v, 'w) server" where
  "onAuthenticate_settled sid documentName outcome s =
     (case outcome of
        Rejected error \<Rightarrow> onAuthenticate_catch sid documentName error s
      | Resolved _ \<Rightarrow>
          setUpNewConnection ViaOnAuthenticate sid documentName
            (emit (Send sid (Authenticated documentName))
               (on_socket sid (\<lambda>t. t\<lparr>connection := (connection t)\<lparr>isAuthenticated := True\<rparr>\<rparr>) s)))"

subsection \<open>Updates, persistence and disconnection\<close>

text \<open>\<^verbatim>\<open>document.destroy()\<close>.\<close>

definition destroy :: "docref \<Rightarrow> ('p, 'v, 'w) server \<Rightarrow> ('p, 'v, 'w) server" where
  "destroy d s = emit (Destroyed d) (on_document d (\<lambda>doc. doc\<lparr>isDestroyed := True\<rparr>) s)"

text \<open>
  \<^verbatim>\<open>handleDocumentUpdate(document, connection, update, request)\<close>; \<open>origin\<close> is the socket
  of the connection the update came from, \<open>None\<close> for \<^verbatim>\<open>undefined\<close>.
\<close>

definition handleDocumentUpdate ::
  "docref \<Rightarrow> socketId option \<Rightarrow> ('p, 'v, 'w) server \<Rightarrow> ('p, 'v, 'w) server" where
  "handleDocumentUpdate d origin s =
     (let s1 = call_hooks onChange origin (document_name (heap s ! d)) (Some d) (Detached onChange) s
      in case origin of
           None \<Rightarrow> s1
         | Some sid \<Rightarrow>
             debounce (''onStoreDocument-'' @ document_name (heap s1 ! d))
               (StoreDocument OnUpdate sid d) False s1)"

text \<open>
  \<^verbatim>\<open>.catch(error => { if (error?.message) { throw error } })\<close> on the \<^verbatim>\<open>onStoreDocument\<close>
  chain, the same text at both call sites.
\<close>

definition store_catch ::
  "rejection \<Rightarrow> ('p, 'v, 'w) server \<Rightarrow> unit promise \<times> ('p, 'v, 'w) server" where
  "store_catch error s = (if has_message error then (Rejected error, s) else (Resolved (), s))"

text \<open>
  The \<^verbatim>\<open>onStoreDocument\<close> chain settles: \<^verbatim>\<open>.catch(...)\<close>, then \<^verbatim>\<open>.then(() => { this.hooks('afterStoreDocument', hookPayload) ... })\<close>.
  Nothing handles a rejection that leaves the \<^verbatim>\<open>.catch\<close>.
\<close>

definition onStoreDocument_settled ::
  "store_origin \<Rightarrow> socketId \<Rightarrow> docref \<Rightarrow> unit promise \<Rightarrow> ('p, 'v, 'w) server \<Rightarrow> ('p, 'v, 'w) server" where
  "onStoreDocument_settled origin sid d outcome s =
     (case promise_catch (outcome, s) store_catch of
        (Rejected error, s1) \<Rightarrow> emit (Uncaught error) s1
      | (Resolved _, s1) \<Rightarrow>
          call_hooks afterStoreDocument (Some sid) (document_name (heap s1 ! d)) (Some d)
            (AwaitAfterStoreDocument origin sid d) s1)"

text \<open>
  The \<^verbatim>\<open>afterStoreDocument\<close> chain settles. On the update path nothing follows it; on
  the last-disconnect path its \<^verbatim>\<open>.then\<close> removes the document when it still has no
  connection.
\<close>

definition afterStoreDocument_settled ::
  "store_origin \<Rightarrow> socketId \<Rightarrow> docref \<Rightarrow> unit promise \<Rightarrow> ('p, 'v, 'w) server \<Rightarrow> ('p, 'v, 'w) server" where
  "afterStoreDocument_settled origin sid d outcome s =
     (case outcome of
        Rejected error \<Rightarrow> emit (Uncaught error) s
      | Resolved _ \<Rightarrow>
          (case origin of
             OnUpdate \<Rightarrow> s
           | OnLastDisconnect \<Rightarrow>
               if length (connections (heap s ! d)) > 0 then s
               else destroy d (s\<lparr>documents := AList.delete (document_name (heap s ! d)) (documents s)\<rparr>)))"

text \<open>
  The \<^verbatim>\<open>.then\<close> of \<^verbatim>\<open>this.hooks('onDisconnect', hookPayload)\<close> in the first \<^verbatim>\<open>onClose\<close>
  callback. The chain has no \<^verbatim>\<open>.catch\<close>.
\<close>

definition onDisconnect_settled ::
  "socketId \<Rightarrow> docref \<Rightarrow> unit promise \<Rightarrow> ('p, 'v, 'w) server \<Rightarrow> ('p, 'v, 'w) server" where
  "onDisconnect_settled sid d outcome s =
     (case outcome of
        Rejected error \<Rightarrow> emit (Uncaught error) s
      | Resolved _ \<Rightarrow>
          if length (connections (heap s ! d)) > 0 then s
          else if \<not> isLoading (heap s ! d)
          then debounce (''onStoreDocument-'' @ document_name (heap s ! d))
                 (StoreDocument OnLastDisconnect sid d) True s
          else destroy d (s\<lparr>documents := AList.delete (document_name (heap s ! d)) (documents s)\<rparr>))"

subsection \<open>\<^verbatim>\<open>handleConnection\<close> and the events of the loop\<close>

text \<open>
  \<^verbatim>\<open>get requiresAuthentication()\<close>: some extension defines \<^verbatim>\<open>onAuthenticate\<close>.
\<close>

definition get_requiresAuthentication :: "('p, 'v, 'w) server \<Rightarrow> bool" where
  "get_requiresAuthentication s =
     list_ex (\<lambda>extension. handlers extension onAuthenticate \<noteq> None) (extensions (configuration s))"

text \<open>
  \<^verbatim>\<open>handleConnection(incoming, request)\<close>: a fresh set of closure variables, the idle
  timer armed, \<^verbatim>\<open>messageHandler\<close> listening.
\<close>

definition handleConnection :: "('p, 'v, 'w) server \<Rightarrow> ('p, 'v, 'w) server" where
  "handleConnection s =
     s\<lparr>sockets := sockets s @
         [\<lparr>connection = \<lparr>readOnly = False,
                          requiresAuthentication = get_requiresAuthentication s,
                          isAuthenticated = False\<rparr>,
           documentConnections = [], incomingMessageQueue = [], connectionEstablishing = [],
           closeIdleConnection = True, readyState = Open, instances = []\<rparr>]\<rparr>"

text \<open>The idle timer fires: \<^verbatim>\<open>incoming.close(Unauthorized.code, Unauthorized.reason)\<close>.\<close>

definition idle_timeout :: "socketId \<Rightarrow> ('p, 'v, 'w) server \<Rightarrow> ('p, 'v, 'w) server" where
  "idle_timeout sid s =
     (if closeIdleConnection (sockets s ! sid)
      then close_with sid (Unauthorized (library s))
             (on_socket sid (\<lambda>t. t\<lparr>closeIdleConnection := False\<rparr>) s)
      else s)"

text \<open>
  A suspended computation resumes. The settlement is recorded, then the continuation
  of the source runs to its next suspension.
\<close>

fun resume :: "task \<Rightarrow> unit promise \<Rightarrow> ('p, 'v, 'w) server \<Rightarrow> ('p, 'v, 'w) server" where
  "resume (AwaitOnConnect sid n) outcome s = onConnect_settled sid n outcome s"
| "resume (AwaitOnAuthenticate sid n) outcome s = onAuthenticate_settled sid n outcome s"
| "resume (AwaitDenialSent sid error) outcome s = denial_sent sid error s"
| "resume (AwaitOnLoadDocument via sid n d) outcome s = onLoadDocument_settled via sid n d outcome s"
| "resume (AwaitAfterLoadDocument via sid n d) outcome s = afterLoadDocument_settled via sid n d outcome s"
| "resume (AwaitCreateDocument via sid n d) outcome s = createDocument_settled via sid n d s"
| "resume (AwaitOnDisconnect sid d) outcome s = onDisconnect_settled sid d outcome s"
| "resume (AwaitOnStoreDocument origin sid d) outcome s = onStoreDocument_settled origin sid d outcome s"
| "resume (AwaitAfterStoreDocument origin sid d) outcome s = afterStoreDocument_settled origin sid d outcome s"
| "resume (Detached hook) outcome s =
     (case outcome of Rejected error \<Rightarrow> emit (Uncaught error) s | Resolved _ \<Rightarrow> s)"

text \<open>
  What can happen between two turns of the event loop:
  \<^item> \<open>Accept\<close>: the WebSocket server hands a new transport to \<^verbatim>\<open>handleConnection\<close>;
  \<^item> \<open>Message\<close>: a transport emits \<^verbatim>\<open>'message'\<close>;
  \<^item> \<open>Settle\<close>: a suspended computation is resumed with the outcome of what it waits for;
  \<^item> \<open>HookSets\<close>: a running handler assigns the \<^verbatim>\<open>ConnectionConfiguration\<close> it received in
    its payload (\<^verbatim>\<open>connection\<close> is passed by reference);
  \<^item> \<open>ConnectionCloses\<close>: \<^verbatim>\<open>close(event)\<close> is called on the connection of a transport for
    a document name (by the connection itself or by an extension);
  \<^item> \<open>CloseConnections\<close>: \<^verbatim>\<open>closeConnections(documentName?)\<close> is called;
  \<^item> \<open>SocketClosed\<close>: the socket reaches the closed state;
  \<^item> \<open>DocumentUpdated\<close>: a document emits an update with its origin connection;
  \<^item> \<open>TimeoutElapses\<close>, \<open>IdleTimeout\<close>: a timer fires;
  \<^item> \<open>Tick\<close>: time passes.
\<close>

datatype event =
    Accept
  | Message socketId frame
  | Settle task "unit promise"
  | HookSets socketId ConnectionConfiguration
  | ConnectionCloses socketId documentName "CloseEvent option"
  | CloseConnections "documentName option"
  | SocketClosed socketId
  | DocumentUpdated docref "socketId option"
  | TimeoutElapses handle
  | IdleTimeout socketId
  | Tick nat

text \<open>
  The references a suspended computation holds are to existing transports and documents.
\<close>

fun task_refs :: "task \<Rightarrow> socketId option \<times> docref option" where
  "task_refs (AwaitOnConnect sid n) = (Some sid, None)"
| "task_refs (AwaitOnAuthenticate sid n) = (Some sid, None)"
| "task_refs (AwaitDenialSent sid error) = (Some sid, None)"
| "task_refs (AwaitOnLoadDocument via sid n d) = (Some sid, Some d)"
| "task_refs (AwaitAfterLoadDocument via sid n d) = (Some sid, Some d)"
| "task_refs (AwaitCreateDocument via sid n d) = (Some sid, Some d)"
| "task_refs (AwaitOnDisconnect sid d) = (Some sid, Some d)"
| "task_refs (AwaitOnStoreDocument origin sid d) = (Some sid, Some d)"
| "task_refs (AwaitAfterStoreDocument origin sid d) = (Some sid, Some d)"
| "task_refs (Detached hook) = (None, None)"

definition known :: "('p, 'v, 'w) server \<Rightarrow> socketId option \<times> docref option \<Rightarrow> bool" where
  "known s refs =
     ((case fst refs of None \<Rightarrow> True | Some sid \<Rightarrow> sid < length (sockets s))
      \<and> (case snd refs of None \<Rightarrow> True | Some d \<Rightarrow> d < length (heap s)))"

text \<open>
  One turn of the event loop. An event that refers to a transport, document or
  suspended computation that does not exist changes nothing. An update reaches
  \<^verbatim>\<open>handleDocumentUpdate\<close> only through the callback \<^verbatim>\<open>createDocument\<close> registers.
\<close>

fun step :: "event \<Rightarrow> ('p, 'v, 'w) server \<Rightarrow> ('p, 'v, 'w) server" where
  "step Accept s = handleConnection s"
| "step (Message sid data) s =
     (if known s (Some sid, None) then socket_message sid data s else s)"
| "step (Settle k outcome) s =
     (if k \<in> set (pending s) \<and> known s (task_refs k)
      then resume k outcome (emit (Settled k outcome) (s\<lparr>pending := remove1 k (pending s)\<rparr>))
      else s)"
| "step (HookSets sid c) s =
     (if known s (Some sid, None) then on_socket sid (\<lambda>t. t\<lparr>connection := c\<rparr>) s else s)"
| "step (ConnectionCloses sid n ev) s =
     (if known s (Some sid, None) then connection_close sid n ev s else s)"
| "step (CloseConnections n) s = closeConnections n s"
| "step (SocketClosed sid) s =
     (if known s (Some sid, None) then on_socket sid (\<lambda>t. t\<lparr>readyState := Closed\<rparr>) s else s)"
| "step (DocumentUpdated d origin) s =
     (if known s (origin, Some d) \<and> onUpdate_wired (heap s ! d)
      then handleDocumentUpdate d origin s else s)"
| "step (TimeoutElapses h) s = timeout_elapses h s"
| "step (IdleTimeout sid) s =
     (if known s (Some sid, None) then idle_timeout sid s else s)"
| "step (Tick n) s = s\<lparr>clock := clock s + int n\<rparr>"

text \<open>A run of the server: the events in order, from a given state.\<close>

definition run_events :: "event list \<Rightarrow> ('p, 'v, 'w) server \<Rightarrow> ('p, 'v, 'w) server" where
  "run_events es s = foldl (\<lambda>s1 e. step e s1) s es"

section \<open>Notions the theorems are stated with\<close>

text \<open>The documents the registry holds under a name, in registry order.\<close>

definition registered :: "('p, 'v, 'w) server \<Rightarrow> documentName \<Rightarrow> docref list" where
  "registered s n = map snd (filter (\<lambda>entry. fst entry = n) (documents s))"

text \<open>
  A timer entry is scheduled when the timeout it names is pending, belongs to the entry's
  key and is due less than \<open>slack\<close> after the entry's start.
\<close>

definition entry_scheduled :: "(handle \<times> scheduled) list \<Rightarrow> int \<Rightarrow> string \<times> timer \<Rightarrow> bool" where
  "entry_scheduled pending_timeouts slack entry =
     (case map_of pending_timeouts (timeout (snd entry)) of
        None \<Rightarrow> False
      | Some sc \<Rightarrow> run_id sc = fst entry \<and> due sc < start (snd entry) + slack)"

text \<open>
  Every entry of \<^verbatim>\<open>this.timers\<close> is scheduled with a slack of
  \<^verbatim>\<open>maxDebounce + debounce\<close>.
\<close>

definition stall_bounded :: "('p, 'v, 'w) server \<Rightarrow> bool" where
  "stall_bounded s =
     list_all (entry_scheduled (timeouts s)
                 (config_maxDebounce (configuration s) + config_debounce (configuration s)))
       (timers s)"

text \<open>
  What holds of the debouncer in every state a server reaches when its clock is positive:
  every pending timeout has a handle that was issued, every stored start is positive (so
  \<^verbatim>\<open>old?.start || Date.now()\<close> reads the stored start), \<^verbatim>\<open>this.timers\<close> has one entry
  per key, and the entries are scheduled as above.
\<close>

definition debouncer_inv :: "('p, 'v, 'w) server \<Rightarrow> bool" where
  "debouncer_inv s =
     (0 < clock s
      \<and> list_all (\<lambda>pending_timeout. fst pending_timeout < next_handle s) (timeouts s)
      \<and> list_all (\<lambda>entry. 0 < start (snd entry)) (timers s)
      \<and> distinct (map fst (timers s))
      \<and> stall_bounded s)"

text \<open>\<^verbatim>\<open>if (old?.timeout) { clearTimeout(old.timeout) }\<close> for a key.\<close>

definition cancel_old :: "string \<Rightarrow> ('p, 'v, 'w) server \<Rightarrow> ('p, 'v, 'w) server" where
  "cancel_old key s =
     (case map_of (timers s) key of None \<Rightarrow> s | Some e \<Rightarrow> clearTimeout (timeout e) s)"

text \<open>
  How often the \<^verbatim>\<open>onAuthenticate\<close> chain has been started for a transport and a document
  name, how often a \<^verbatim>\<open>Connection\<close> of that transport for that name has closed, and whether
  \<^verbatim>\<open>connectionEstablishing[documentName]\<close> is set on the transport.
\<close>

definition auth_starts :: "socketId \<Rightarrow> documentName \<Rightarrow> ('p, 'v, 'w) server \<Rightarrow> nat" where
  "auth_starts sid n s = count_list (effects s) (HookCall onAuthenticate (Some sid) n None)"

fun closes_connection :: "socketId \<Rightarrow> documentName \<Rightarrow> effect \<Rightarrow> bool" where
  "closes_connection sid n (ConnectionClosed sid' n' d) = (sid' = sid \<and> n' = n)"
| "closes_connection sid n other = False"

definition connection_closes :: "socketId \<Rightarrow> documentName \<Rightarrow> ('p, 'v, 'w) server \<Rightarrow> nat" where
  "connection_closes sid n s = length (filter (closes_connection sid n) (effects s))"

definition establishing :: "socketId \<Rightarrow> documentName \<Rightarrow> ('p, 'v, 'w) server \<Rightarrow> bool" where
  "establishing sid n s =
     (sid < length (sockets s) \<and> map_of (connectionEstablishing (sockets s ! sid)) n = Some True)"

text \<open>
  The starts of \<^verbatim>\<open>onAuthenticate\<close> still available to a transport and a document name: one
  per closed connection, one more while the handshake flag is set, less the starts so far.
\<close>

definition auth_slack :: "socketId \<Rightarrow> documentName \<Rightarrow> ('p, 'v, 'w) server \<Rightarrow> int" where
  "auth_slack sid n s =
     int (connection_closes sid n s) + (if establishing sid n s then 1 else 0)
       - int (auth_starts sid n s)"

definition socket_count :: "('p, 'v, 'w) server \<Rightarrow> nat" where
  "socket_count s = length (sockets s)"

text \<open>
  The effects by which a transport is served under a document name:
  \<^verbatim>\<open>setUpNewConnection(documentName)\<close> shows in the trace as the \<^verbatim>\<open>onLoadDocument\<close>,
  \<^verbatim>\<open>afterLoadDocument\<close> and \<^verbatim>\<open>connected\<close> chains started with the transport's payload, and
  the \<^verbatim>\<open>Connection\<close> it creates as the messages delivered to it.
\<close>

fun serves :: "socketId \<Rightarrow> documentName \<Rightarrow> effect \<Rightarrow> bool" where
  "serves sid n (Delivered sid' n' data d) = (sid' = sid \<and> n' = n)"
| "serves sid n (HookCall h sid' n' d) =
     (sid' = Some sid \<and> n' = n \<and> (h = onLoadDocument \<or> h = afterLoadDocument \<or> h = connected))"
| "serves sid n other = False"

text \<open>The \<^verbatim>\<open>onAuthenticate\<close> chain of a transport for a document name resolves.\<close>

fun resolves_authentication :: "socketId \<Rightarrow> documentName \<Rightarrow> effect \<Rightarrow> bool" where
  "resolves_authentication sid n (Settled k outcome) =
     (k = AwaitOnAuthenticate sid n \<and> outcome = Resolved ())"
| "resolves_authentication sid n other = False"

text \<open>
  In a trace, nothing serves the transport under the document name before its
  \<^verbatim>\<open>onAuthenticate\<close> chain for that name has resolved.
\<close>

fun served_after_authentication :: "socketId \<Rightarrow> documentName \<Rightarrow> effect list \<Rightarrow> bool" where
  "served_after_authentication sid n [] = True"
| "served_after_authentication sid n (e # es) =
     (if resolves_authentication sid n e then True
      else if serves sid n e then False
      else served_after_authentication sid n es)"

definition auth_done :: "socketId \<Rightarrow> documentName \<Rightarrow> ('p, 'v, 'w) server \<Rightarrow> bool" where
  "auth_done sid n s = list_ex (resolves_authentication sid n) (effects s)"

text \<open>The suspended computations of \<^verbatim>\<open>setUpNewConnection\<close> for a transport and a name.\<close>

fun attaches :: "socketId \<Rightarrow> documentName \<Rightarrow> task \<Rightarrow> bool" where
  "attaches sid n (AwaitOnLoadDocument via sid' n' d) = (sid' = sid \<and> n' = n)"
| "attaches sid n (AwaitAfterLoadDocument via sid' n' d) = (sid' = sid \<and> n' = n)"
| "attaches sid n (AwaitCreateDocument via sid' n' d) = (sid' = sid \<and> n' = n)"
| "attaches sid n other = False"

text \<open>
  The transport still requires authentication and nothing of a connection to the name
  exists for it: no \<^verbatim>\<open>Connection\<close> instance and no suspended \<^verbatim>\<open>setUpNewConnection\<close>.
\<close>

definition unattached :: "socketId \<Rightarrow> documentName \<Rightarrow> ('p, 'v, 'w) server \<Rightarrow> bool" where
  "unattached sid n s =
     ((sid < length (sockets s) \<longrightarrow>
         requiresAuthentication (connection (sockets s ! sid))
         \<and> map_of (instances (sockets s ! sid)) n = None)
      \<and> list_all (\<lambda>k. \<not> attaches sid n k) (pending s))"

definition secure :: "socketId \<Rightarrow> documentName \<Rightarrow> ('p, 'v, 'w) server \<Rightarrow> bool" where
  "secure sid n s =
     (served_after_authentication sid n (effects s) \<and> (auth_done sid n s \<or> unattached sid n s))"

text \<open>
  An event that leaves \<^verbatim>\<open>connection.requiresAuthentication\<close> set: every event but a handler
  assigning a \<^verbatim>\<open>ConnectionConfiguration\<close> in which the flag is false.
\<close>

fun keeps_requiresAuthentication :: "event \<Rightarrow> bool" where
  "keeps_requiresAuthentication (HookSets sid c) = requiresAuthentication c"
| "keeps_requiresAuthentication e = True"

section \<open>Concrete configurations used to exercise the theorems\<close>

definition example_accepting :: "nat \<Rightarrow> (unit, nat, nat list) extension" where
  "example_accepting k =
     \<lparr>priority = None,
      handlers = (\<lambda>n. if n = onConnect then Some (\<lambda>p w. (Resolved None, w @ [k])) else None)\<rparr>"

definition example_silent :: "(unit, nat, nat list) extension" where
  "example_silent = \<lparr>priority = Some 200, handlers = (\<lambda>n. None)\<rparr>"

definition example_denying :: "(unit, nat, nat list) extension" where
  "example_denying =
     \<lparr>priority = None,
      handlers = (\<lambda>n. if n = onConnect
         then Some (\<lambda>p w. (Rejected (Thrown (Some 4403) None (Some ''denied'')), w @ [3]))
         else None)\<rparr>"

definition example_callback :: "(nat, nat list) callback" where
  "example_callback v w = (Resolved None, w @ [100])"

definition example_run :: "nat list hook_run" where
  "example_run = \<lparr>world = [], console = [], invoked = [], called_back = []\<rparr>"

text \<open>
  A library instance: the close events as \<^verbatim>\<open>@hocuspocus/common\<close> defines them and the
  status codes \<^verbatim>\<open>ws\<close> accepts (1000 to 1014 without 1004 to 1006, and 3000 to 4999).
\<close>

definition example_library :: library where
  "example_library =
     \<lparr>Forbidden = \<lparr>code = 4403, reason = ''Forbidden''\<rparr>,
      Unauthorized = \<lparr>code = 4401, reason = ''Unauthorized''\<rparr>,
      ResetConnection = \<lparr>code = 4205, reason = ''Reset Connection''\<rparr>,
      close_throws = (\<lambda>c r. case c of
          None \<Rightarrow> False
        | Some x \<Rightarrow> \<not> ((1000 \<le> x \<and> x \<le> 1014 \<and> x \<noteq> 1004 \<and> x \<noteq> 1005 \<and> x \<noteq> 1006)
                       \<or> (3000 \<le> x \<and> x \<le> 4999)))\<rparr>"

text \<open>A server without extensions, and one whose only extension authenticates.\<close>

definition example_open :: "(unit, nat, nat list) Configuration" where
  "example_open =
     \<lparr>extensions = [], config_timeout = 30000, config_debounce = 2000, config_maxDebounce = 10000\<rparr>"

definition example_authenticator :: "(unit, nat, nat list) extension" where
  "example_authenticator =
     \<lparr>priority = None,
      handlers = (\<lambda>n. if n = onAuthenticate \<or> n = onConnect
                       then Some (\<lambda>p w. (Resolved None, w)) else None)\<rparr>"

definition example_guarded :: "(unit, nat, nat list) Configuration" where
  "example_guarded =
     \<lparr>extensions = [example_authenticator], config_timeout = 30000, config_debounce = 2000,
      config_maxDebounce = 10000\<rparr>"

text \<open>
  One transport attaches to \<^verbatim>\<open>"doc"\<close> on a server without authentication: first message,
  \<^verbatim>\<open>onConnect\<close>, load, attach.
\<close>

definition example_attach :: "event list" where
  "example_attach =
     [Accept, Message 0 (Frame ''doc'' Sync None),
      Settle (AwaitOnConnect 0 ''doc'') (Resolved ()),
      Settle (AwaitOnLoadDocument ViaOnConnect 0 ''doc'' 0) (Resolved ()),
      Settle (AwaitAfterLoadDocument ViaOnConnect 0 ''doc'' 0) (Resolved ()),
      Settle (AwaitCreateDocument ViaOnConnect 0 ''doc'' 0) (Resolved ())]"

text \<open>
  Two transports on \<^verbatim>\<open>"doc"\<close>, no authentication. The first one's attach constructs document
  0 and waits for \<^verbatim>\<open>onLoadDocument\<close>; the second one's attach gets document 0 back, attaches
  its connection, and that connection closes while the load is still pending.
\<close>

definition example_late_load :: "event list" where
  "example_late_load =
     [Accept, Accept,
      Message 0 (Frame ''doc'' Sync None),
      Settle (AwaitOnConnect 0 ''doc'') (Resolved ()),
      Message 1 (Frame ''doc'' Sync None),
      Settle (AwaitOnConnect 1 ''doc'') (Resolved ()),
      Settle (AwaitCreateDocument ViaOnConnect 1 ''doc'' 0) (Resolved ()),
      ConnectionCloses 1 ''doc'' None]"

text \<open>
  One transport on a server that authenticates. It attaches to \<^verbatim>\<open>"a"\<close> and to \<^verbatim>\<open>"b"\<close>, each with
  an \<^verbatim>\<open>Auth\<close> message; then \<^verbatim>\<open>closeConnections("b")\<close> closes its connection to \<^verbatim>\<open>"b"\<close> (the socket
  stays open for \<^verbatim>\<open>"a"\<close>), and the transport sends a second \<^verbatim>\<open>Auth\<close> message for \<^verbatim>\<open>"b"\<close>.
\<close>

definition example_reattach :: "event list" where
  "example_reattach =
     [Accept,
      Message 0 (Frame ''a'' Auth (Some ''t'')),
      Settle (AwaitOnAuthenticate 0 ''a'') (Resolved ()),
      Settle (AwaitOnLoadDocument ViaOnAuthenticate 0 ''a'' 0) (Resolved ()),
      Settle (AwaitAfterLoadDocument ViaOnAuthenticate 0 ''a'' 0) (Resolved ()),
      Settle (AwaitCreateDocument ViaOnAuthenticate 0 ''a'' 0) (Resolved ()),
      Message 0 (Frame ''b'' Auth (Some ''t'')),
      Settle (AwaitOnAuthenticate 0 ''b'') (Resolved ()),
      Settle (AwaitOnLoadDocument ViaOnAuthenticate 0 ''b'' 1) (Resolved ()),
      Settle (AwaitAfterLoadDocument ViaOnAuthenticate 0 ''b'' 1) (Resolved ()),
      Settle (AwaitCreateDocument ViaOnAuthenticate 0 ''b'' 1) (Resolved ()),
      CloseConnections (Some ''b''),
      Message 0 (Frame ''b'' Auth (Some ''t''))]"

text \<open>
  The only transport on \<^verbatim>\<open>"doc"\<close> closes its connection and the last-disconnect path starts
  \<^verbatim>\<open>onStoreDocument\<close>. A second transport attaches to the still registered document before
  the \<^verbatim>\<open>onStoreDocument\<close> chain resolves and \<^verbatim>\<open>afterStoreDocument\<close> is started.
\<close>

definition example_store_overlap :: "event list" where
  "example_store_overlap =
     example_attach @
     [ConnectionCloses 0 ''doc'' None,
      Settle (AwaitOnDisconnect 0 0) (Resolved ()),
      Accept,
      Message 1 (Frame ''doc'' Sync None),
      Settle (AwaitOnConnect 1 ''doc'') (Resolved ()),
      Settle (AwaitCreateDocument ViaOnConnect 1 ''doc'' 0) (Resolved ()),
      Settle (AwaitOnStoreDocument OnLastDisconnect 0 0) (Resolved ())]"

text \<open>
  One transport on a server that authenticates. Its first message for \<^verbatim>\<open>"doc"\<close> is a
  \<^verbatim>\<open>Sync\<close> message, which is queued; a handler makes the connection read-only; the
  \<^verbatim>\<open>onConnect\<close> chain resolves; then the \<^verbatim>\<open>Auth\<close> message arrives, the \<^verbatim>\<open>onAuthenticate\<close>
  chain resolves, the document is loaded and the queue is replayed into the connection.
\<close>

definition example_authenticated_attach :: "event list" where
  "example_authenticated_attach =
     [Accept,
      Message 0 (Frame ''doc'' Sync None),
      HookSets 0 \<lparr>readOnly = True, requiresAuthentication = True, isAuthenticated = False\<rparr>,
      Settle (AwaitOnConnect 0 ''doc'') (Resolved ()),
      Message 0 (Frame ''doc'' Auth (Some ''t'')),
      Settle (AwaitOnAuthenticate 0 ''doc'') (Resolved ()),
      Settle (AwaitOnLoadDocument ViaOnAuthenticate 0 ''doc'' 0) (Resolved ()),
      Settle (AwaitAfterLoadDocument ViaOnAuthenticate 0 ''doc'' 0) (Resolved ()),
      Settle (AwaitCreateDocument ViaOnAuthenticate 0 ''doc'' 0) (Resolved ())]"

text \<open>
  The same server. While the \<^verbatim>\<open>onConnect\<close> chain of the first message runs, a handler
  assigns \<^verbatim>\<open>connection.requiresAuthentication = false\<close> in its payload; the chain resolves
  and the transport is attached without an \<^verbatim>\<open>Auth\<close> message.
\<close>

definition example_exempted :: "event list" where
  "example_exempted =
     [Accept,
      Message 0 (Frame ''doc'' Sync None),
      HookSets 0 \<lparr>readOnly = False, requiresAuthentication = False, isAuthenticated = False\<rparr>,
      Settle (AwaitOnConnect 0 ''doc'') (Resolved ()),
      Settle (AwaitOnLoadDocument ViaOnConnect 0 ''doc'' 0) (Resolved ()),
      Settle (AwaitAfterLoadDocument ViaOnConnect 0 ''doc'' 0) (Resolved ()),
      Settle (AwaitCreateDocument ViaOnConnect 0 ''doc'' 0) (Resolved ())]"

section \<open>The hook chain is sequential and stops at the first rejection\<close>

lemma hooks_link_rejected:
  "hooks_link name payload callback (Rejected e, st) ie =
     (Rejected e, if has_message e
                  then st\<lparr>console := console st @ [(name, the (error_message e))]\<rparr> else st)"
  by (simp add: hooks_link_def promise_then_def promise_catch_def log_and_rethrow_def Let_def
           split: option.split)

lemma foldl_hooks_link_rejected:
  "\<exists>st'. foldl (hooks_link name payload callback) (Rejected e, st) xs = (Rejected e, st')
     \<and> world st' = world st \<and> invoked st' = invoked st \<and> called_back st' = called_back st"
proof (induction xs arbitrary: st)
  case Nil
  show ?case by simp
next
  case (Cons x xs)
  show ?case
  proof (cases "has_message e")
    case True
    with Cons [of "st\<lparr>console := console st @ [(name, the (error_message e))]\<rparr>"]
    show ?thesis by (simp add: hooks_link_rejected)
  next
    case False
    with Cons [of st] show ?thesis by (simp add: hooks_link_rejected)
  qed
qed

lemma hooks_link_resolved_invoked:
  assumes "has_hook name ie"
  shows "\<exists>c st'. hooks_link name payload callback (Resolved v, st) ie = (c, st')
          \<and> invoked st' = invoked st @ [fst ie]"
  using assms
  by (auto simp: hooks_link_def promise_then_def promise_catch_def log_and_rethrow_def
        call_handler_def run_callback_def has_hook_def Let_def
        split: option.split prod.split promise.split)

lemma foldl_hooks_link_prefix:
  assumes "\<forall>x \<in> set xs. has_hook name x"
  shows "\<exists>k. invoked (snd (foldl (hooks_link name payload callback) (c, st) xs))
           = invoked st @ take k (map fst xs)"
  using assms
proof (induction xs arbitrary: c st)
  case Nil
  show ?case by simp
next
  case (Cons x xs)
  show ?case
  proof (cases c)
    case (Rejected e)
    obtain st' where "foldl (hooks_link name payload callback) (Rejected e, st) (x # xs) = (Rejected e, st')"
      and "invoked st' = invoked st"
      using foldl_hooks_link_rejected [of name payload callback e st "x # xs"] by blast
    with Rejected have "invoked (snd (foldl (hooks_link name payload callback) (c, st) (x # xs)))
        = invoked st @ take 0 (map fst (x # xs))" by simp
    then show ?thesis by blast
  next
    case (Resolved v)
    from Cons.prems have hx: "has_hook name x" by simp
    obtain c' st' where step: "hooks_link name payload callback (Resolved v, st) x = (c', st')"
      and inv: "invoked st' = invoked st @ [fst x]"
      using hooks_link_resolved_invoked [OF hx] by blast
    from Cons.prems have "\<forall>y \<in> set xs. has_hook name y" by simp
    from Cons.IH [OF this, of c' st'] obtain k where
      "invoked (snd (foldl (hooks_link name payload callback) (c', st') xs))
         = invoked st' @ take k (map fst xs)" by blast
    with Resolved step inv
    have "invoked (snd (foldl (hooks_link name payload callback) (c, st) (x # xs)))
        = invoked st @ take (Suc k) (map fst (x # xs))" by simp
    then show ?thesis by blast
  qed
qed

lemma hooks_invoked_prefix:
  "\<exists>k. invoked (snd (hooks name payload callback exts st))
       = invoked st @ take k (hook_positions name exts)"
  unfolding hooks_def hook_positions_def
  by (rule foldl_hooks_link_prefix) simp

lemma filter_enumerate_split:
  "filter (has_hook name) (enumerate 0 (pre @ x # post)) =
     filter (has_hook name) (enumerate 0 pre) @
     filter (has_hook name) [(length pre, x)] @
     filter (has_hook name) (enumerate (Suc (length pre)) post)"
  by (simp add: enumerate_append_eq)

lemma hooks_stops_at_rejection:
  assumes h: "handlers x name = Some h"
    and pre: "hooks name payload callback pre st = (Resolved v, st1)"
    and rej: "h payload (world st1) = (Rejected e, w)"
  shows "fst (hooks name payload callback (pre @ x # post) st) = Rejected e
       \<and> invoked (snd (hooks name payload callback (pre @ x # post) st)) = invoked st1 @ [length pre]
       \<and> called_back (snd (hooks name payload callback (pre @ x # post) st)) = called_back st1
       \<and> world (snd (hooks name payload callback (pre @ x # post) st)) = w"
proof -
  let ?link = "hooks_link name payload callback"
  have hx: "has_hook name (length pre, x)" using h by (simp add: has_hook_def)
  have one: "\<exists>st2. ?link (Resolved v, st1) (length pre, x) = (Rejected e, st2)
      \<and> world st2 = w \<and> invoked st2 = invoked st1 @ [length pre] \<and> called_back st2 = called_back st1"
    using h rej
    by (auto simp: hooks_link_def promise_then_def promise_catch_def log_and_rethrow_def
          call_handler_def Let_def split: option.split)
  then obtain st2 where s2: "?link (Resolved v, st1) (length pre, x) = (Rejected e, st2)"
    and w2: "world st2 = w" "invoked st2 = invoked st1 @ [length pre]" "called_back st2 = called_back st1"
    by blast
  obtain st3 where s3: "foldl ?link (Rejected e, st2)
        (filter (has_hook name) (enumerate (Suc (length pre)) post)) = (Rejected e, st3)"
    and w3: "world st3 = world st2" "invoked st3 = invoked st2" "called_back st3 = called_back st2"
    using foldl_hooks_link_rejected [of name payload callback e st2
        "filter (has_hook name) (enumerate (Suc (length pre)) post)"] by blast
  have "hooks name payload callback (pre @ x # post) st = (Rejected e, st3)"
    using pre hx s2 s3 by (simp add: hooks_def filter_enumerate_split)
  with w2 w3 show ?thesis by simp
qed


lemma foldl_hooks_link_resolved_all:
  assumes "\<forall>x \<in> set xs. has_hook name x"
    and "fst (foldl (hooks_link name payload callback) (c, st) xs) = Resolved v"
  shows "invoked (snd (foldl (hooks_link name payload callback) (c, st) xs))
           = invoked st @ map fst xs"
  using assms
proof (induction xs arbitrary: c st)
  case Nil
  show ?case by simp
next
  case (Cons x xs)
  show ?case
  proof (cases c)
    case (Rejected e)
    obtain st' where "foldl (hooks_link name payload callback) (Rejected e, st) (x # xs) = (Rejected e, st')"
      using foldl_hooks_link_rejected [of name payload callback e st "x # xs"] by blast
    with Rejected Cons.prems(2) show ?thesis by simp
  next
    case (Resolved v0)
    from Cons.prems have hx: "has_hook name x" by simp
    obtain c' st' where step: "hooks_link name payload callback (Resolved v0, st) x = (c', st')"
      and inv: "invoked st' = invoked st @ [fst x]"
      using hooks_link_resolved_invoked [OF hx] by blast
    from Cons.prems have all: "\<forall>y \<in> set xs. has_hook name y" by simp
    from Cons.prems(2) Resolved step
    have "fst (foldl (hooks_link name payload callback) (c', st') xs) = Resolved v" by simp
    from Cons.IH [OF all this] Resolved step inv show ?thesis by simp
  qed
qed

lemma hooks_resolved_all_invoked:
  assumes "fst (hooks name payload callback exts st) = Resolved v"
  shows "invoked (snd (hooks name payload callback exts st))
       = invoked st @ hook_positions name exts"
  using assms unfolding hooks_def hook_positions_def
  by (intro foldl_hooks_link_resolved_all) simp_all

text \<open>
  Claim C3. For every hook name, payload, callback and extension list, \<^verbatim>\<open>hooks\<close> calls
  the handlers one after the other in the stored extension order: the handlers called
  are always an initial segment of the extensions that have the hook, and all of them
  when the chain resolves. When the handler of an extension rejects (after the chain
  over the exts before it has resolved), the chain settles with exactly that
  rejection, and nothing runs after it: the last handler called is the rejecting one,
  no per-hook callback runs after it, and the world is left as the rejecting handler
  left it.
\<close>

theorem hooks_sequential_stops_at_rejection:
  "(\<exists>k. invoked (snd (hooks name payload callback exts st))
         = invoked st @ take k (hook_positions name exts))
   \<and> (\<forall>v. fst (hooks name payload callback exts st) = Resolved v \<longrightarrow>
         invoked (snd (hooks name payload callback exts st))
           = invoked st @ hook_positions name exts)
   \<and> (\<forall>pre x post h v st1 e w.
         exts = pre @ x # post \<and> handlers x name = Some h
         \<and> hooks name payload callback pre st = (Resolved v, st1)
         \<and> h payload (world st1) = (Rejected e, w) \<longrightarrow>
           fst (hooks name payload callback exts st) = Rejected e
         \<and> invoked (snd (hooks name payload callback exts st)) = invoked st1 @ [length pre]
         \<and> called_back (snd (hooks name payload callback exts st)) = called_back st1
         \<and> world (snd (hooks name payload callback exts st)) = w)"
proof (intro conjI allI impI)
  show "\<exists>k. invoked (snd (hooks name payload callback exts st))
         = invoked st @ take k (hook_positions name exts)"
    by (rule hooks_invoked_prefix)
next
  fix v assume "fst (hooks name payload callback exts st) = Resolved v"
  then show "invoked (snd (hooks name payload callback exts st))
           = invoked st @ hook_positions name exts"
    by (rule hooks_resolved_all_invoked)
next
  fix pre x post h v st1 e w
  assume a: "exts = pre @ x # post \<and> handlers x name = Some h
         \<and> hooks name payload callback pre st = (Resolved v, st1)
         \<and> h payload (world st1) = (Rejected e, w)"
  then have a1: "handlers x name = Some h"
    and a2: "hooks name payload callback pre st = (Resolved v, st1)"
    and a3: "h payload (world st1) = (Rejected e, w)" by simp_all
  have r: "fst (hooks name payload callback (pre @ x # post) st) = Rejected e
       \<and> invoked (snd (hooks name payload callback (pre @ x # post) st)) = invoked st1 @ [length pre]
       \<and> called_back (snd (hooks name payload callback (pre @ x # post) st)) = called_back st1
       \<and> world (snd (hooks name payload callback (pre @ x # post) st)) = w"
    by (rule hooks_stops_at_rejection [OF a1 a2 a3])
  from a r show "fst (hooks name payload callback exts st) = Rejected e" by simp
  from a r show "invoked (snd (hooks name payload callback exts st)) = invoked st1 @ [length pre]" by simp
  from a r show "called_back (snd (hooks name payload callback exts st)) = called_back st1" by simp
  from a r show "world (snd (hooks name payload callback exts st)) = w" by simp
qed

text \<open>
  The theorem at four exts, of which the second has no \<^verbatim>\<open>onConnect\<close> handler and
  the third rejects: the first and third handlers are called, the callback runs once,
  the fourth handler never runs.
\<close>

theorem hooks_sequential_stops_at_rejection_witness:
  "fst (hooks onConnect () (Some example_callback)
          [example_accepting 1, example_silent, example_denying, example_accepting 4] example_run)
     = Rejected (Thrown (Some 4403) None (Some ''denied''))
   \<and> invoked (snd (hooks onConnect () (Some example_callback)
          [example_accepting 1, example_silent, example_denying, example_accepting 4] example_run))
     = [0, 2]
   \<and> called_back (snd (hooks onConnect () (Some example_callback)
          [example_accepting 1, example_silent, example_denying, example_accepting 4] example_run))
     = [0]
   \<and> world (snd (hooks onConnect () (Some example_callback)
          [example_accepting 1, example_silent, example_denying, example_accepting 4] example_run))
     = [1, 100, 3]"
proof -
  let ?pre = "[example_accepting 1, example_silent]"
  let ?st1 = "\<lparr>world = [1, 100], console = [], invoked = [0], called_back = [0]\<rparr>"
  let ?h = "\<lambda>(p::unit) (w::nat list). (Rejected (Thrown (Some 4403) None (Some ''denied'')) :: nat option promise, w @ [3])"
  have split: "[example_accepting 1, example_silent, example_denying, example_accepting 4]
      = ?pre @ example_denying # [example_accepting 4]" by simp
  have h: "handlers example_denying onConnect = Some ?h"
    by (simp add: example_denying_def)
  have pre: "hooks onConnect () (Some example_callback) ?pre example_run = (Resolved None, ?st1)"
    by (simp add: hooks_def hooks_link_def has_hook_def call_handler_def run_callback_def
          promise_then_def promise_catch_def example_accepting_def example_silent_def
          example_callback_def example_run_def)
  have rej: "?h () (world ?st1) = (Rejected (Thrown (Some 4403) None (Some ''denied'')), [1, 100, 3])"
    by simp
  have "fst (hooks onConnect () (Some example_callback) (?pre @ example_denying # [example_accepting 4]) example_run)
           = Rejected (Thrown (Some 4403) None (Some ''denied''))
         \<and> invoked (snd (hooks onConnect () (Some example_callback) (?pre @ example_denying # [example_accepting 4]) example_run))
           = invoked ?st1 @ [length ?pre]
         \<and> called_back (snd (hooks onConnect () (Some example_callback) (?pre @ example_denying # [example_accepting 4]) example_run))
           = called_back ?st1
         \<and> world (snd (hooks onConnect () (Some example_callback) (?pre @ example_denying # [example_accepting 4]) example_run))
           = [1, 100, 3]"
    using hooks_sequential_stops_at_rejection
         [of onConnect "()" "Some example_callback"
             "?pre @ example_denying # [example_accepting 4]" example_run,
          THEN conjunct2, THEN conjunct2, rule_format,
          where pre = ?pre and x = example_denying and post = "[example_accepting 4]"
            and h = ?h and v = None and ?st1.0 = ?st1 and w = "[1, 100, 3]"]
      h pre rej by simp
  then show ?thesis by simp
qed

section \<open>Evaluation and frame lemmas\<close>

text \<open>The defining equations of the kernel, for evaluating a run on concrete events.\<close>

lemmas kernel_defs =
  new_server_def emit_def suspend_def call_hooks_def on_socket_def on_document_def ws_close_def
  close_with_def setTimeout_def clearTimeout_def run_def start_of_def debounce_def
  timeout_elapses_def reset_handshake_def connection_close_def closeConnections_def
  onConnect_catch_def onAuthenticate_catch_def denial_sent_def setUp_failed_def frame_name_def
  handleQueueingMessage_def messageHandler_def connection_receives_def socket_message_def
  new_Document_def createDocument_def setUpNewConnection_def onLoadDocument_settled_def
  afterLoadDocument_settled_def createConnection_def createDocument_settled_def
  onConnect_settled_def onAuthenticate_settled_def destroy_def handleDocumentUpdate_def
  store_catch_def onStoreDocument_settled_def afterStoreDocument_settled_def
  onDisconnect_settled_def get_requiresAuthentication_def handleConnection_def idle_timeout_def
  known_def run_events_def promise_catch_def promise_then_def Let_def

text \<open>
  Which kernel function leaves which field of the server alone. Nothing ever writes the
  configuration.
\<close>

subsection \<open>The field \<open>configuration\<close>\<close>

lemma configuration_emit [simp]: "configuration (emit e s) = configuration s"
  by (simp add: emit_def)

lemma configuration_suspend [simp]: "configuration (suspend k s) = configuration s"
  by (simp add: suspend_def)

lemma configuration_call_hooks [simp]: "configuration (call_hooks h sid n d k s) = configuration s"
  by (simp add: call_hooks_def)

lemma configuration_on_socket [simp]: "configuration (on_socket sid f s) = configuration s"
  by (simp add: on_socket_def)

lemma configuration_on_document [simp]: "configuration (on_document d f s) = configuration s"
  by (simp add: on_document_def)

lemma configuration_ws_close [simp]: "configuration (snd (ws_close sid c r s)) = configuration s"
  by (simp add: ws_close_def)

lemma configuration_close_with [simp]: "configuration (close_with sid ev s) = configuration s"
  by (simp add: close_with_def)

lemma configuration_clearTimeout [simp]: "configuration (clearTimeout h s) = configuration s"
  by (simp add: clearTimeout_def)

lemma configuration_setTimeout [simp]: "configuration (snd (setTimeout key func delay s)) = configuration s"
  by (simp add: setTimeout_def)

lemma configuration_call_thunk [simp]: "configuration (call_thunk func s) = configuration s"
  by (cases func) simp

lemma configuration_run [simp]: "configuration (run key func s) = configuration s"
  by (simp add: run_def)

lemma configuration_debounce [simp]: "configuration (debounce key func immediately s) = configuration s"
  by (simp add: debounce_def setTimeout_def Let_def split: option.split)

lemma configuration_timeout_elapses [simp]: "configuration (timeout_elapses h s) = configuration s"
  by (simp add: timeout_elapses_def split: option.split)

lemma configuration_reset_handshake [simp]: "configuration (reset_handshake sid n ev s) = configuration s"
  by (simp add: reset_handshake_def Let_def)

lemma configuration_connection_close [simp]: "configuration (connection_close sid n ev s) = configuration s"
  by (simp add: connection_close_def Let_def split: option.split prod.split)

lemma configuration_close_all [simp]: "configuration (foldl (\<lambda>s2 sid. connection_close sid (f s2) (g s2) s2) s sids) = configuration s"
  by (induction sids arbitrary: s) simp_all

lemma configuration_closeConnections_fold:
  "configuration (foldl (\<lambda>s1 (n, d).
              if (case documentName of None \<Rightarrow> False
                  | Some wanted \<Rightarrow> wanted \<noteq> [] \<and> document_name (heap s1 ! d) \<noteq> wanted)
              then s1
              else foldl (\<lambda>s2 sid. connection_close sid (document_name (heap s2 ! d))
                                     (Some (ResetConnection (library s2))) s2)
                     s1 (connections (heap s1 ! d))) s xs) = configuration s"
  by (induction xs arbitrary: s) (simp_all split: prod.split)

lemma configuration_closeConnections [simp]: "configuration (closeConnections n s) = configuration s"
  unfolding closeConnections_def by (rule configuration_closeConnections_fold)

lemma configuration_onConnect_catch [simp]: "configuration (onConnect_catch sid e s) = configuration s"
  by (simp add: onConnect_catch_def ws_close_def Let_def split: prod.split)

lemma configuration_onAuthenticate_catch [simp]: "configuration (onAuthenticate_catch sid n e s) = configuration s"
  by (simp add: onAuthenticate_catch_def)

lemma configuration_denial_sent [simp]: "configuration (denial_sent sid e s) = configuration s"
  by (simp add: denial_sent_def ws_close_def Let_def split: prod.split)

lemma configuration_setUp_failed [simp]: "configuration (setUp_failed via sid n e s) = configuration s"
  by (simp add: setUp_failed_def split: route.split)

lemma configuration_handleQueueingMessage [simp]: "configuration (handleQueueingMessage sid data s) = configuration s"
  by (simp add: handleQueueingMessage_def Let_def split: frame.split option.split)

lemma configuration_messageHandler [simp]: "configuration (messageHandler sid data s) = configuration s"
  by (simp add: messageHandler_def split: frame.split)

lemma configuration_connection_receives [simp]: "configuration (connection_receives sid data s) = configuration s"
  by (simp add: connection_receives_def split: frame.split option.split prod.split)

lemma configuration_socket_message [simp]: "configuration (socket_message sid data s) = configuration s"
  by (simp add: socket_message_def)

lemma configuration_replay [simp]: "configuration (foldl (\<lambda>s3 input. socket_message sid input s3) s queue) = configuration s"
  by (induction queue arbitrary: s) simp_all

lemma configuration_createConnection [simp]: "configuration (createConnection sid n d s) = configuration s"
  by (simp add: createConnection_def Let_def)

lemma configuration_createDocument_settled [simp]: "configuration (createDocument_settled via sid n d s) = configuration s"
  by (simp add: createDocument_settled_def Let_def split: option.split)

lemma configuration_afterLoadDocument_settled [simp]: "configuration (afterLoadDocument_settled via sid n d outcome s) = configuration s"
  by (simp add: afterLoadDocument_settled_def split: promise.split)

lemma configuration_destroy [simp]: "configuration (destroy d s) = configuration s"
  by (simp add: destroy_def)

lemma configuration_handleConnection [simp]: "configuration (handleConnection s) = configuration s"
  by (simp add: handleConnection_def)

lemma configuration_idle_timeout [simp]: "configuration (idle_timeout sid s) = configuration s"
  by (simp add: idle_timeout_def)

lemma configuration_createDocument [simp]: "configuration (snd (createDocument via sid n s)) = configuration s"
  by (simp add: createDocument_def Let_def split: option.split)

lemma configuration_setUpNewConnection [simp]: "configuration (setUpNewConnection via sid n s) = configuration s"
  by (cases "createDocument via sid n (on_socket sid (\<lambda>t. t\<lparr>closeIdleConnection := False\<rparr>) s)")
     (auto simp: setUpNewConnection_def createDocument_def Let_def split: option.splits)

lemma configuration_onLoadDocument_settled [simp]: "configuration (onLoadDocument_settled via sid n d outcome s) = configuration s"
  by (simp add: onLoadDocument_settled_def Let_def split: promise.split)

lemma configuration_onConnect_settled [simp]: "configuration (onConnect_settled sid n outcome s) = configuration s"
  by (simp add: onConnect_settled_def split: promise.split)

lemma configuration_onAuthenticate_settled [simp]: "configuration (onAuthenticate_settled sid n outcome s) = configuration s"
  by (simp add: onAuthenticate_settled_def split: promise.split)

lemma configuration_handleDocumentUpdate [simp]: "configuration (handleDocumentUpdate d origin s) = configuration s"
  by (simp add: handleDocumentUpdate_def Let_def split: option.split)

lemma configuration_onStoreDocument_settled [simp]: "configuration (onStoreDocument_settled origin sid d outcome s) = configuration s"
  by (simp add: onStoreDocument_settled_def promise_catch_def store_catch_def split: promise.split)

lemma configuration_afterStoreDocument_settled [simp]: "configuration (afterStoreDocument_settled origin sid d outcome s) = configuration s"
  by (simp add: afterStoreDocument_settled_def split: promise.split store_origin.split)

lemma configuration_onDisconnect_settled [simp]: "configuration (onDisconnect_settled sid d outcome s) = configuration s"
  by (simp add: onDisconnect_settled_def split: promise.split)

lemma configuration_resume [simp]: "configuration (resume k outcome s) = configuration s"
  by (cases k) (simp_all split: promise.split)

lemma configuration_step [simp]: "configuration (step e s) = configuration s"
  by (cases e) simp_all

lemma configuration_run_events [simp]: "configuration (run_events es s) = configuration s"
  unfolding run_events_def by (induction es arbitrary: s) simp_all


subsection \<open>The field \<open>documents\<close>\<close>

lemma documents_emit [simp]: "documents (emit e s) = documents s"
  by (simp add: emit_def)

lemma documents_suspend [simp]: "documents (suspend k s) = documents s"
  by (simp add: suspend_def)

lemma documents_call_hooks [simp]: "documents (call_hooks h sid n d k s) = documents s"
  by (simp add: call_hooks_def)

lemma documents_on_socket [simp]: "documents (on_socket sid f s) = documents s"
  by (simp add: on_socket_def)

lemma documents_on_document [simp]: "documents (on_document d f s) = documents s"
  by (simp add: on_document_def)

lemma documents_ws_close [simp]: "documents (snd (ws_close sid c r s)) = documents s"
  by (simp add: ws_close_def)

lemma documents_close_with [simp]: "documents (close_with sid ev s) = documents s"
  by (simp add: close_with_def)

lemma documents_clearTimeout [simp]: "documents (clearTimeout h s) = documents s"
  by (simp add: clearTimeout_def)

lemma documents_setTimeout [simp]: "documents (snd (setTimeout key func delay s)) = documents s"
  by (simp add: setTimeout_def)

lemma documents_call_thunk [simp]: "documents (call_thunk func s) = documents s"
  by (cases func) simp

lemma documents_run [simp]: "documents (run key func s) = documents s"
  by (simp add: run_def)

lemma documents_debounce [simp]: "documents (debounce key func immediately s) = documents s"
  by (simp add: debounce_def setTimeout_def Let_def split: option.split)

lemma documents_timeout_elapses [simp]: "documents (timeout_elapses h s) = documents s"
  by (simp add: timeout_elapses_def split: option.split)

lemma documents_reset_handshake [simp]: "documents (reset_handshake sid n ev s) = documents s"
  by (simp add: reset_handshake_def Let_def)

lemma documents_connection_close [simp]: "documents (connection_close sid n ev s) = documents s"
  by (simp add: connection_close_def Let_def split: option.split prod.split)

lemma documents_close_all [simp]: "documents (foldl (\<lambda>s2 sid. connection_close sid (f s2) (g s2) s2) s sids) = documents s"
  by (induction sids arbitrary: s) simp_all

lemma documents_closeConnections_fold:
  "documents (foldl (\<lambda>s1 (n, d).
              if (case documentName of None \<Rightarrow> False
                  | Some wanted \<Rightarrow> wanted \<noteq> [] \<and> document_name (heap s1 ! d) \<noteq> wanted)
              then s1
              else foldl (\<lambda>s2 sid. connection_close sid (document_name (heap s2 ! d))
                                     (Some (ResetConnection (library s2))) s2)
                     s1 (connections (heap s1 ! d))) s xs) = documents s"
  by (induction xs arbitrary: s) (simp_all split: prod.split)

lemma documents_closeConnections [simp]: "documents (closeConnections n s) = documents s"
  unfolding closeConnections_def by (rule documents_closeConnections_fold)

lemma documents_onConnect_catch [simp]: "documents (onConnect_catch sid e s) = documents s"
  by (simp add: onConnect_catch_def ws_close_def Let_def split: prod.split)

lemma documents_onAuthenticate_catch [simp]: "documents (onAuthenticate_catch sid n e s) = documents s"
  by (simp add: onAuthenticate_catch_def)

lemma documents_denial_sent [simp]: "documents (denial_sent sid e s) = documents s"
  by (simp add: denial_sent_def ws_close_def Let_def split: prod.split)

lemma documents_setUp_failed [simp]: "documents (setUp_failed via sid n e s) = documents s"
  by (simp add: setUp_failed_def split: route.split)

lemma documents_handleQueueingMessage [simp]: "documents (handleQueueingMessage sid data s) = documents s"
  by (simp add: handleQueueingMessage_def Let_def split: frame.split option.split)

lemma documents_messageHandler [simp]: "documents (messageHandler sid data s) = documents s"
  by (simp add: messageHandler_def split: frame.split)

lemma documents_connection_receives [simp]: "documents (connection_receives sid data s) = documents s"
  by (simp add: connection_receives_def split: frame.split option.split prod.split)

lemma documents_socket_message [simp]: "documents (socket_message sid data s) = documents s"
  by (simp add: socket_message_def)

lemma documents_replay [simp]: "documents (foldl (\<lambda>s3 input. socket_message sid input s3) s queue) = documents s"
  by (induction queue arbitrary: s) simp_all

lemma documents_createConnection [simp]: "documents (createConnection sid n d s) = documents s"
  by (simp add: createConnection_def Let_def)

lemma documents_createDocument_settled [simp]: "documents (createDocument_settled via sid n d s) = documents s"
  by (simp add: createDocument_settled_def Let_def split: option.split)

lemma documents_afterLoadDocument_settled [simp]: "documents (afterLoadDocument_settled via sid n d outcome s) = documents s"
  by (simp add: afterLoadDocument_settled_def split: promise.split)

lemma documents_destroy [simp]: "documents (destroy d s) = documents s"
  by (simp add: destroy_def)

lemma documents_handleConnection [simp]: "documents (handleConnection s) = documents s"
  by (simp add: handleConnection_def)

lemma documents_idle_timeout [simp]: "documents (idle_timeout sid s) = documents s"
  by (simp add: idle_timeout_def)

lemma documents_handleDocumentUpdate [simp]: "documents (handleDocumentUpdate d origin s) = documents s"
  by (simp add: handleDocumentUpdate_def Let_def split: option.split)

lemma documents_onStoreDocument_settled [simp]: "documents (onStoreDocument_settled origin sid d outcome s) = documents s"
  by (simp add: onStoreDocument_settled_def promise_catch_def store_catch_def split: promise.split)


subsection \<open>The field \<open>timers\<close>\<close>

lemma timers_emit [simp]: "timers (emit e s) = timers s"
  by (simp add: emit_def)

lemma timers_suspend [simp]: "timers (suspend k s) = timers s"
  by (simp add: suspend_def)

lemma timers_call_hooks [simp]: "timers (call_hooks h sid n d k s) = timers s"
  by (simp add: call_hooks_def)

lemma timers_on_socket [simp]: "timers (on_socket sid f s) = timers s"
  by (simp add: on_socket_def)

lemma timers_on_document [simp]: "timers (on_document d f s) = timers s"
  by (simp add: on_document_def)

lemma timers_ws_close [simp]: "timers (snd (ws_close sid c r s)) = timers s"
  by (simp add: ws_close_def)

lemma timers_close_with [simp]: "timers (close_with sid ev s) = timers s"
  by (simp add: close_with_def)

lemma timers_clearTimeout [simp]: "timers (clearTimeout h s) = timers s"
  by (simp add: clearTimeout_def)

lemma timers_setTimeout [simp]: "timers (snd (setTimeout key func delay s)) = timers s"
  by (simp add: setTimeout_def)

lemma timers_call_thunk [simp]: "timers (call_thunk func s) = timers s"
  by (cases func) simp

lemma timers_reset_handshake [simp]: "timers (reset_handshake sid n ev s) = timers s"
  by (simp add: reset_handshake_def Let_def)

lemma timers_connection_close [simp]: "timers (connection_close sid n ev s) = timers s"
  by (simp add: connection_close_def Let_def split: option.split prod.split)

lemma timers_close_all [simp]: "timers (foldl (\<lambda>s2 sid. connection_close sid (f s2) (g s2) s2) s sids) = timers s"
  by (induction sids arbitrary: s) simp_all

lemma timers_closeConnections_fold:
  "timers (foldl (\<lambda>s1 (n, d).
              if (case documentName of None \<Rightarrow> False
                  | Some wanted \<Rightarrow> wanted \<noteq> [] \<and> document_name (heap s1 ! d) \<noteq> wanted)
              then s1
              else foldl (\<lambda>s2 sid. connection_close sid (document_name (heap s2 ! d))
                                     (Some (ResetConnection (library s2))) s2)
                     s1 (connections (heap s1 ! d))) s xs) = timers s"
  by (induction xs arbitrary: s) (simp_all split: prod.split)

lemma timers_closeConnections [simp]: "timers (closeConnections n s) = timers s"
  unfolding closeConnections_def by (rule timers_closeConnections_fold)

lemma timers_onConnect_catch [simp]: "timers (onConnect_catch sid e s) = timers s"
  by (simp add: onConnect_catch_def ws_close_def Let_def split: prod.split)

lemma timers_onAuthenticate_catch [simp]: "timers (onAuthenticate_catch sid n e s) = timers s"
  by (simp add: onAuthenticate_catch_def)

lemma timers_denial_sent [simp]: "timers (denial_sent sid e s) = timers s"
  by (simp add: denial_sent_def ws_close_def Let_def split: prod.split)

lemma timers_setUp_failed [simp]: "timers (setUp_failed via sid n e s) = timers s"
  by (simp add: setUp_failed_def split: route.split)

lemma timers_handleQueueingMessage [simp]: "timers (handleQueueingMessage sid data s) = timers s"
  by (simp add: handleQueueingMessage_def Let_def split: frame.split option.split)

lemma timers_messageHandler [simp]: "timers (messageHandler sid data s) = timers s"
  by (simp add: messageHandler_def split: frame.split)

lemma timers_connection_receives [simp]: "timers (connection_receives sid data s) = timers s"
  by (simp add: connection_receives_def split: frame.split option.split prod.split)

lemma timers_socket_message [simp]: "timers (socket_message sid data s) = timers s"
  by (simp add: socket_message_def)

lemma timers_replay [simp]: "timers (foldl (\<lambda>s3 input. socket_message sid input s3) s queue) = timers s"
  by (induction queue arbitrary: s) simp_all

lemma timers_createConnection [simp]: "timers (createConnection sid n d s) = timers s"
  by (simp add: createConnection_def Let_def)

lemma timers_createDocument_settled [simp]: "timers (createDocument_settled via sid n d s) = timers s"
  by (simp add: createDocument_settled_def Let_def split: option.split)

lemma timers_afterLoadDocument_settled [simp]: "timers (afterLoadDocument_settled via sid n d outcome s) = timers s"
  by (simp add: afterLoadDocument_settled_def split: promise.split)

lemma timers_destroy [simp]: "timers (destroy d s) = timers s"
  by (simp add: destroy_def)

lemma timers_handleConnection [simp]: "timers (handleConnection s) = timers s"
  by (simp add: handleConnection_def)

lemma timers_idle_timeout [simp]: "timers (idle_timeout sid s) = timers s"
  by (simp add: idle_timeout_def)

lemma timers_createDocument [simp]: "timers (snd (createDocument via sid n s)) = timers s"
  by (simp add: createDocument_def Let_def split: option.split)

lemma timers_setUpNewConnection [simp]: "timers (setUpNewConnection via sid n s) = timers s"
  by (cases "createDocument via sid n (on_socket sid (\<lambda>t. t\<lparr>closeIdleConnection := False\<rparr>) s)")
     (auto simp: setUpNewConnection_def createDocument_def Let_def split: option.splits)

lemma timers_onLoadDocument_settled [simp]: "timers (onLoadDocument_settled via sid n d outcome s) = timers s"
  by (simp add: onLoadDocument_settled_def Let_def split: promise.split)

lemma timers_onConnect_settled [simp]: "timers (onConnect_settled sid n outcome s) = timers s"
  by (simp add: onConnect_settled_def split: promise.split)

lemma timers_onAuthenticate_settled [simp]: "timers (onAuthenticate_settled sid n outcome s) = timers s"
  by (simp add: onAuthenticate_settled_def split: promise.split)

lemma timers_onStoreDocument_settled [simp]: "timers (onStoreDocument_settled origin sid d outcome s) = timers s"
  by (simp add: onStoreDocument_settled_def promise_catch_def store_catch_def split: promise.split)

lemma timers_afterStoreDocument_settled [simp]: "timers (afterStoreDocument_settled origin sid d outcome s) = timers s"
  by (simp add: afterStoreDocument_settled_def split: promise.split store_origin.split)


subsection \<open>The field \<open>clock\<close>\<close>

lemma clock_emit [simp]: "clock (emit e s) = clock s"
  by (simp add: emit_def)

lemma clock_suspend [simp]: "clock (suspend k s) = clock s"
  by (simp add: suspend_def)

lemma clock_call_hooks [simp]: "clock (call_hooks h sid n d k s) = clock s"
  by (simp add: call_hooks_def)

lemma clock_on_socket [simp]: "clock (on_socket sid f s) = clock s"
  by (simp add: on_socket_def)

lemma clock_on_document [simp]: "clock (on_document d f s) = clock s"
  by (simp add: on_document_def)

lemma clock_ws_close [simp]: "clock (snd (ws_close sid c r s)) = clock s"
  by (simp add: ws_close_def)

lemma clock_close_with [simp]: "clock (close_with sid ev s) = clock s"
  by (simp add: close_with_def)

lemma clock_clearTimeout [simp]: "clock (clearTimeout h s) = clock s"
  by (simp add: clearTimeout_def)

lemma clock_setTimeout [simp]: "clock (snd (setTimeout key func delay s)) = clock s"
  by (simp add: setTimeout_def)

lemma clock_call_thunk [simp]: "clock (call_thunk func s) = clock s"
  by (cases func) simp

lemma clock_run [simp]: "clock (run key func s) = clock s"
  by (simp add: run_def)

lemma clock_debounce [simp]: "clock (debounce key func immediately s) = clock s"
  by (simp add: debounce_def setTimeout_def Let_def split: option.split)

lemma clock_timeout_elapses [simp]: "clock (timeout_elapses h s) = clock s"
  by (simp add: timeout_elapses_def split: option.split)

lemma clock_reset_handshake [simp]: "clock (reset_handshake sid n ev s) = clock s"
  by (simp add: reset_handshake_def Let_def)

lemma clock_connection_close [simp]: "clock (connection_close sid n ev s) = clock s"
  by (simp add: connection_close_def Let_def split: option.split prod.split)

lemma clock_close_all [simp]: "clock (foldl (\<lambda>s2 sid. connection_close sid (f s2) (g s2) s2) s sids) = clock s"
  by (induction sids arbitrary: s) simp_all

lemma clock_closeConnections_fold:
  "clock (foldl (\<lambda>s1 (n, d).
              if (case documentName of None \<Rightarrow> False
                  | Some wanted \<Rightarrow> wanted \<noteq> [] \<and> document_name (heap s1 ! d) \<noteq> wanted)
              then s1
              else foldl (\<lambda>s2 sid. connection_close sid (document_name (heap s2 ! d))
                                     (Some (ResetConnection (library s2))) s2)
                     s1 (connections (heap s1 ! d))) s xs) = clock s"
  by (induction xs arbitrary: s) (simp_all split: prod.split)

lemma clock_closeConnections [simp]: "clock (closeConnections n s) = clock s"
  unfolding closeConnections_def by (rule clock_closeConnections_fold)

lemma clock_onConnect_catch [simp]: "clock (onConnect_catch sid e s) = clock s"
  by (simp add: onConnect_catch_def ws_close_def Let_def split: prod.split)

lemma clock_onAuthenticate_catch [simp]: "clock (onAuthenticate_catch sid n e s) = clock s"
  by (simp add: onAuthenticate_catch_def)

lemma clock_denial_sent [simp]: "clock (denial_sent sid e s) = clock s"
  by (simp add: denial_sent_def ws_close_def Let_def split: prod.split)

lemma clock_setUp_failed [simp]: "clock (setUp_failed via sid n e s) = clock s"
  by (simp add: setUp_failed_def split: route.split)

lemma clock_handleQueueingMessage [simp]: "clock (handleQueueingMessage sid data s) = clock s"
  by (simp add: handleQueueingMessage_def Let_def split: frame.split option.split)

lemma clock_messageHandler [simp]: "clock (messageHandler sid data s) = clock s"
  by (simp add: messageHandler_def split: frame.split)

lemma clock_connection_receives [simp]: "clock (connection_receives sid data s) = clock s"
  by (simp add: connection_receives_def split: frame.split option.split prod.split)

lemma clock_socket_message [simp]: "clock (socket_message sid data s) = clock s"
  by (simp add: socket_message_def)

lemma clock_replay [simp]: "clock (foldl (\<lambda>s3 input. socket_message sid input s3) s queue) = clock s"
  by (induction queue arbitrary: s) simp_all

lemma clock_createConnection [simp]: "clock (createConnection sid n d s) = clock s"
  by (simp add: createConnection_def Let_def)

lemma clock_createDocument_settled [simp]: "clock (createDocument_settled via sid n d s) = clock s"
  by (simp add: createDocument_settled_def Let_def split: option.split)

lemma clock_afterLoadDocument_settled [simp]: "clock (afterLoadDocument_settled via sid n d outcome s) = clock s"
  by (simp add: afterLoadDocument_settled_def split: promise.split)

lemma clock_destroy [simp]: "clock (destroy d s) = clock s"
  by (simp add: destroy_def)

lemma clock_handleConnection [simp]: "clock (handleConnection s) = clock s"
  by (simp add: handleConnection_def)

lemma clock_idle_timeout [simp]: "clock (idle_timeout sid s) = clock s"
  by (simp add: idle_timeout_def)

lemma clock_createDocument [simp]: "clock (snd (createDocument via sid n s)) = clock s"
  by (simp add: createDocument_def Let_def split: option.split)

lemma clock_setUpNewConnection [simp]: "clock (setUpNewConnection via sid n s) = clock s"
  by (cases "createDocument via sid n (on_socket sid (\<lambda>t. t\<lparr>closeIdleConnection := False\<rparr>) s)")
     (auto simp: setUpNewConnection_def createDocument_def Let_def split: option.splits)

lemma clock_onLoadDocument_settled [simp]: "clock (onLoadDocument_settled via sid n d outcome s) = clock s"
  by (simp add: onLoadDocument_settled_def Let_def split: promise.split)

lemma clock_onConnect_settled [simp]: "clock (onConnect_settled sid n outcome s) = clock s"
  by (simp add: onConnect_settled_def split: promise.split)

lemma clock_onAuthenticate_settled [simp]: "clock (onAuthenticate_settled sid n outcome s) = clock s"
  by (simp add: onAuthenticate_settled_def split: promise.split)

lemma clock_handleDocumentUpdate [simp]: "clock (handleDocumentUpdate d origin s) = clock s"
  by (simp add: handleDocumentUpdate_def Let_def split: option.split)

lemma clock_onStoreDocument_settled [simp]: "clock (onStoreDocument_settled origin sid d outcome s) = clock s"
  by (simp add: onStoreDocument_settled_def promise_catch_def store_catch_def split: promise.split)

lemma clock_afterStoreDocument_settled [simp]: "clock (afterStoreDocument_settled origin sid d outcome s) = clock s"
  by (simp add: afterStoreDocument_settled_def split: promise.split store_origin.split)

lemma clock_onDisconnect_settled [simp]: "clock (onDisconnect_settled sid d outcome s) = clock s"
  by (simp add: onDisconnect_settled_def split: promise.split)

lemma clock_resume [simp]: "clock (resume k outcome s) = clock s"
  by (cases k) (simp_all split: promise.split)


subsection \<open>The field \<open>timeouts\<close>\<close>

lemma timeouts_emit [simp]: "timeouts (emit e s) = timeouts s"
  by (simp add: emit_def)

lemma timeouts_suspend [simp]: "timeouts (suspend k s) = timeouts s"
  by (simp add: suspend_def)

lemma timeouts_call_hooks [simp]: "timeouts (call_hooks h sid n d k s) = timeouts s"
  by (simp add: call_hooks_def)

lemma timeouts_on_socket [simp]: "timeouts (on_socket sid f s) = timeouts s"
  by (simp add: on_socket_def)

lemma timeouts_on_document [simp]: "timeouts (on_document d f s) = timeouts s"
  by (simp add: on_document_def)

lemma timeouts_ws_close [simp]: "timeouts (snd (ws_close sid c r s)) = timeouts s"
  by (simp add: ws_close_def)

lemma timeouts_close_with [simp]: "timeouts (close_with sid ev s) = timeouts s"
  by (simp add: close_with_def)

lemma timeouts_call_thunk [simp]: "timeouts (call_thunk func s) = timeouts s"
  by (cases func) simp

lemma timeouts_run [simp]: "timeouts (run key func s) = timeouts s"
  by (simp add: run_def)

lemma timeouts_reset_handshake [simp]: "timeouts (reset_handshake sid n ev s) = timeouts s"
  by (simp add: reset_handshake_def Let_def)

lemma timeouts_connection_close [simp]: "timeouts (connection_close sid n ev s) = timeouts s"
  by (simp add: connection_close_def Let_def split: option.split prod.split)

lemma timeouts_close_all [simp]: "timeouts (foldl (\<lambda>s2 sid. connection_close sid (f s2) (g s2) s2) s sids) = timeouts s"
  by (induction sids arbitrary: s) simp_all

lemma timeouts_closeConnections_fold:
  "timeouts (foldl (\<lambda>s1 (n, d).
              if (case documentName of None \<Rightarrow> False
                  | Some wanted \<Rightarrow> wanted \<noteq> [] \<and> document_name (heap s1 ! d) \<noteq> wanted)
              then s1
              else foldl (\<lambda>s2 sid. connection_close sid (document_name (heap s2 ! d))
                                     (Some (ResetConnection (library s2))) s2)
                     s1 (connections (heap s1 ! d))) s xs) = timeouts s"
  by (induction xs arbitrary: s) (simp_all split: prod.split)

lemma timeouts_closeConnections [simp]: "timeouts (closeConnections n s) = timeouts s"
  unfolding closeConnections_def by (rule timeouts_closeConnections_fold)

lemma timeouts_onConnect_catch [simp]: "timeouts (onConnect_catch sid e s) = timeouts s"
  by (simp add: onConnect_catch_def ws_close_def Let_def split: prod.split)

lemma timeouts_onAuthenticate_catch [simp]: "timeouts (onAuthenticate_catch sid n e s) = timeouts s"
  by (simp add: onAuthenticate_catch_def)

lemma timeouts_denial_sent [simp]: "timeouts (denial_sent sid e s) = timeouts s"
  by (simp add: denial_sent_def ws_close_def Let_def split: prod.split)

lemma timeouts_setUp_failed [simp]: "timeouts (setUp_failed via sid n e s) = timeouts s"
  by (simp add: setUp_failed_def split: route.split)

lemma timeouts_handleQueueingMessage [simp]: "timeouts (handleQueueingMessage sid data s) = timeouts s"
  by (simp add: handleQueueingMessage_def Let_def split: frame.split option.split)

lemma timeouts_messageHandler [simp]: "timeouts (messageHandler sid data s) = timeouts s"
  by (simp add: messageHandler_def split: frame.split)

lemma timeouts_connection_receives [simp]: "timeouts (connection_receives sid data s) = timeouts s"
  by (simp add: connection_receives_def split: frame.split option.split prod.split)

lemma timeouts_socket_message [simp]: "timeouts (socket_message sid data s) = timeouts s"
  by (simp add: socket_message_def)

lemma timeouts_replay [simp]: "timeouts (foldl (\<lambda>s3 input. socket_message sid input s3) s queue) = timeouts s"
  by (induction queue arbitrary: s) simp_all

lemma timeouts_createConnection [simp]: "timeouts (createConnection sid n d s) = timeouts s"
  by (simp add: createConnection_def Let_def)

lemma timeouts_createDocument_settled [simp]: "timeouts (createDocument_settled via sid n d s) = timeouts s"
  by (simp add: createDocument_settled_def Let_def split: option.split)

lemma timeouts_afterLoadDocument_settled [simp]: "timeouts (afterLoadDocument_settled via sid n d outcome s) = timeouts s"
  by (simp add: afterLoadDocument_settled_def split: promise.split)

lemma timeouts_destroy [simp]: "timeouts (destroy d s) = timeouts s"
  by (simp add: destroy_def)

lemma timeouts_handleConnection [simp]: "timeouts (handleConnection s) = timeouts s"
  by (simp add: handleConnection_def)

lemma timeouts_idle_timeout [simp]: "timeouts (idle_timeout sid s) = timeouts s"
  by (simp add: idle_timeout_def)

lemma timeouts_createDocument [simp]: "timeouts (snd (createDocument via sid n s)) = timeouts s"
  by (simp add: createDocument_def Let_def split: option.split)

lemma timeouts_setUpNewConnection [simp]: "timeouts (setUpNewConnection via sid n s) = timeouts s"
  by (cases "createDocument via sid n (on_socket sid (\<lambda>t. t\<lparr>closeIdleConnection := False\<rparr>) s)")
     (auto simp: setUpNewConnection_def createDocument_def Let_def split: option.splits)

lemma timeouts_onLoadDocument_settled [simp]: "timeouts (onLoadDocument_settled via sid n d outcome s) = timeouts s"
  by (simp add: onLoadDocument_settled_def Let_def split: promise.split)

lemma timeouts_onConnect_settled [simp]: "timeouts (onConnect_settled sid n outcome s) = timeouts s"
  by (simp add: onConnect_settled_def split: promise.split)

lemma timeouts_onAuthenticate_settled [simp]: "timeouts (onAuthenticate_settled sid n outcome s) = timeouts s"
  by (simp add: onAuthenticate_settled_def split: promise.split)

lemma timeouts_onStoreDocument_settled [simp]: "timeouts (onStoreDocument_settled origin sid d outcome s) = timeouts s"
  by (simp add: onStoreDocument_settled_def promise_catch_def store_catch_def split: promise.split)

lemma timeouts_afterStoreDocument_settled [simp]: "timeouts (afterStoreDocument_settled origin sid d outcome s) = timeouts s"
  by (simp add: afterStoreDocument_settled_def split: promise.split store_origin.split)


subsection \<open>The field \<open>next_handle\<close>\<close>

lemma next_handle_emit [simp]: "next_handle (emit e s) = next_handle s"
  by (simp add: emit_def)

lemma next_handle_suspend [simp]: "next_handle (suspend k s) = next_handle s"
  by (simp add: suspend_def)

lemma next_handle_call_hooks [simp]: "next_handle (call_hooks h sid n d k s) = next_handle s"
  by (simp add: call_hooks_def)

lemma next_handle_on_socket [simp]: "next_handle (on_socket sid f s) = next_handle s"
  by (simp add: on_socket_def)

lemma next_handle_on_document [simp]: "next_handle (on_document d f s) = next_handle s"
  by (simp add: on_document_def)

lemma next_handle_ws_close [simp]: "next_handle (snd (ws_close sid c r s)) = next_handle s"
  by (simp add: ws_close_def)

lemma next_handle_close_with [simp]: "next_handle (close_with sid ev s) = next_handle s"
  by (simp add: close_with_def)

lemma next_handle_clearTimeout [simp]: "next_handle (clearTimeout h s) = next_handle s"
  by (simp add: clearTimeout_def)

lemma next_handle_call_thunk [simp]: "next_handle (call_thunk func s) = next_handle s"
  by (cases func) simp

lemma next_handle_run [simp]: "next_handle (run key func s) = next_handle s"
  by (simp add: run_def)

lemma next_handle_reset_handshake [simp]: "next_handle (reset_handshake sid n ev s) = next_handle s"
  by (simp add: reset_handshake_def Let_def)

lemma next_handle_connection_close [simp]: "next_handle (connection_close sid n ev s) = next_handle s"
  by (simp add: connection_close_def Let_def split: option.split prod.split)

lemma next_handle_close_all [simp]: "next_handle (foldl (\<lambda>s2 sid. connection_close sid (f s2) (g s2) s2) s sids) = next_handle s"
  by (induction sids arbitrary: s) simp_all

lemma next_handle_closeConnections_fold:
  "next_handle (foldl (\<lambda>s1 (n, d).
              if (case documentName of None \<Rightarrow> False
                  | Some wanted \<Rightarrow> wanted \<noteq> [] \<and> document_name (heap s1 ! d) \<noteq> wanted)
              then s1
              else foldl (\<lambda>s2 sid. connection_close sid (document_name (heap s2 ! d))
                                     (Some (ResetConnection (library s2))) s2)
                     s1 (connections (heap s1 ! d))) s xs) = next_handle s"
  by (induction xs arbitrary: s) (simp_all split: prod.split)

lemma next_handle_closeConnections [simp]: "next_handle (closeConnections n s) = next_handle s"
  unfolding closeConnections_def by (rule next_handle_closeConnections_fold)

lemma next_handle_onConnect_catch [simp]: "next_handle (onConnect_catch sid e s) = next_handle s"
  by (simp add: onConnect_catch_def ws_close_def Let_def split: prod.split)

lemma next_handle_onAuthenticate_catch [simp]: "next_handle (onAuthenticate_catch sid n e s) = next_handle s"
  by (simp add: onAuthenticate_catch_def)

lemma next_handle_denial_sent [simp]: "next_handle (denial_sent sid e s) = next_handle s"
  by (simp add: denial_sent_def ws_close_def Let_def split: prod.split)

lemma next_handle_setUp_failed [simp]: "next_handle (setUp_failed via sid n e s) = next_handle s"
  by (simp add: setUp_failed_def split: route.split)

lemma next_handle_handleQueueingMessage [simp]: "next_handle (handleQueueingMessage sid data s) = next_handle s"
  by (simp add: handleQueueingMessage_def Let_def split: frame.split option.split)

lemma next_handle_messageHandler [simp]: "next_handle (messageHandler sid data s) = next_handle s"
  by (simp add: messageHandler_def split: frame.split)

lemma next_handle_connection_receives [simp]: "next_handle (connection_receives sid data s) = next_handle s"
  by (simp add: connection_receives_def split: frame.split option.split prod.split)

lemma next_handle_socket_message [simp]: "next_handle (socket_message sid data s) = next_handle s"
  by (simp add: socket_message_def)

lemma next_handle_replay [simp]: "next_handle (foldl (\<lambda>s3 input. socket_message sid input s3) s queue) = next_handle s"
  by (induction queue arbitrary: s) simp_all

lemma next_handle_createConnection [simp]: "next_handle (createConnection sid n d s) = next_handle s"
  by (simp add: createConnection_def Let_def)

lemma next_handle_createDocument_settled [simp]: "next_handle (createDocument_settled via sid n d s) = next_handle s"
  by (simp add: createDocument_settled_def Let_def split: option.split)

lemma next_handle_afterLoadDocument_settled [simp]: "next_handle (afterLoadDocument_settled via sid n d outcome s) = next_handle s"
  by (simp add: afterLoadDocument_settled_def split: promise.split)

lemma next_handle_destroy [simp]: "next_handle (destroy d s) = next_handle s"
  by (simp add: destroy_def)

lemma next_handle_handleConnection [simp]: "next_handle (handleConnection s) = next_handle s"
  by (simp add: handleConnection_def)

lemma next_handle_idle_timeout [simp]: "next_handle (idle_timeout sid s) = next_handle s"
  by (simp add: idle_timeout_def)

lemma next_handle_createDocument [simp]: "next_handle (snd (createDocument via sid n s)) = next_handle s"
  by (simp add: createDocument_def Let_def split: option.split)

lemma next_handle_setUpNewConnection [simp]: "next_handle (setUpNewConnection via sid n s) = next_handle s"
  by (cases "createDocument via sid n (on_socket sid (\<lambda>t. t\<lparr>closeIdleConnection := False\<rparr>) s)")
     (auto simp: setUpNewConnection_def createDocument_def Let_def split: option.splits)

lemma next_handle_onLoadDocument_settled [simp]: "next_handle (onLoadDocument_settled via sid n d outcome s) = next_handle s"
  by (simp add: onLoadDocument_settled_def Let_def split: promise.split)

lemma next_handle_onConnect_settled [simp]: "next_handle (onConnect_settled sid n outcome s) = next_handle s"
  by (simp add: onConnect_settled_def split: promise.split)

lemma next_handle_onAuthenticate_settled [simp]: "next_handle (onAuthenticate_settled sid n outcome s) = next_handle s"
  by (simp add: onAuthenticate_settled_def split: promise.split)

lemma next_handle_onStoreDocument_settled [simp]: "next_handle (onStoreDocument_settled origin sid d outcome s) = next_handle s"
  by (simp add: onStoreDocument_settled_def promise_catch_def store_catch_def split: promise.split)

lemma next_handle_afterStoreDocument_settled [simp]: "next_handle (afterStoreDocument_settled origin sid d outcome s) = next_handle s"
  by (simp add: afterStoreDocument_settled_def split: promise.split store_origin.split)


subsection \<open>The field \<open>heap\<close>\<close>

lemma heap_emit [simp]: "heap (emit e s) = heap s"
  by (simp add: emit_def)

lemma heap_suspend [simp]: "heap (suspend k s) = heap s"
  by (simp add: suspend_def)

lemma heap_call_hooks [simp]: "heap (call_hooks h sid n d k s) = heap s"
  by (simp add: call_hooks_def)

lemma heap_on_socket [simp]: "heap (on_socket sid f s) = heap s"
  by (simp add: on_socket_def)

lemma heap_ws_close [simp]: "heap (snd (ws_close sid c r s)) = heap s"
  by (simp add: ws_close_def)

lemma heap_close_with [simp]: "heap (close_with sid ev s) = heap s"
  by (simp add: close_with_def)

lemma heap_clearTimeout [simp]: "heap (clearTimeout h s) = heap s"
  by (simp add: clearTimeout_def)

lemma heap_setTimeout [simp]: "heap (snd (setTimeout key func delay s)) = heap s"
  by (simp add: setTimeout_def)

lemma heap_call_thunk [simp]: "heap (call_thunk func s) = heap s"
  by (cases func) simp

lemma heap_run [simp]: "heap (run key func s) = heap s"
  by (simp add: run_def)

lemma heap_debounce [simp]: "heap (debounce key func immediately s) = heap s"
  by (simp add: debounce_def setTimeout_def Let_def split: option.split)

lemma heap_timeout_elapses [simp]: "heap (timeout_elapses h s) = heap s"
  by (simp add: timeout_elapses_def split: option.split)

lemma heap_reset_handshake [simp]: "heap (reset_handshake sid n ev s) = heap s"
  by (simp add: reset_handshake_def Let_def)

lemma heap_onConnect_catch [simp]: "heap (onConnect_catch sid e s) = heap s"
  by (simp add: onConnect_catch_def ws_close_def Let_def split: prod.split)

lemma heap_onAuthenticate_catch [simp]: "heap (onAuthenticate_catch sid n e s) = heap s"
  by (simp add: onAuthenticate_catch_def)

lemma heap_denial_sent [simp]: "heap (denial_sent sid e s) = heap s"
  by (simp add: denial_sent_def ws_close_def Let_def split: prod.split)

lemma heap_setUp_failed [simp]: "heap (setUp_failed via sid n e s) = heap s"
  by (simp add: setUp_failed_def split: route.split)

lemma heap_handleQueueingMessage [simp]: "heap (handleQueueingMessage sid data s) = heap s"
  by (simp add: handleQueueingMessage_def Let_def split: frame.split option.split)

lemma heap_messageHandler [simp]: "heap (messageHandler sid data s) = heap s"
  by (simp add: messageHandler_def split: frame.split)

lemma heap_connection_receives [simp]: "heap (connection_receives sid data s) = heap s"
  by (simp add: connection_receives_def split: frame.split option.split prod.split)

lemma heap_socket_message [simp]: "heap (socket_message sid data s) = heap s"
  by (simp add: socket_message_def)

lemma heap_replay [simp]: "heap (foldl (\<lambda>s3 input. socket_message sid input s3) s queue) = heap s"
  by (induction queue arbitrary: s) simp_all

lemma heap_handleConnection [simp]: "heap (handleConnection s) = heap s"
  by (simp add: handleConnection_def)

lemma heap_idle_timeout [simp]: "heap (idle_timeout sid s) = heap s"
  by (simp add: idle_timeout_def)

lemma heap_handleDocumentUpdate [simp]: "heap (handleDocumentUpdate d origin s) = heap s"
  by (simp add: handleDocumentUpdate_def Let_def split: option.split)

lemma heap_onStoreDocument_settled [simp]: "heap (onStoreDocument_settled origin sid d outcome s) = heap s"
  by (simp add: onStoreDocument_settled_def promise_catch_def store_catch_def split: promise.split)


subsection \<open>The field \<open>sockets\<close>\<close>

lemma sockets_emit [simp]: "sockets (emit e s) = sockets s"
  by (simp add: emit_def)

lemma sockets_suspend [simp]: "sockets (suspend k s) = sockets s"
  by (simp add: suspend_def)

lemma sockets_call_hooks [simp]: "sockets (call_hooks h sid n d k s) = sockets s"
  by (simp add: call_hooks_def)

lemma sockets_on_document [simp]: "sockets (on_document d f s) = sockets s"
  by (simp add: on_document_def)

lemma sockets_clearTimeout [simp]: "sockets (clearTimeout h s) = sockets s"
  by (simp add: clearTimeout_def)

lemma sockets_setTimeout [simp]: "sockets (snd (setTimeout key func delay s)) = sockets s"
  by (simp add: setTimeout_def)

lemma sockets_call_thunk [simp]: "sockets (call_thunk func s) = sockets s"
  by (cases func) simp

lemma sockets_run [simp]: "sockets (run key func s) = sockets s"
  by (simp add: run_def)

lemma sockets_debounce [simp]: "sockets (debounce key func immediately s) = sockets s"
  by (simp add: debounce_def setTimeout_def Let_def split: option.split)

lemma sockets_timeout_elapses [simp]: "sockets (timeout_elapses h s) = sockets s"
  by (simp add: timeout_elapses_def split: option.split)

lemma sockets_onAuthenticate_catch [simp]: "sockets (onAuthenticate_catch sid n e s) = sockets s"
  by (simp add: onAuthenticate_catch_def)

lemma sockets_connection_receives [simp]: "sockets (connection_receives sid data s) = sockets s"
  by (simp add: connection_receives_def split: frame.split option.split prod.split)

lemma sockets_destroy [simp]: "sockets (destroy d s) = sockets s"
  by (simp add: destroy_def)

lemma sockets_createDocument [simp]: "sockets (snd (createDocument via sid n s)) = sockets s"
  by (simp add: createDocument_def Let_def split: option.split)

lemma sockets_handleDocumentUpdate [simp]: "sockets (handleDocumentUpdate d origin s) = sockets s"
  by (simp add: handleDocumentUpdate_def Let_def split: option.split)

lemma sockets_onStoreDocument_settled [simp]: "sockets (onStoreDocument_settled origin sid d outcome s) = sockets s"
  by (simp add: onStoreDocument_settled_def promise_catch_def store_catch_def split: promise.split)

lemma sockets_afterStoreDocument_settled [simp]: "sockets (afterStoreDocument_settled origin sid d outcome s) = sockets s"
  by (simp add: afterStoreDocument_settled_def split: promise.split store_origin.split)

lemma sockets_onDisconnect_settled [simp]: "sockets (onDisconnect_settled sid d outcome s) = sockets s"
  by (simp add: onDisconnect_settled_def split: promise.split)



section \<open>The transports of a server are never removed\<close>

lemma nth_list_update_total:
  "(xs[i := x]) ! j = (if i = j \<and> i < length xs then x else xs ! j)"
  by (cases "i < length xs") (simp_all add: nth_list_update list_update_beyond)


lemma socket_count_emit [simp]: "socket_count (emit e s) = socket_count s"
  by (simp add: socket_count_def emit_def)

lemma socket_count_suspend [simp]: "socket_count (suspend k s) = socket_count s"
  by (simp add: socket_count_def suspend_def)

lemma socket_count_on_socket [simp]: "socket_count (on_socket sid f s) = socket_count s"
  by (simp add: socket_count_def on_socket_def)

lemma socket_count_on_document [simp]: "socket_count (on_document d f s) = socket_count s"
  by (simp add: socket_count_def on_document_def)

lemma socket_count_fields [simp]:
  "socket_count (s\<lparr>documents := a\<rparr>) = socket_count s"
  "socket_count (s\<lparr>timers := b\<rparr>) = socket_count s"
  "socket_count (s\<lparr>heap := c\<rparr>) = socket_count s"
  "socket_count (s\<lparr>timeouts := d\<rparr>) = socket_count s"
  "socket_count (s\<lparr>next_handle := e\<rparr>) = socket_count s"
  "socket_count (s\<lparr>pending := g\<rparr>) = socket_count s"
  "socket_count (s\<lparr>clock := h\<rparr>) = socket_count s"
  "socket_count (s\<lparr>effects := i\<rparr>) = socket_count s"
  by (simp_all add: socket_count_def)

lemma socket_count_call_hooks [simp]: "socket_count (call_hooks h sid n d k s) = socket_count s"
  by (simp add: call_hooks_def)

lemma socket_count_ws_close [simp]: "socket_count (snd (ws_close sid c r s)) = socket_count s"
  by (simp add: ws_close_def)

lemma socket_count_close_with [simp]: "socket_count (close_with sid ev s) = socket_count s"
  by (simp add: close_with_def)

lemma socket_count_clearTimeout [simp]: "socket_count (clearTimeout h s) = socket_count s"
  by (simp add: clearTimeout_def)

lemma socket_count_setTimeout [simp]: "socket_count (snd (setTimeout key func delay s)) = socket_count s"
  by (simp add: setTimeout_def)

lemma socket_count_call_thunk [simp]: "socket_count (call_thunk func s) = socket_count s"
  by (cases func) simp

lemma socket_count_run [simp]: "socket_count (run key func s) = socket_count s"
  by (simp add: run_def)

lemma socket_count_debounce [simp]: "socket_count (debounce key func immediately s) = socket_count s"
  by (simp add: debounce_def setTimeout_def Let_def split: option.split)

lemma socket_count_timeout_elapses [simp]: "socket_count (timeout_elapses h s) = socket_count s"
  by (simp add: timeout_elapses_def split: option.split)

lemma socket_count_reset_handshake [simp]: "socket_count (reset_handshake sid n ev s) = socket_count s"
  by (simp add: reset_handshake_def Let_def)

lemma socket_count_connection_close [simp]: "socket_count (connection_close sid n ev s) = socket_count s"
  by (simp add: connection_close_def Let_def split: option.split prod.split)

lemma socket_count_close_all [simp]: "socket_count (foldl (\<lambda>s2 sid. connection_close sid (f s2) (g s2) s2) s sids) = socket_count s"
  by (induction sids arbitrary: s) simp_all

lemma socket_count_closeConnections_fold:
  "socket_count (foldl (\<lambda>s1 (n, d).
              if (case documentName of None \<Rightarrow> False
                  | Some wanted \<Rightarrow> wanted \<noteq> [] \<and> document_name (heap s1 ! d) \<noteq> wanted)
              then s1
              else foldl (\<lambda>s2 sid. connection_close sid (document_name (heap s2 ! d))
                                     (Some (ResetConnection (library s2))) s2)
                     s1 (connections (heap s1 ! d))) s xs) = socket_count s"
  by (induction xs arbitrary: s) (simp_all split: prod.split)

lemma socket_count_closeConnections [simp]: "socket_count (closeConnections n s) = socket_count s"
  unfolding closeConnections_def by (rule socket_count_closeConnections_fold)

lemma socket_count_onConnect_catch [simp]: "socket_count (onConnect_catch sid e s) = socket_count s"
  by (simp add: onConnect_catch_def ws_close_def Let_def split: prod.split)

lemma socket_count_onAuthenticate_catch [simp]: "socket_count (onAuthenticate_catch sid n e s) = socket_count s"
  by (simp add: onAuthenticate_catch_def)

lemma socket_count_denial_sent [simp]: "socket_count (denial_sent sid e s) = socket_count s"
  by (simp add: denial_sent_def ws_close_def Let_def split: prod.split)

lemma socket_count_setUp_failed [simp]: "socket_count (setUp_failed via sid n e s) = socket_count s"
  by (simp add: setUp_failed_def split: route.split)

lemma socket_count_handleQueueingMessage [simp]: "socket_count (handleQueueingMessage sid data s) = socket_count s"
  by (simp add: handleQueueingMessage_def Let_def split: frame.split option.split)

lemma socket_count_messageHandler [simp]: "socket_count (messageHandler sid data s) = socket_count s"
  by (simp add: messageHandler_def split: frame.split)

lemma socket_count_connection_receives [simp]: "socket_count (connection_receives sid data s) = socket_count s"
  by (simp add: connection_receives_def split: frame.split option.split prod.split)

lemma socket_count_socket_message [simp]: "socket_count (socket_message sid data s) = socket_count s"
  by (simp add: socket_message_def)

lemma socket_count_replay [simp]: "socket_count (foldl (\<lambda>s3 input. socket_message sid input s3) s queue) = socket_count s"
  by (induction queue arbitrary: s) simp_all

lemma socket_count_createConnection [simp]: "socket_count (createConnection sid n d s) = socket_count s"
  by (simp add: createConnection_def Let_def)

lemma socket_count_createDocument_settled [simp]: "socket_count (createDocument_settled via sid n d s) = socket_count s"
  by (simp add: createDocument_settled_def Let_def split: option.split)

lemma socket_count_afterLoadDocument_settled [simp]: "socket_count (afterLoadDocument_settled via sid n d outcome s) = socket_count s"
  by (simp add: afterLoadDocument_settled_def split: promise.split)

lemma socket_count_destroy [simp]: "socket_count (destroy d s) = socket_count s"
  by (simp add: destroy_def)

lemma socket_count_idle_timeout [simp]: "socket_count (idle_timeout sid s) = socket_count s"
  by (simp add: idle_timeout_def)

lemma socket_count_createDocument [simp]: "socket_count (snd (createDocument via sid n s)) = socket_count s"
  by (simp add: createDocument_def Let_def split: option.split)

lemma socket_count_setUpNewConnection [simp]: "socket_count (setUpNewConnection via sid n s) = socket_count s"
  by (cases "createDocument via sid n (on_socket sid (\<lambda>t. t\<lparr>closeIdleConnection := False\<rparr>) s)")
     (auto simp: setUpNewConnection_def createDocument_def Let_def split: option.splits)

lemma socket_count_onLoadDocument_settled [simp]: "socket_count (onLoadDocument_settled via sid n d outcome s) = socket_count s"
  by (simp add: onLoadDocument_settled_def Let_def split: promise.split)

lemma socket_count_onConnect_settled [simp]: "socket_count (onConnect_settled sid n outcome s) = socket_count s"
  by (simp add: onConnect_settled_def split: promise.split)

lemma socket_count_onAuthenticate_settled [simp]: "socket_count (onAuthenticate_settled sid n outcome s) = socket_count s"
  by (simp add: onAuthenticate_settled_def split: promise.split)

lemma socket_count_handleDocumentUpdate [simp]: "socket_count (handleDocumentUpdate d origin s) = socket_count s"
  by (simp add: handleDocumentUpdate_def Let_def split: option.split)

lemma socket_count_onStoreDocument_settled [simp]: "socket_count (onStoreDocument_settled origin sid d outcome s) = socket_count s"
  by (simp add: onStoreDocument_settled_def promise_catch_def store_catch_def split: promise.split)

lemma socket_count_afterStoreDocument_settled [simp]: "socket_count (afterStoreDocument_settled origin sid d outcome s) = socket_count s"
  by (simp add: afterStoreDocument_settled_def split: promise.split store_origin.split)

lemma socket_count_onDisconnect_settled [simp]: "socket_count (onDisconnect_settled sid d outcome s) = socket_count s"
  by (simp add: onDisconnect_settled_def split: promise.split)

lemma socket_count_resume [simp]: "socket_count (resume k outcome s) = socket_count s"
  by (cases k) (simp_all split: promise.split)

section \<open>The document registry\<close>

lemma createDocument_existing:
  "map_of (documents s) n = Some d \<Longrightarrow> createDocument via sid n s = (Some d, s)"
  by (simp add: createDocument_def)

lemma createDocument_new:
  assumes "map_of (documents s) n = None"
  shows "fst (createDocument via sid n s) = None"
    and "documents (snd (createDocument via sid n s)) = AList.update n (length (heap s)) (documents s)"
    and "pending (snd (createDocument via sid n s)) = pending s @ [AwaitOnLoadDocument via sid n (length (heap s))]"
    and "heap (snd (createDocument via sid n s)) = heap s @ [new_Document n]"
  using assms by (simp_all add: createDocument_def Let_def call_hooks_def suspend_def emit_def)

lemma distinct_createDocument:
  "distinct (map fst (documents s)) \<Longrightarrow> distinct (map fst (documents (snd (createDocument via sid n s))))"
  by (simp add: createDocument_def Let_def distinct_update split: option.split)

lemma distinct_setUpNewConnection:
  "distinct (map fst (documents s)) \<Longrightarrow> distinct (map fst (documents (setUpNewConnection via sid n s)))"
  using distinct_createDocument [of "on_socket sid (\<lambda>t. t\<lparr>closeIdleConnection := False\<rparr>) s" via sid n]
  by (cases "createDocument via sid n (on_socket sid (\<lambda>t. t\<lparr>closeIdleConnection := False\<rparr>) s)")
     (auto simp: setUpNewConnection_def split: option.split)

lemma distinct_onConnect_settled:
  "distinct (map fst (documents s)) \<Longrightarrow> distinct (map fst (documents (onConnect_settled sid n outcome s)))"
  by (simp add: onConnect_settled_def distinct_setUpNewConnection split: promise.split)

lemma distinct_onAuthenticate_settled:
  "distinct (map fst (documents s)) \<Longrightarrow> distinct (map fst (documents (onAuthenticate_settled sid n outcome s)))"
  by (simp add: onAuthenticate_settled_def distinct_setUpNewConnection split: promise.split)

lemma documents_onLoadDocument_settled:
  "documents (onLoadDocument_settled via sid n d outcome s) =
     (case outcome of Rejected e \<Rightarrow> AList.delete n (documents s) | Resolved v \<Rightarrow> documents s)"
  by (simp add: onLoadDocument_settled_def Let_def split: promise.split)

lemma documents_afterStoreDocument_settled:
  "documents (afterStoreDocument_settled origin sid d outcome s) = documents s
   \<or> documents (afterStoreDocument_settled origin sid d outcome s)
        = AList.delete (document_name (heap s ! d)) (documents s)"
  by (simp add: afterStoreDocument_settled_def split: promise.split store_origin.split)

lemma documents_onDisconnect_settled:
  "documents (onDisconnect_settled sid d outcome s) = documents s
   \<or> documents (onDisconnect_settled sid d outcome s)
        = AList.delete (document_name (heap s ! d)) (documents s)"
  by (simp add: onDisconnect_settled_def split: promise.split)

lemma distinct_resume:
  assumes "distinct (map fst (documents s))"
  shows "distinct (map fst (documents (resume k outcome s)))"
proof (cases k)
  case (AwaitOnLoadDocument via sid n d)
  with assms show ?thesis
    by (simp add: documents_onLoadDocument_settled distinct_delete split: promise.split)
next
  case (AwaitAfterStoreDocument origin sid d)
  with assms documents_afterStoreDocument_settled [of origin sid d outcome s] show ?thesis
    by (auto simp: distinct_delete)
next
  case (AwaitOnDisconnect sid d)
  with assms documents_onDisconnect_settled [of sid d outcome s] show ?thesis
    by (auto simp: distinct_delete)
qed (use assms in \<open>simp_all add: distinct_onConnect_settled distinct_onAuthenticate_settled split: promise.split\<close>)

lemma distinct_step:
  "distinct (map fst (documents s)) \<Longrightarrow> distinct (map fst (documents (step e s)))"
  by (cases e) (simp_all add: distinct_resume)

lemma distinct_run_events:
  "distinct (map fst (documents s)) \<Longrightarrow> distinct (map fst (documents (run_events es s)))"
  unfolding run_events_def
  by (induction es arbitrary: s) (simp_all add: distinct_step)

lemma distinct_keys_filter:
  "distinct (map fst xs) \<Longrightarrow> length (filter (\<lambda>entry. fst entry = n) xs) \<le> Suc 0"
  by (induction xs) (auto simp: filter_empty_conv image_iff)

lemma documents_new_server [simp]: "documents (new_server lib cfg now) = []"
  by (simp add: new_server_def)

text \<open>
  Claim C1. Whatever events a fresh server goes through, in whatever order, its registry
  never holds more than one document under one name. \<^verbatim>\<open>createDocument\<close> contributes the
  three behaviours the claim names: with a document registered under the name it returns
  that document and leaves the state as it is; without one, the new document is in the
  registry when the function suspends at \<^verbatim>\<open>onLoadDocument\<close>; and when \<^verbatim>\<open>onLoadDocument\<close>
  rejects, the name is no longer in the registry.
\<close>

theorem registry_one_document_per_name:
  "length (registered (run_events es (new_server lib cfg now)) n) \<le> 1
   \<and> (case map_of (documents s) n of
         Some d \<Rightarrow> createDocument via sid n s = (Some d, s)
       | None \<Rightarrow>
           fst (createDocument via sid n s) = None
           \<and> map_of (documents (snd (createDocument via sid n s))) n = Some (length (heap s))
           \<and> pending (snd (createDocument via sid n s))
               = pending s @ [AwaitOnLoadDocument via sid n (length (heap s))])
   \<and> map_of (documents (onLoadDocument_settled via sid n d (Rejected e) s)) n = None"
proof (intro conjI)
  have "distinct (map fst (documents (run_events es (new_server lib cfg now))))"
    by (rule distinct_run_events) simp
  then show "length (registered (run_events es (new_server lib cfg now)) n) \<le> 1"
    using distinct_keys_filter by (simp add: registered_def)
next
  show "case map_of (documents s) n of
         Some d \<Rightarrow> createDocument via sid n s = (Some d, s)
       | None \<Rightarrow>
           fst (createDocument via sid n s) = None
           \<and> map_of (documents (snd (createDocument via sid n s))) n = Some (length (heap s))
           \<and> pending (snd (createDocument via sid n s))
               = pending s @ [AwaitOnLoadDocument via sid n (length (heap s))]"
    by (simp add: createDocument_existing createDocument_new update_conv' split: option.split)
next
  show "map_of (documents (onLoadDocument_settled via sid n d (Rejected e) s)) n = None"
    by (simp add: documents_onLoadDocument_settled delete_conv')
qed

section \<open>Reusing a registered document\<close>

text \<open>
  Claim C10. With a document registered under the name, \<^verbatim>\<open>createDocument\<close> returns that
  document and the server state is exactly what it was: no document constructed, no
  hook called, nothing registered or wired, registry and \<^verbatim>\<open>isLoading\<close> untouched. All
  \<^verbatim>\<open>setUpNewConnection\<close> does before it resumes is clear the idle timer. And
  \<^verbatim>\<open>createConnection\<close> attaches the connection to the document whatever its \<^verbatim>\<open>isLoading\<close>
  flag says, leaving the flag as it is: a second connection attaches to a document that
  is still loading.
\<close>

theorem createDocument_registered_is_returned_unchanged:
  "map_of (documents s) documentName = Some d \<longrightarrow>
     createDocument via sid documentName s = (Some d, s)
   \<and> setUpNewConnection via sid documentName s
       = suspend (AwaitCreateDocument via sid documentName d)
           (on_socket sid (\<lambda>t. t\<lparr>closeIdleConnection := False\<rparr>) s)
   \<and> (sid < length (sockets s) \<and> d < length (heap s) \<and> readyState (sockets s ! sid) = Open \<longrightarrow>
        connections (heap (createConnection sid documentName d s) ! d) = connections (heap s ! d) @ [sid]
      \<and> isLoading (heap (createConnection sid documentName d s) ! d) = isLoading (heap s ! d)
      \<and> map_of (instances (sockets (createConnection sid documentName d s) ! sid)) documentName
           = Some (d, False))"
  by (simp add: createDocument_def setUpNewConnection_def createConnection_def Let_def
        on_socket_def on_document_def update_conv')

text \<open>
  The theorem on a run: the first transport's attach has constructed document 0 and waits
  for \<^verbatim>\<open>onLoadDocument\<close>; the second transport's attach gets document 0 back, still
  loading, and its connection is attached to it.
\<close>

theorem createDocument_registered_is_returned_unchanged_witness:
  "map_of (documents (run_events
       [Accept, Accept, Message 0 (Frame ''doc'' Sync None),
        Settle (AwaitOnConnect 0 ''doc'') (Resolved ())]
       (new_server example_library example_open 1000))) ''doc'' = Some 0
   \<and> isLoading (heap (run_events
       [Accept, Accept, Message 0 (Frame ''doc'' Sync None),
        Settle (AwaitOnConnect 0 ''doc'') (Resolved ())]
       (new_server example_library example_open 1000)) ! 0)
   \<and> fst (createDocument ViaOnConnect 1 ''doc'' (run_events
       [Accept, Accept, Message 0 (Frame ''doc'' Sync None),
        Settle (AwaitOnConnect 0 ''doc'') (Resolved ())]
       (new_server example_library example_open 1000))) = Some 0
   \<and> snd (createDocument ViaOnConnect 1 ''doc'' (run_events
       [Accept, Accept, Message 0 (Frame ''doc'' Sync None),
        Settle (AwaitOnConnect 0 ''doc'') (Resolved ())]
       (new_server example_library example_open 1000)))
      = run_events
       [Accept, Accept, Message 0 (Frame ''doc'' Sync None),
        Settle (AwaitOnConnect 0 ''doc'') (Resolved ())]
       (new_server example_library example_open 1000)
   \<and> connections (heap (createConnection 1 ''doc'' 0 (run_events
       [Accept, Accept, Message 0 (Frame ''doc'' Sync None),
        Settle (AwaitOnConnect 0 ''doc'') (Resolved ())]
       (new_server example_library example_open 1000))) ! 0) = [1]
   \<and> isLoading (heap (createConnection 1 ''doc'' 0 (run_events
       [Accept, Accept, Message 0 (Frame ''doc'' Sync None),
        Settle (AwaitOnConnect 0 ''doc'') (Resolved ())]
       (new_server example_library example_open 1000))) ! 0)"
proof -
  let ?s = "run_events
       [Accept, Accept, Message 0 (Frame ''doc'' Sync None),
        Settle (AwaitOnConnect 0 ''doc'') (Resolved ())]
       (new_server example_library example_open 1000) :: (unit, nat, nat list) server"
  have reg: "map_of (documents ?s) ''doc'' = Some 0"
    by (simp add: kernel_defs example_library_def example_open_def)
  have loading: "isLoading (heap ?s ! 0)" and none: "connections (heap ?s ! 0) = []"
    and shape: "1 < length (sockets ?s) \<and> 0 < length (heap ?s) \<and> readyState (sockets ?s ! 1) = Open"
    by (simp_all add: kernel_defs example_library_def example_open_def)
  from createDocument_registered_is_returned_unchanged [of ?s "''doc''" 0 ViaOnConnect 1] reg shape
  have "createDocument ViaOnConnect 1 ''doc'' ?s = (Some 0, ?s)
      \<and> connections (heap (createConnection 1 ''doc'' 0 ?s) ! 0) = connections (heap ?s ! 0) @ [1]
      \<and> isLoading (heap (createConnection 1 ''doc'' 0 ?s) ! 0) = isLoading (heap ?s ! 0)"
    by blast
  with reg loading none show ?thesis by simp
qed

section \<open>Updates without an origin connection\<close>

text \<open>
  Claim C8. \<^verbatim>\<open>handleDocumentUpdate\<close> with an undefined origin connection starts the
  \<^verbatim>\<open>onChange\<close> chain and returns: the timers and the pending timeouts are as before (no
  debounce entry created or changed), the only hook called is \<^verbatim>\<open>onChange\<close>, and the only
  computation left waiting is that detached chain, so neither \<^verbatim>\<open>onStoreDocument\<close> nor
  \<^verbatim>\<open>afterStoreDocument\<close> is called for the update.
\<close>

theorem handleDocumentUpdate_without_origin_only_onChange:
  "handleDocumentUpdate d None s
     = call_hooks onChange None (document_name (heap s ! d)) (Some d) (Detached onChange) s
   \<and> timers (handleDocumentUpdate d None s) = timers s
   \<and> timeouts (handleDocumentUpdate d None s) = timeouts s
   \<and> effects (handleDocumentUpdate d None s)
        = effects s @ [HookCall onChange None (document_name (heap s ! d)) (Some d)]
   \<and> pending (handleDocumentUpdate d None s) = pending s @ [Detached onChange]"
  by (simp add: handleDocumentUpdate_def call_hooks_def suspend_def emit_def)

section \<open>Rejections of \<^verbatim>\<open>onStoreDocument\<close>\<close>

text \<open>
  Claim C6. When the \<^verbatim>\<open>onStoreDocument\<close> chain rejects with an error that carries no
  non-empty message, the pipeline goes on exactly as if the chain had resolved: the
  \<^verbatim>\<open>afterStoreDocument\<close> chain is started. When the error carries a non-empty message it
  is rethrown: nothing catches it and \<^verbatim>\<open>afterStoreDocument\<close> is not started. This holds
  for both origins of the store, the debounced one of \<^verbatim>\<open>handleDocumentUpdate\<close> and the
  immediate one of the last disconnect; either closure starts the chain this
  continuation waits for.
\<close>

theorem onStoreDocument_rejection_rethrown_only_with_message:
  "(\<not> has_message error \<longrightarrow>
      resume (AwaitOnStoreDocument origin sid d) (Rejected error) s
        = resume (AwaitOnStoreDocument origin sid d) (Resolved ()) s
    \<and> resume (AwaitOnStoreDocument origin sid d) (Rejected error) s
        = call_hooks afterStoreDocument (Some sid) (document_name (heap s ! d)) (Some d)
            (AwaitAfterStoreDocument origin sid d) s)
   \<and> (has_message error \<longrightarrow>
      resume (AwaitOnStoreDocument origin sid d) (Rejected error) s = emit (Uncaught error) s)
   \<and> call_thunk (StoreDocument origin sid d) s
        = call_hooks onStoreDocument (Some sid) (document_name (heap s ! d)) (Some d)
            (AwaitOnStoreDocument origin sid d) s"
  by (simp add: onStoreDocument_settled_def promise_catch_def store_catch_def)

text \<open>
  The theorem at three rejections, on the update path and on the disconnect path:
  \<^verbatim>\<open>undefined\<close> and an error with an empty message are swallowed, an error with the message
  \<^verbatim>\<open>"disk full"\<close> is rethrown.
\<close>

theorem onStoreDocument_rejection_rethrown_only_with_message_witness:
  "resume (AwaitOnStoreDocument OnUpdate 0 0) (Rejected Undefined)
       (new_server example_library example_open 1000 :: (unit, nat, nat list) server)
     = resume (AwaitOnStoreDocument OnUpdate 0 0) (Resolved ())
         (new_server example_library example_open 1000)
   \<and> resume (AwaitOnStoreDocument OnLastDisconnect 0 0) (Rejected (Thrown None None (Some '''')))
       (new_server example_library example_open 1000 :: (unit, nat, nat list) server)
     = resume (AwaitOnStoreDocument OnLastDisconnect 0 0) (Resolved ())
         (new_server example_library example_open 1000)
   \<and> resume (AwaitOnStoreDocument OnLastDisconnect 0 0)
         (Rejected (Thrown None None (Some ''disk full'')))
       (new_server example_library example_open 1000 :: (unit, nat, nat list) server)
     = emit (Uncaught (Thrown None None (Some ''disk full'')))
         (new_server example_library example_open 1000)
   \<and> resume (AwaitOnStoreDocument OnUpdate 0 0)
         (Rejected (Thrown None None (Some ''disk full'')))
       (new_server example_library example_open 1000 :: (unit, nat, nat list) server)
     = emit (Uncaught (Thrown None None (Some ''disk full'')))
         (new_server example_library example_open 1000)"
  using onStoreDocument_rejection_rethrown_only_with_message
          [of Undefined OnUpdate 0 0 "new_server example_library example_open 1000 :: (unit, nat, nat list) server"]
        onStoreDocument_rejection_rethrown_only_with_message
          [of "Thrown None None (Some '''')" OnLastDisconnect 0 0
              "new_server example_library example_open 1000 :: (unit, nat, nat list) server"]
        onStoreDocument_rejection_rethrown_only_with_message
          [of "Thrown None None (Some ''disk full'')" OnLastDisconnect 0 0
              "new_server example_library example_open 1000 :: (unit, nat, nat list) server"]
        onStoreDocument_rejection_rethrown_only_with_message
          [of "Thrown None None (Some ''disk full'')" OnUpdate 0 0
              "new_server example_library example_open 1000 :: (unit, nat, nat list) server"]
  by simp

section \<open>The debouncer\<close>

lemma debouncer_inv_cong:
  assumes "debouncer_inv s"
    and "clock s' = clock s" "timeouts s' = timeouts s" "timers s' = timers s"
    and "next_handle s' = next_handle s" "configuration s' = configuration s"
  shows "debouncer_inv s'"
  using assms by (simp add: debouncer_inv_def stall_bounded_def)

lemma list_all_delete: "list_all P xs \<Longrightarrow> list_all P (AList.delete k xs)"
  by (simp add: AList.delete_eq list_all_iff)

lemma set_update_distinct:
  "distinct (map fst xs) \<Longrightarrow> set (AList.update k v xs) \<subseteq> insert (k, v) {e \<in> set xs. fst e \<noteq> k}"
  by (induction xs) (auto simp: image_iff)

text \<open>Removing a timeout together with every timer entry of its key.\<close>

lemma stall_bounded_drop:
  assumes sb: "stall_bounded s"
    and h: "map_of (timeouts s) h = Some sc"
    and s': "timeouts s' = AList.delete h (timeouts s)" "timers s' = AList.delete (run_id sc) (timers s)"
      "configuration s' = configuration s"
  shows "stall_bounded s'"
proof -
  let ?slack = "config_maxDebounce (configuration s) + config_debounce (configuration s)"
  { fix entry assume mem: "entry \<in> set (timers s)" and other: "fst entry \<noteq> run_id sc"
    from sb mem have es: "entry_scheduled (timeouts s) ?slack entry"
      by (simp add: stall_bounded_def list_all_iff)
    with h other have "timeout (snd entry) \<noteq> h"
      by (auto simp: entry_scheduled_def)
    with es have "entry_scheduled (AList.delete h (timeouts s)) ?slack entry"
      by (simp add: entry_scheduled_def) }
  then show ?thesis using s'
    by (auto simp: stall_bounded_def list_all_iff AList.delete_eq)
qed

lemma run_fields:
  "timers (run key func s) = AList.delete key (timers s)"
  "effects (run key func s) = effects (call_thunk func s)"
  "pending (run key func s) = pending (call_thunk func s)"
  by (cases func; simp add: run_def call_hooks_def suspend_def emit_def)+

lemma debouncer_inv_run:
  assumes "debouncer_inv s"
  shows "debouncer_inv (run key func s)"
proof -
  have "\<And>entry. entry \<in> set (AList.delete key (timers s)) \<Longrightarrow> entry \<in> set (timers s)"
    by (auto simp: AList.delete_eq)
  then show ?thesis using assms
    by (simp add: debouncer_inv_def stall_bounded_def list_all_iff run_fields distinct_delete)
qed

lemma debouncer_inv_cancel:
  assumes inv: "debouncer_inv s" and old: "map_of (timers s) key = Some e"
  shows "debouncer_inv (run key func (clearTimeout (timeout e) s))"
proof -
  let ?s' = "run key func (clearTimeout (timeout e) s)"
  from old have mem: "(key, e) \<in> set (timers s)" by (rule map_of_SomeD)
  with inv obtain sc where sc: "map_of (timeouts s) (timeout e) = Some sc" "run_id sc = key"
    by (auto simp: debouncer_inv_def stall_bounded_def entry_scheduled_def list_all_iff
             split: option.splits)
  have f1: "timers ?s' = AList.delete key (timers s)"
    by (simp add: run_fields clearTimeout_def)
  have f2: "timeouts ?s' = AList.delete (timeout e) (timeouts s)"
    by (simp add: clearTimeout_def)
  have f3: "clock ?s' = clock s" "next_handle ?s' = next_handle s" "configuration ?s' = configuration s"
    by simp_all
  from inv have sb: "stall_bounded s" by (simp add: debouncer_inv_def)
  from f1 sc(2) have f1': "timers ?s' = AList.delete (run_id sc) (timers s)" by simp
  have "stall_bounded ?s'"
    by (rule stall_bounded_drop [OF sb sc(1) f2 f1' f3(3)])
  with inv show ?thesis
    unfolding debouncer_inv_def f1 f2 f3
    by (simp add: list_all_delete distinct_delete)
qed

lemma debouncer_inv_timeout_elapses:
  assumes inv: "debouncer_inv s"
  shows "debouncer_inv (timeout_elapses h s)"
proof (cases "map_of (timeouts s) h")
  case None
  with inv show ?thesis by (simp add: timeout_elapses_def)
next
  case (Some sc)
  show ?thesis
  proof (cases "due sc \<le> clock s")
    case False
    with Some inv show ?thesis by (simp add: timeout_elapses_def)
  next
    case True
    let ?s' = "run (run_id sc) (run_func sc) (s\<lparr>timeouts := AList.delete h (timeouts s)\<rparr>)"
    have f1: "timers ?s' = AList.delete (run_id sc) (timers s)"
      by (simp add: run_fields)
    have f2: "timeouts ?s' = AList.delete h (timeouts s)"
      by simp
    have f3: "clock ?s' = clock s" "next_handle ?s' = next_handle s" "configuration ?s' = configuration s"
      by simp_all
    from inv have sb: "stall_bounded s" by (simp add: debouncer_inv_def)
    have "stall_bounded ?s'"
      by (rule stall_bounded_drop [OF sb Some f2 f1 f3(3)])
    with inv have "debouncer_inv ?s'"
      unfolding debouncer_inv_def f1 f2 f3
      by (simp add: list_all_delete distinct_delete)
    with Some True show ?thesis by (simp add: timeout_elapses_def)
  qed
qed

lemma debounce_immediately:
  "debounce key func True s = run key func (cancel_old key s)"
  by (simp add: debounce_def cancel_old_def Let_def)

lemma debounce_expired:
  "config_maxDebounce (configuration s) \<le> clock s - start_of (map_of (timers s) key) (clock s)
    \<Longrightarrow> debounce key func False s = run key func (cancel_old key s)"
  by (cases "map_of (timers s) key") (simp_all add: debounce_def cancel_old_def Let_def)

lemma debounce_scheduled:
  assumes "\<not> config_maxDebounce (configuration s) \<le> clock s - start_of (map_of (timers s) key) (clock s)"
  shows "timers (debounce key func False s)
           = AList.update key \<lparr>timeout = next_handle s, start = start_of (map_of (timers s) key) (clock s)\<rparr>
               (timers s)"
    and "timeouts (debounce key func False s)
           = timeouts (cancel_old key s)
             @ [(next_handle s, \<lparr>due = clock s + config_debounce (configuration s),
                                 run_id = key, run_func = func\<rparr>)]"
    and "next_handle (debounce key func False s) = Suc (next_handle s)"
    and "effects (debounce key func False s) = effects s"
    and "pending (debounce key func False s) = pending s"
  using assms
  by (cases "map_of (timers s) key";
      simp add: debounce_def cancel_old_def setTimeout_def clearTimeout_def Let_def)+

lemma timeouts_cancel_old:
  "timeouts (cancel_old key s)
     = (case map_of (timers s) key of None \<Rightarrow> timeouts s
        | Some e \<Rightarrow> AList.delete (timeout e) (timeouts s))"
  by (simp add: cancel_old_def clearTimeout_def split: option.split)

lemma debouncer_inv_cancel_old_run:
  assumes "debouncer_inv s"
  shows "debouncer_inv (run key func (cancel_old key s))"
proof (cases "map_of (timers s) key")
  case None
  then have "cancel_old key s = s" by (simp add: cancel_old_def)
  with assms show ?thesis by (simp only: debouncer_inv_run)
next
  case (Some e)
  then have "cancel_old key s = clearTimeout (timeout e) s" by (simp add: cancel_old_def)
  with debouncer_inv_cancel [OF assms Some] show ?thesis by simp
qed

lemma start_of_positive:
  assumes "debouncer_inv s"
  shows "0 < start_of (map_of (timers s) key) (clock s)"
proof (cases "map_of (timers s) key")
  case None
  with assms show ?thesis by (simp add: start_of_def debouncer_inv_def)
next
  case (Some e)
  then have "(key, e) \<in> set (timers s)" by (rule map_of_SomeD)
  with assms have "0 < start e" by (auto simp: debouncer_inv_def list_all_iff)
  with Some show ?thesis by (simp add: start_of_def)
qed

lemma start_of_stored:
  assumes "debouncer_inv s"
  shows "start_of (map_of (timers s) key) (clock s)
           = (case map_of (timers s) key of None \<Rightarrow> clock s | Some e \<Rightarrow> start e)"
proof (cases "map_of (timers s) key")
  case None
  then show ?thesis by (simp add: start_of_def)
next
  case (Some e)
  then have "(key, e) \<in> set (timers s)" by (rule map_of_SomeD)
  with assms have "0 < start e" by (auto simp: debouncer_inv_def list_all_iff)
  with Some show ?thesis by (simp add: start_of_def)
qed

lemma debouncer_inv_debounce:
  assumes inv: "debouncer_inv s"
  shows "debouncer_inv (debounce key func immediately s)"
proof (cases "immediately \<or> config_maxDebounce (configuration s)
                  \<le> clock s - start_of (map_of (timers s) key) (clock s)")
  case True
  then have "debounce key func immediately s = run key func (cancel_old key s)"
    by (cases immediately) (auto simp: debounce_immediately debounce_expired)
  with inv show ?thesis by (simp add: debouncer_inv_cancel_old_run)
next
  case False
  then have imm: "immediately = False"
    and fresh: "\<not> config_maxDebounce (configuration s)
                  \<le> clock s - start_of (map_of (timers s) key) (clock s)" by simp_all
  let ?start = "start_of (map_of (timers s) key) (clock s)"
  let ?h = "next_handle s"
  let ?new = "\<lparr>timeout = ?h, start = ?start\<rparr>"
  let ?sc = "\<lparr>due = clock s + config_debounce (configuration s), run_id = key, run_func = func\<rparr>"
  let ?slack = "config_maxDebounce (configuration s) + config_debounce (configuration s)"
  let ?s' = "debounce key func False s"
  note f = debounce_scheduled [OF fresh, of func]
  have cfg: "configuration ?s' = configuration s" and clk: "clock ?s' = clock s" by simp_all
  from inv have handles: "\<forall>p \<in> set (timeouts s). fst p < ?h"
    and starts: "\<forall>entry \<in> set (timers s). 0 < start (snd entry)"
    and dist: "distinct (map fst (timers s))"
    and sb: "\<forall>entry \<in> set (timers s). entry_scheduled (timeouts s) ?slack entry"
    by (simp_all add: debouncer_inv_def stall_bounded_def list_all_iff)
  have sub: "set (timeouts (cancel_old key s)) \<subseteq> set (timeouts s)"
    by (auto simp: timeouts_cancel_old AList.delete_eq split: option.split)
  with handles have unused: "map_of (timeouts (cancel_old key s)) ?h = None"
    by (force simp: map_of_eq_None_iff)
  have g1: "\<forall>p \<in> set (timeouts ?s'). fst p < next_handle ?s'"
    using handles sub by (fastforce simp: f)
  have g2: "\<forall>entry \<in> set (timers ?s'). 0 < start (snd entry)"
    using starts set_update_distinct [OF dist, of key ?new] start_of_positive [OF inv, of key]
    by (auto simp: f)
  have g3: "distinct (map fst (timers ?s'))"
    using dist by (simp add: f distinct_update)
  have new: "entry_scheduled (timeouts ?s') ?slack (key, ?new)"
    using unused fresh by (simp add: entry_scheduled_def f map_add_def)
  { fix entry assume mem: "entry \<in> set (timers s)" and other: "fst entry \<noteq> key"
    from sb mem have es: "entry_scheduled (timeouts s) ?slack entry" by simp
    have "map_of (timeouts (cancel_old key s)) (timeout (snd entry))
            = map_of (timeouts s) (timeout (snd entry))"
    proof (cases "map_of (timers s) key")
      case None
      then show ?thesis by (simp add: timeouts_cancel_old)
    next
      case (Some e)
      then have "(key, e) \<in> set (timers s)" by (rule map_of_SomeD)
      with sb have "entry_scheduled (timeouts s) ?slack (key, e)" by blast
      with es other have "timeout (snd entry) \<noteq> timeout e"
        by (auto simp: entry_scheduled_def split: option.splits)
      with Some show ?thesis by (simp add: timeouts_cancel_old)
    qed
    with es have "entry_scheduled (timeouts ?s') ?slack entry"
      by (auto simp: entry_scheduled_def f map_add_def split: option.splits) }
  with new have g4: "\<forall>entry \<in> set (timers ?s'). entry_scheduled (timeouts ?s') ?slack entry"
    using set_update_distinct [OF dist, of key ?new] by (auto simp: f)
  from inv have "0 < clock s" by (simp add: debouncer_inv_def)
  with g1 g2 g3 g4 show ?thesis
    by (simp add: imm debouncer_inv_def stall_bounded_def list_all_iff cfg clk)
qed

lemma debouncer_inv_handleDocumentUpdate:
  assumes "debouncer_inv s"
  shows "debouncer_inv (handleDocumentUpdate d origin s)"
proof -
  have "debouncer_inv (call_hooks onChange origin (document_name (heap s ! d)) (Some d)
          (Detached onChange) s)"
    by (rule debouncer_inv_cong [OF assms]) simp_all
  then show ?thesis
    by (cases origin) (simp_all add: handleDocumentUpdate_def Let_def debouncer_inv_debounce)
qed

lemma debouncer_inv_onDisconnect_settled:
  assumes "debouncer_inv s"
  shows "debouncer_inv (onDisconnect_settled sid d outcome s)"
proof -
  have "debouncer_inv (emit x s)" for x
    by (rule debouncer_inv_cong [OF assms]) simp_all
  moreover have "debouncer_inv (destroy d (s\<lparr>documents := xs\<rparr>))" for xs
    by (rule debouncer_inv_cong [OF assms]) simp_all
  ultimately show ?thesis using assms
    by (cases outcome) (simp_all add: onDisconnect_settled_def debouncer_inv_debounce)
qed

lemma resume_debouncer_fields:
  "(\<forall>sid d. k \<noteq> AwaitOnDisconnect sid d) \<Longrightarrow>
     timers (resume k outcome s) = timers s \<and> timeouts (resume k outcome s) = timeouts s
     \<and> next_handle (resume k outcome s) = next_handle s"
  by (cases k) (simp_all split: promise.split)

lemma debouncer_inv_resume:
  assumes "debouncer_inv s"
  shows "debouncer_inv (resume k outcome s)"
proof (cases "\<exists>sid d. k = AwaitOnDisconnect sid d")
  case True
  with assms show ?thesis by (auto simp: debouncer_inv_onDisconnect_settled)
next
  case False
  then have "\<forall>sid d. k \<noteq> AwaitOnDisconnect sid d" by simp
  from resume_debouncer_fields [OF this, of outcome s] show ?thesis
    by (intro debouncer_inv_cong [OF assms]) simp_all
qed

lemma debouncer_inv_step:
  assumes "debouncer_inv s"
  shows "debouncer_inv (step e s)"
proof (cases e)
  case Accept
  show ?thesis unfolding Accept step.simps
    by (rule debouncer_inv_cong [OF assms]) simp_all
next
  case (Message sid data)
  have "debouncer_inv (socket_message sid data s)"
    by (rule debouncer_inv_cong [OF assms]) simp_all
  with assms Message show ?thesis by simp
next
  case (Settle k outcome)
  have "debouncer_inv (emit (Settled k outcome) (s\<lparr>pending := remove1 k (pending s)\<rparr>))"
    using assms by (rule debouncer_inv_cong) (simp_all add: emit_def)
  with assms Settle show ?thesis by (simp add: debouncer_inv_resume)
next
  case (HookSets sid c)
  have "debouncer_inv (on_socket sid (\<lambda>t. t\<lparr>connection := c\<rparr>) s)"
    by (rule debouncer_inv_cong [OF assms]) simp_all
  with assms HookSets show ?thesis by simp
next
  case (ConnectionCloses sid n ev)
  have "debouncer_inv (connection_close sid n ev s)"
    by (rule debouncer_inv_cong [OF assms]) simp_all
  with assms ConnectionCloses show ?thesis by simp
next
  case (CloseConnections n)
  show ?thesis unfolding CloseConnections step.simps
    by (rule debouncer_inv_cong [OF assms]) simp_all
next
  case (SocketClosed sid)
  have "debouncer_inv (on_socket sid (\<lambda>t. t\<lparr>readyState := Closed\<rparr>) s)"
    by (rule debouncer_inv_cong [OF assms]) simp_all
  with assms SocketClosed show ?thesis by simp
next
  case (DocumentUpdated d origin)
  with assms show ?thesis by (simp add: debouncer_inv_handleDocumentUpdate)
next
  case (TimeoutElapses h)
  with assms show ?thesis by (simp add: debouncer_inv_timeout_elapses)
next
  case (IdleTimeout sid)
  have "debouncer_inv (idle_timeout sid s)"
    by (rule debouncer_inv_cong [OF assms]) simp_all
  with assms IdleTimeout show ?thesis by simp
next
  case (Tick n)
  with assms show ?thesis by (simp add: debouncer_inv_def stall_bounded_def)
qed

lemma debouncer_inv_run_events:
  "debouncer_inv s \<Longrightarrow> debouncer_inv (run_events es s)"
  unfolding run_events_def
  by (induction es arbitrary: s) (simp_all add: debouncer_inv_step)

lemma debouncer_inv_new_server:
  "0 < now \<Longrightarrow> debouncer_inv (new_server lib cfg now)"
  by (simp add: debouncer_inv_def stall_bounded_def new_server_def)

lemma run_cancel_fields:
  "map_of (timers (run key func (cancel_old key s))) key = None"
  "effects (run key func (cancel_old key s)) = effects (call_thunk func s)"
  "pending (run key func (cancel_old key s)) = pending (call_thunk func s)"
  by (cases func; cases "map_of (timers s) key";
      simp add: run_def cancel_old_def clearTimeout_def call_hooks_def suspend_def emit_def delete_conv')+

lemma old_timeout_cancelled:
  "map_of (timers s) key = Some old \<Longrightarrow> map_of (timeouts (cancel_old key s)) (timeout old) = None"
  by (simp add: timeouts_cancel_old delete_conv')

text \<open>
  Claim C4. In every state a server reaches (its clock positive, as \<^verbatim>\<open>Date.now()\<close> is),
  for every key and function:
  \<^item> \<^verbatim>\<open>debounce(id, fn, true)\<close> cancels the pending timeout of the key, deletes the timer
    entry and calls \<^verbatim>\<open>fn\<close> before it returns;
  \<^item> \<^verbatim>\<open>debounce(id, fn, false)\<close> takes \<open>start0\<close> from the entry of the key, or the clock
    when there is none; with \<^verbatim>\<open>now - start0 >= maxDebounce\<close> it does what the immediate call
    does; otherwise the old timeout is cancelled, \<^verbatim>\<open>fn\<close> is not called, a timeout for
    \<^verbatim>\<open>fn\<close> is scheduled \<^verbatim>\<open>debounce\<close> after now and the entry keeps \<open>start0\<close>; the new
    timeout is due before \<^verbatim>\<open>start0 + maxDebounce + debounce\<close>;
  \<^item> so every timer entry of the state has a pending timeout of its key due before
    \<^verbatim>\<open>start + maxDebounce + debounce\<close>, and a timeout that has come due calls \<^verbatim>\<open>fn\<close> when it
    elapses.
\<close>

theorem debounce_contract:
  assumes "0 < now" and "s = run_events es (new_server lib cfg now)"
  shows
    "debounce key func True s = run key func (cancel_old key s)
     \<and> map_of (timers (debounce key func True s)) key = None
     \<and> (case map_of (timers s) key of
           None \<Rightarrow> True
         | Some old \<Rightarrow> map_of (timeouts (debounce key func True s)) (timeout old) = None)
     \<and> effects (debounce key func True s) = effects (call_thunk func s)
     \<and> (let start0 = (case map_of (timers s) key of None \<Rightarrow> clock s | Some old \<Rightarrow> start old)
        in if config_maxDebounce (configuration s) \<le> clock s - start0
           then debounce key func False s = debounce key func True s
           else timers (debounce key func False s)
                  = AList.update key \<lparr>timeout = next_handle s, start = start0\<rparr> (timers s)
              \<and> timeouts (debounce key func False s)
                  = timeouts (cancel_old key s)
                    @ [(next_handle s, \<lparr>due = clock s + config_debounce (configuration s),
                                        run_id = key, run_func = func\<rparr>)]
              \<and> (case map_of (timers s) key of
                    None \<Rightarrow> True
                  | Some old \<Rightarrow> map_of (timeouts (cancel_old key s)) (timeout old) = None)
              \<and> effects (debounce key func False s) = effects s
              \<and> pending (debounce key func False s) = pending s
              \<and> clock s + config_debounce (configuration s)
                  < start0 + config_maxDebounce (configuration s) + config_debounce (configuration s))
     \<and> stall_bounded s
     \<and> (case map_of (timeouts s) h of
           None \<Rightarrow> timeout_elapses h s = s
         | Some sc \<Rightarrow>
             timeout_elapses h s
               = (if due sc \<le> clock s
                  then run (run_id sc) (run_func sc) (s\<lparr>timeouts := AList.delete h (timeouts s)\<rparr>)
                  else s))"
proof -
  have inv: "debouncer_inv s"
    unfolding assms(2) using assms(1)
    by (intro debouncer_inv_run_events debouncer_inv_new_server)
  let ?start0 = "case map_of (timers s) key of None \<Rightarrow> clock s | Some old \<Rightarrow> start old"
  have st: "start_of (map_of (timers s) key) (clock s) = ?start0"
    by (rule start_of_stored [OF inv])
  have imm: "debounce key func True s = run key func (cancel_old key s)"
    by (rule debounce_immediately)
  have c1: "map_of (timers (debounce key func True s)) key = None"
    and c3: "effects (debounce key func True s) = effects (call_thunk func s)"
    unfolding imm by (rule run_cancel_fields)+
  have c2: "case map_of (timers s) key of
           None \<Rightarrow> True
         | Some old \<Rightarrow> map_of (timeouts (debounce key func True s)) (timeout old) = None"
    unfolding imm by (simp add: old_timeout_cancelled split: option.split)
  have c2': "case map_of (timers s) key of
                    None \<Rightarrow> True
                  | Some old \<Rightarrow> map_of (timeouts (cancel_old key s)) (timeout old) = None"
    by (simp add: old_timeout_cancelled split: option.split)
  have c4: "if config_maxDebounce (configuration s) \<le> clock s - ?start0
           then debounce key func False s = debounce key func True s
           else timers (debounce key func False s)
                  = AList.update key \<lparr>timeout = next_handle s, start = ?start0\<rparr> (timers s)
              \<and> timeouts (debounce key func False s)
                  = timeouts (cancel_old key s)
                    @ [(next_handle s, \<lparr>due = clock s + config_debounce (configuration s),
                                        run_id = key, run_func = func\<rparr>)]
              \<and> (case map_of (timers s) key of
                    None \<Rightarrow> True
                  | Some old \<Rightarrow> map_of (timeouts (cancel_old key s)) (timeout old) = None)
              \<and> effects (debounce key func False s) = effects s
              \<and> pending (debounce key func False s) = pending s
              \<and> clock s + config_debounce (configuration s)
                  < ?start0 + config_maxDebounce (configuration s) + config_debounce (configuration s)"
  proof (cases "config_maxDebounce (configuration s) \<le> clock s - ?start0")
    case True
    then have "config_maxDebounce (configuration s)
                 \<le> clock s - start_of (map_of (timers s) key) (clock s)"
      by (simp add: st)
    from debounce_expired [OF this, of func] imm True show ?thesis by simp
  next
    case False
    then have fresh: "\<not> config_maxDebounce (configuration s)
                 \<le> clock s - start_of (map_of (timers s) key) (clock s)"
      by (simp add: st)
    from debounce_scheduled [OF fresh, of func] c2' False show ?thesis
      by (simp add: st)
  qed
  have c5: "stall_bounded s" using inv by (simp add: debouncer_inv_def)
  have c6: "case map_of (timeouts s) h of
           None \<Rightarrow> timeout_elapses h s = s
         | Some sc \<Rightarrow>
             timeout_elapses h s
               = (if due sc \<le> clock s
                  then run (run_id sc) (run_func sc) (s\<lparr>timeouts := AList.delete h (timeouts s)\<rparr>)
                  else s)"
    by (simp add: timeout_elapses_def split: option.split)
  from imm c1 c2 c3 c4 c5 c6 show ?thesis by (simp only: Let_def)
qed

text \<open>
  The theorem on a run: an update at 1000 schedules the store for 3000; a second update
  at 1500 reschedules it for 3500 and keeps the start 1000; an immediate call at 1500
  deletes the entry and starts \<^verbatim>\<open>onStoreDocument\<close>; at 11000 a debounced call runs at once.
\<close>

theorem debounce_contract_witness:
  "timers (run_events (example_attach @ [DocumentUpdated 0 (Some 0), Tick 500])
             (new_server example_library example_open 1000))
     = [(''onStoreDocument-doc'', \<lparr>timeout = 0, start = 1000\<rparr>)]
   \<and> timers (debounce ''onStoreDocument-doc'' (StoreDocument OnUpdate 0 0) False
        (run_events (example_attach @ [DocumentUpdated 0 (Some 0), Tick 500])
             (new_server example_library example_open 1000)))
     = [(''onStoreDocument-doc'', \<lparr>timeout = 1, start = 1000\<rparr>)]
   \<and> timeouts (debounce ''onStoreDocument-doc'' (StoreDocument OnUpdate 0 0) False
        (run_events (example_attach @ [DocumentUpdated 0 (Some 0), Tick 500])
             (new_server example_library example_open 1000)))
     = [(1, \<lparr>due = 3500, run_id = ''onStoreDocument-doc'', run_func = StoreDocument OnUpdate 0 0\<rparr>)]
   \<and> map_of (timers (debounce ''onStoreDocument-doc'' (StoreDocument OnLastDisconnect 0 0) True
        (run_events (example_attach @ [DocumentUpdated 0 (Some 0), Tick 500])
             (new_server example_library example_open 1000)))) ''onStoreDocument-doc'' = None
   \<and> effects (debounce ''onStoreDocument-doc'' (StoreDocument OnLastDisconnect 0 0) True
        (run_events (example_attach @ [DocumentUpdated 0 (Some 0), Tick 500])
             (new_server example_library example_open 1000)))
     = effects (run_events (example_attach @ [DocumentUpdated 0 (Some 0), Tick 500])
             (new_server example_library example_open 1000))
       @ [HookCall onStoreDocument (Some 0) ''doc'' (Some 0)]
   \<and> debounce ''onStoreDocument-doc'' (StoreDocument OnUpdate 0 0) False
        (run_events (example_attach @ [DocumentUpdated 0 (Some 0), Tick 10000])
             (new_server example_library example_open 1000))
     = debounce ''onStoreDocument-doc'' (StoreDocument OnUpdate 0 0) True
        (run_events (example_attach @ [DocumentUpdated 0 (Some 0), Tick 10000])
             (new_server example_library example_open 1000))"
proof -
  define s :: "(unit, nat, nat list) server"
    where "s = run_events (example_attach @ [DocumentUpdated 0 (Some 0), Tick 500])
             (new_server example_library example_open 1000)"
  define late :: "(unit, nat, nat list) server"
    where "late = run_events (example_attach @ [DocumentUpdated 0 (Some 0), Tick 10000])
             (new_server example_library example_open 1000)"
  have s: "timers s = [(''onStoreDocument-doc'', \<lparr>timeout = 0, start = 1000\<rparr>)]"
    "timeouts s = [(0, \<lparr>due = 3000, run_id = ''onStoreDocument-doc'', run_func = StoreDocument OnUpdate 0 0\<rparr>)]"
    "clock s = 1500" "next_handle s = 1"
    "config_maxDebounce (configuration s) = 10000" "config_debounce (configuration s) = 2000"
    "heap s = [\<lparr>document_name = ''doc'', isLoading = False, connections = [0],
                 isDestroyed = False, onUpdate_wired = True\<rparr>]"
    unfolding s_def
    by (simp_all add: kernel_defs example_attach_def example_library_def example_open_def)
  have late: "timers late = [(''onStoreDocument-doc'', \<lparr>timeout = 0, start = 1000\<rparr>)]"
    "clock late = 11000" "config_maxDebounce (configuration late) = 10000"
    unfolding late_def
    by (simp_all add: kernel_defs example_attach_def example_library_def example_open_def)
  have pos: "(0::int) < 1000" by simp
  note a = debounce_contract [OF pos s_def, of "''onStoreDocument-doc''" "StoreDocument OnUpdate 0 0" 0]
  note b = debounce_contract [OF pos s_def, of "''onStoreDocument-doc''" "StoreDocument OnLastDisconnect 0 0" 0]
  note c = debounce_contract [OF pos late_def, of "''onStoreDocument-doc''" "StoreDocument OnUpdate 0 0" 0]
  have a': "timers (debounce ''onStoreDocument-doc'' (StoreDocument OnUpdate 0 0) False s)
     = [(''onStoreDocument-doc'', \<lparr>timeout = 1, start = 1000\<rparr>)]
    \<and> timeouts (debounce ''onStoreDocument-doc'' (StoreDocument OnUpdate 0 0) False s)
     = [(1, \<lparr>due = 3500, run_id = ''onStoreDocument-doc'', run_func = StoreDocument OnUpdate 0 0\<rparr>)]"
    using a [THEN conjunct2, THEN conjunct2, THEN conjunct2, THEN conjunct2, THEN conjunct1]
    by (simp add: s Let_def cancel_old_def clearTimeout_def)
  have b': "map_of (timers (debounce ''onStoreDocument-doc'' (StoreDocument OnLastDisconnect 0 0) True s))
               ''onStoreDocument-doc'' = None
     \<and> effects (debounce ''onStoreDocument-doc'' (StoreDocument OnLastDisconnect 0 0) True s)
          = effects s @ [HookCall onStoreDocument (Some 0) ''doc'' (Some 0)]"
    using b [THEN conjunct2, THEN conjunct1]
      b [THEN conjunct2, THEN conjunct2, THEN conjunct2, THEN conjunct1]
    by (simp add: s call_hooks_def suspend_def emit_def)
  have c': "debounce ''onStoreDocument-doc'' (StoreDocument OnUpdate 0 0) False late
     = debounce ''onStoreDocument-doc'' (StoreDocument OnUpdate 0 0) True late"
    using c [THEN conjunct2, THEN conjunct2, THEN conjunct2, THEN conjunct2, THEN conjunct1]
    by (simp add: late Let_def)
  from s(1) a' b' c' show ?thesis unfolding s_def late_def by simp
qed

section \<open>The last connection of a document closes\<close>

text \<open>
  Claim C5, amended. The disconnect path takes its decision when the \<^verbatim>\<open>onDisconnect\<close>
  chain of the closing connection resolves, not when the connection closes. For a
  document that has no connection at that moment:
  \<^item> with \<^verbatim>\<open>isLoading\<close> true, \<^verbatim>\<open>onStoreDocument\<close> is not called and no timer is touched; in
    that same turn the registry entry under the document's name is deleted and the
    document is destroyed;
  \<^item> with \<^verbatim>\<open>isLoading\<close> false, the debounce entry \<^verbatim>\<open>onStoreDocument-<name>\<close> is flushed at once
    (its pending timeout cancelled, the entry deleted, the \<^verbatim>\<open>onStoreDocument\<close> chain
    started) and the document stays registered for now.

  On that path the document is removed only when the \<^verbatim>\<open>afterStoreDocument\<close> chain resolves
  with the document still without a connection: then the registry entry is deleted and
  the document destroyed. When the document has a connection again at that moment, the
  continuation changes nothing; when the \<^verbatim>\<open>afterStoreDocument\<close> chain rejects, the
  rejection is left uncaught and registry and documents stay as they are; on the update
  path the continuation changes nothing; the settlement of the \<^verbatim>\<open>onStoreDocument\<close> chain
  in between leaves registry and documents as they are. A resolved \<^verbatim>\<open>onDisconnect\<close> chain of
  a document that has a connection changes nothing, and a rejected one is left uncaught.
\<close>

theorem last_disconnect_decides_when_onDisconnect_resolves:
  "(connections (heap s ! d) = [] \<longrightarrow>
     (isLoading (heap s ! d) \<longrightarrow>
        onDisconnect_settled sid d (Resolved ()) s
          = destroy d (s\<lparr>documents := AList.delete (document_name (heap s ! d)) (documents s)\<rparr>)
      \<and> effects (onDisconnect_settled sid d (Resolved ()) s) = effects s @ [Destroyed d]
      \<and> pending (onDisconnect_settled sid d (Resolved ()) s) = pending s
      \<and> timers (onDisconnect_settled sid d (Resolved ()) s) = timers s
      \<and> map_of (documents (onDisconnect_settled sid d (Resolved ()) s)) (document_name (heap s ! d)) = None
      \<and> (d < length (heap s) \<longrightarrow> isDestroyed (heap (onDisconnect_settled sid d (Resolved ()) s) ! d)))
   \<and> (\<not> isLoading (heap s ! d) \<longrightarrow>
        onDisconnect_settled sid d (Resolved ()) s
          = debounce (''onStoreDocument-'' @ document_name (heap s ! d))
              (StoreDocument OnLastDisconnect sid d) True s
      \<and> effects (onDisconnect_settled sid d (Resolved ()) s)
          = effects s @ [HookCall onStoreDocument (Some sid) (document_name (heap s ! d)) (Some d)]
      \<and> pending (onDisconnect_settled sid d (Resolved ()) s)
          = pending s @ [AwaitOnStoreDocument OnLastDisconnect sid d]
      \<and> map_of (timers (onDisconnect_settled sid d (Resolved ()) s))
           (''onStoreDocument-'' @ document_name (heap s ! d)) = None
      \<and> (case map_of (timers s) (''onStoreDocument-'' @ document_name (heap s ! d)) of
            None \<Rightarrow> True
          | Some old \<Rightarrow> map_of (timeouts (onDisconnect_settled sid d (Resolved ()) s)) (timeout old) = None)
      \<and> documents (onDisconnect_settled sid d (Resolved ()) s) = documents s
      \<and> heap (onDisconnect_settled sid d (Resolved ()) s) = heap s)
   \<and> afterStoreDocument_settled OnLastDisconnect sid d (Resolved ()) s
        = destroy d (s\<lparr>documents := AList.delete (document_name (heap s ! d)) (documents s)\<rparr>)
   \<and> effects (afterStoreDocument_settled OnLastDisconnect sid d (Resolved ()) s)
        = effects s @ [Destroyed d]
   \<and> map_of (documents (afterStoreDocument_settled OnLastDisconnect sid d (Resolved ()) s))
        (document_name (heap s ! d)) = None)
   \<and> (connections (heap s ! d) \<noteq> [] \<longrightarrow>
        onDisconnect_settled sid d (Resolved ()) s = s
      \<and> afterStoreDocument_settled OnLastDisconnect sid d (Resolved ()) s = s)
   \<and> onDisconnect_settled sid d (Rejected error) s = emit (Uncaught error) s
   \<and> afterStoreDocument_settled origin sid d (Rejected error) s = emit (Uncaught error) s
   \<and> documents (emit (Uncaught error) s) = documents s
   \<and> heap (emit (Uncaught error) s) = heap s
   \<and> afterStoreDocument_settled OnUpdate sid d (Resolved ()) s = s
   \<and> documents (onStoreDocument_settled origin sid d outcome s) = documents s
   \<and> heap (onStoreDocument_settled origin sid d outcome s) = heap s"
proof (intro impI conjI)
  assume none: "connections (heap s ! d) = []" and loading: "isLoading (heap s ! d)"
  then show r: "onDisconnect_settled sid d (Resolved ()) s
          = destroy d (s\<lparr>documents := AList.delete (document_name (heap s ! d)) (documents s)\<rparr>)"
    by (simp add: onDisconnect_settled_def)
  show "effects (onDisconnect_settled sid d (Resolved ()) s) = effects s @ [Destroyed d]"
    "pending (onDisconnect_settled sid d (Resolved ()) s) = pending s"
    "timers (onDisconnect_settled sid d (Resolved ()) s) = timers s"
    "map_of (documents (onDisconnect_settled sid d (Resolved ()) s)) (document_name (heap s ! d)) = None"
    unfolding r by (simp_all add: destroy_def emit_def on_document_def delete_conv')
  assume "d < length (heap s)"
  then show "isDestroyed (heap (onDisconnect_settled sid d (Resolved ()) s) ! d)"
    unfolding r by (simp add: destroy_def emit_def on_document_def)
next
  assume none: "connections (heap s ! d) = []" and loaded: "\<not> isLoading (heap s ! d)"
  let ?key = "''onStoreDocument-'' @ document_name (heap s ! d)"
  from none loaded show r: "onDisconnect_settled sid d (Resolved ()) s
          = debounce ?key (StoreDocument OnLastDisconnect sid d) True s"
    by (simp add: onDisconnect_settled_def)
  have i: "debounce ?key (StoreDocument OnLastDisconnect sid d) True s
             = run ?key (StoreDocument OnLastDisconnect sid d) (cancel_old ?key s)"
    by (rule debounce_immediately)
  show "map_of (timers (onDisconnect_settled sid d (Resolved ()) s)) ?key = None"
    unfolding r i by (rule run_cancel_fields)
  show "effects (onDisconnect_settled sid d (Resolved ()) s)
          = effects s @ [HookCall onStoreDocument (Some sid) (document_name (heap s ! d)) (Some d)]"
    "pending (onDisconnect_settled sid d (Resolved ()) s)
          = pending s @ [AwaitOnStoreDocument OnLastDisconnect sid d]"
    unfolding r i by (simp_all add: run_cancel_fields call_hooks_def suspend_def emit_def)
  show "case map_of (timers s) ?key of
            None \<Rightarrow> True
          | Some old \<Rightarrow> map_of (timeouts (onDisconnect_settled sid d (Resolved ()) s)) (timeout old) = None"
    unfolding r i by (simp add: old_timeout_cancelled split: option.split)
  show "documents (onDisconnect_settled sid d (Resolved ()) s) = documents s"
    "heap (onDisconnect_settled sid d (Resolved ()) s) = heap s"
    unfolding r by simp_all
next
  assume none: "connections (heap s ! d) = []"
  then show r: "afterStoreDocument_settled OnLastDisconnect sid d (Resolved ()) s
          = destroy d (s\<lparr>documents := AList.delete (document_name (heap s ! d)) (documents s)\<rparr>)"
    by (simp add: afterStoreDocument_settled_def)
  show "effects (afterStoreDocument_settled OnLastDisconnect sid d (Resolved ()) s)
          = effects s @ [Destroyed d]"
    "map_of (documents (afterStoreDocument_settled OnLastDisconnect sid d (Resolved ()) s))
          (document_name (heap s ! d)) = None"
    unfolding r by (simp_all add: destroy_def emit_def on_document_def delete_conv')
next
  assume some: "connections (heap s ! d) \<noteq> []"
  then show "onDisconnect_settled sid d (Resolved ()) s = s"
    by (simp add: onDisconnect_settled_def)
  from some show "afterStoreDocument_settled OnLastDisconnect sid d (Resolved ()) s = s"
    by (simp add: afterStoreDocument_settled_def)
next
  show "onDisconnect_settled sid d (Rejected error) s = emit (Uncaught error) s"
    by (simp add: onDisconnect_settled_def)
  show "afterStoreDocument_settled origin sid d (Rejected error) s = emit (Uncaught error) s"
    by (simp add: afterStoreDocument_settled_def)
  show "documents (emit (Uncaught error) s) = documents s"
    "heap (emit (Uncaught error) s) = heap s"
    by (simp_all add: emit_def)
  show "afterStoreDocument_settled OnUpdate sid d (Resolved ()) s = s"
    by (simp add: afterStoreDocument_settled_def)
  show "documents (onStoreDocument_settled origin sid d outcome s) = documents s"
    "heap (onStoreDocument_settled origin sid d outcome s) = heap s"
    by simp_all
qed

text \<open>
  The amended claim on three runs. In the run of \<open>example_late_load\<close>, resolved while the
  document is loading, the \<^verbatim>\<open>onDisconnect\<close> continuation destroys it; resolved after the load
  has completed, it starts \<^verbatim>\<open>onStoreDocument\<close> and leaves the document registered. In the
  run of \<open>example_store_overlap\<close> the document has a connection again when the
  \<^verbatim>\<open>afterStoreDocument\<close> chain resolves, and it stays registered and is not destroyed.
\<close>

theorem last_disconnect_decides_when_onDisconnect_resolves_witness:
  "effects (onDisconnect_settled 1 0 (Resolved ())
        (run_events example_late_load (new_server example_library example_open 1000)))
     = effects (run_events example_late_load (new_server example_library example_open 1000))
       @ [Destroyed 0]
   \<and> map_of (documents (onDisconnect_settled 1 0 (Resolved ())
        (run_events example_late_load (new_server example_library example_open 1000)))) ''doc'' = None
   \<and> effects (onDisconnect_settled 1 0 (Resolved ())
        (run_events (example_late_load @ [Settle (AwaitOnLoadDocument ViaOnConnect 0 ''doc'' 0) (Resolved ())])
           (new_server example_library example_open 1000)))
     = effects (run_events (example_late_load @ [Settle (AwaitOnLoadDocument ViaOnConnect 0 ''doc'' 0) (Resolved ())])
           (new_server example_library example_open 1000))
       @ [HookCall onStoreDocument (Some 1) ''doc'' (Some 0)]
   \<and> documents (onDisconnect_settled 1 0 (Resolved ())
        (run_events (example_late_load @ [Settle (AwaitOnLoadDocument ViaOnConnect 0 ''doc'' 0) (Resolved ())])
           (new_server example_library example_open 1000)))
     = [(''doc'', 0)]
   \<and> map_of (documents (afterStoreDocument_settled OnLastDisconnect 1 0 (Resolved ())
        (run_events (example_late_load @ [Settle (AwaitOnLoadDocument ViaOnConnect 0 ''doc'' 0) (Resolved ())])
           (new_server example_library example_open 1000)))) ''doc'' = None
   \<and> connections (heap (run_events example_store_overlap
        (new_server example_library example_open 1000)) ! 0) = [1]
   \<and> afterStoreDocument_settled OnLastDisconnect 0 0 (Resolved ())
        (run_events example_store_overlap (new_server example_library example_open 1000))
     = run_events example_store_overlap (new_server example_library example_open 1000)
   \<and> documents (run_events example_store_overlap (new_server example_library example_open 1000))
     = [(''doc'', 0)]"
proof -
  define s :: "(unit, nat, nat list) server"
    where "s = run_events example_late_load (new_server example_library example_open 1000)"
  define t :: "(unit, nat, nat list) server"
    where "t = run_events (example_late_load @ [Settle (AwaitOnLoadDocument ViaOnConnect 0 ''doc'' 0) (Resolved ())])
           (new_server example_library example_open 1000)"
  define u :: "(unit, nat, nat list) server"
    where "u = run_events example_store_overlap (new_server example_library example_open 1000)"
  have s: "heap s = [\<lparr>document_name = ''doc'', isLoading = True, connections = [],
                       isDestroyed = False, onUpdate_wired = False\<rparr>]"
    unfolding s_def
    by (simp add: kernel_defs example_late_load_def example_library_def example_open_def)
  have t: "heap t = [\<lparr>document_name = ''doc'', isLoading = False, connections = [],
                       isDestroyed = False, onUpdate_wired = False\<rparr>]"
    "documents t = [(''doc'', 0)]"
    unfolding t_def
    by (simp_all add: kernel_defs example_late_load_def example_library_def example_open_def)
  have u: "heap u = [\<lparr>document_name = ''doc'', isLoading = False, connections = [1],
                       isDestroyed = False, onUpdate_wired = True\<rparr>]"
    "documents u = [(''doc'', 0)]"
    unfolding u_def
    by (simp_all add: kernel_defs example_store_overlap_def example_attach_def
          example_library_def example_open_def)
  have s0: "connections (heap s ! 0) = []" "isLoading (heap s ! 0)"
    and t0: "connections (heap t ! 0) = []" "\<not> isLoading (heap t ! 0)"
    and u0: "connections (heap u ! 0) \<noteq> []"
    by (simp_all add: s t u)
  note loading = last_disconnect_decides_when_onDisconnect_resolves
      [where s = s and d = 0 and sid = 1, THEN conjunct1, THEN mp, OF s0(1),
       THEN conjunct1, THEN mp, OF s0(2), THEN conjunct2]
  note loaded = last_disconnect_decides_when_onDisconnect_resolves
      [where s = t and d = 0 and sid = 1, THEN conjunct1, THEN mp, OF t0(1),
       THEN conjunct2, THEN conjunct1, THEN mp, OF t0(2), THEN conjunct2]
  note removed = last_disconnect_decides_when_onDisconnect_resolves
      [where s = t and d = 0 and sid = 1, THEN conjunct1, THEN mp, OF t0(1),
       THEN conjunct2, THEN conjunct2, THEN conjunct2, THEN conjunct2]
  note kept = last_disconnect_decides_when_onDisconnect_resolves
      [where s = u and d = 0 and sid = 0, THEN conjunct2, THEN conjunct1, THEN mp, OF u0,
       THEN conjunct2]
  from loading
  have a: "effects (onDisconnect_settled 1 0 (Resolved ()) s) = effects s @ [Destroyed 0]
      \<and> map_of (documents (onDisconnect_settled 1 0 (Resolved ()) s)) ''doc'' = None"
    by (simp add: s)
  from loaded
  have b: "effects (onDisconnect_settled 1 0 (Resolved ()) t)
             = effects t @ [HookCall onStoreDocument (Some 1) ''doc'' (Some 0)]
      \<and> documents (onDisconnect_settled 1 0 (Resolved ()) t) = [(''doc'', 0)]"
    by (simp add: t)
  from removed
  have c: "map_of (documents (afterStoreDocument_settled OnLastDisconnect 1 0 (Resolved ()) t)) ''doc'' = None"
    by (simp add: t)
  have d: "connections (heap u ! 0) = [1]" by (simp add: u)
  from a b c d kept u(2) show ?thesis unfolding s_def t_def u_def by simp
qed

text \<open>
  Claim C5 as stated fails. In the run of \<open>example_late_load\<close> the last connection of document 0 has
  just closed while \<^verbatim>\<open>isLoading\<close> is true, and the \<^verbatim>\<open>onDisconnect\<close> chain of that close is
  pending. The load then completes, the \<^verbatim>\<open>onDisconnect\<close> chain resolves, and the disconnect
  path calls \<^verbatim>\<open>onStoreDocument\<close> for document 0, which is neither deleted from the registry
  nor destroyed.
\<close>

theorem last_disconnect_while_loading_still_stores:
  "isLoading (heap (run_events example_late_load (new_server example_library example_open 1000)) ! 0)
   \<and> connections (heap (run_events example_late_load (new_server example_library example_open 1000)) ! 0) = []
   \<and> pending (run_events example_late_load (new_server example_library example_open 1000))
       = [AwaitOnLoadDocument ViaOnConnect 0 ''doc'' 0, Detached connected, AwaitOnDisconnect 1 0]
   \<and> effects (run_events
        (example_late_load @ [Settle (AwaitOnLoadDocument ViaOnConnect 0 ''doc'' 0) (Resolved ()),
                              Settle (AwaitOnDisconnect 1 0) (Resolved ())])
        (new_server example_library example_open 1000))
      = effects (run_events example_late_load (new_server example_library example_open 1000))
        @ [Settled (AwaitOnLoadDocument ViaOnConnect 0 ''doc'' 0) (Resolved ()),
           HookCall afterLoadDocument (Some 0) ''doc'' (Some 0),
           Settled (AwaitOnDisconnect 1 0) (Resolved ()),
           HookCall onStoreDocument (Some 1) ''doc'' (Some 0)]
   \<and> map_of (documents (run_events
        (example_late_load @ [Settle (AwaitOnLoadDocument ViaOnConnect 0 ''doc'' 0) (Resolved ()),
                              Settle (AwaitOnDisconnect 1 0) (Resolved ())])
        (new_server example_library example_open 1000))) ''doc'' = Some 0"
  by (simp add: kernel_defs example_late_load_def example_library_def example_open_def)

section \<open>Closing a transport after a hook rejection\<close>

lemma onConnect_catch_fallback:
  "close_throws (library s) (Some (code_or (Forbidden (library s)) error))
       (Some (reason_or (Forbidden (library s)) (reason (Forbidden (library s))) error))
   \<Longrightarrow> onConnect_catch sid error s = close_with sid (Unauthorized (library s)) s"
  by (simp add: onConnect_catch_def ws_close_def)

lemma denial_sent_fallback:
  "close_throws (library s) (Some (code_or (Forbidden (library s)) error))
       (Some (reason_or (Forbidden (library s)) (reason (Forbidden (library s))) error))
   \<Longrightarrow> documentConnections (sockets s ! sid) = []
   \<Longrightarrow> denial_sent sid error s = close_with sid (Forbidden (library s)) s"
  by (simp add: denial_sent_def ws_close_def)

text \<open>
  Claim C7 at a rejection with close code 42, which \<^verbatim>\<open>ws\<close> refuses. On the \<^verbatim>\<open>onConnect\<close>
  path the kernel falls back to \<^verbatim>\<open>Unauthorized\<close>; on the \<^verbatim>\<open>onAuthenticate\<close> path, once the
  permission-denied message is sent, it falls back to \<^verbatim>\<open>Forbidden\<close>. The two close
  events differ.
\<close>

theorem onConnect_rejection_with_invalid_code_closes_Unauthorized:
  "close_throws example_library (Some 42) (Some ''Forbidden'')
   \<and> effects (run_events
        [Accept, Message 0 (Frame ''doc'' Sync None),
         Settle (AwaitOnConnect 0 ''doc'') (Rejected (Thrown (Some 42) None None))]
        (new_server example_library example_open 1000))
      = [HookCall onConnect (Some 0) ''doc'' None,
         Settled (AwaitOnConnect 0 ''doc'') (Rejected (Thrown (Some 42) None None)),
         Close 0 (Some (code (Unauthorized example_library))) (Some (reason (Unauthorized example_library)))]
   \<and> effects (run_events
        [Accept, Message 0 (Frame ''doc'' Auth (Some ''token'')),
         Settle (AwaitOnAuthenticate 0 ''doc'') (Rejected (Thrown (Some 42) None None)),
         Settle (AwaitDenialSent 0 (Thrown (Some 42) None None)) (Resolved ())]
        (new_server example_library example_guarded 1000))
      = [HookCall onConnect (Some 0) ''doc'' None,
         HookCall onAuthenticate (Some 0) ''doc'' None,
         Settled (AwaitOnAuthenticate 0 ''doc'') (Rejected (Thrown (Some 42) None None)),
         Send 0 (PermissionDenied ''doc'' ''permission-denied''),
         Settled (AwaitDenialSent 0 (Thrown (Some 42) None None)) (Resolved ()),
         Close 0 (Some (code (Forbidden example_library))) (Some (reason (Forbidden example_library)))]
   \<and> Unauthorized example_library \<noteq> Forbidden example_library"
  by (simp add: kernel_defs example_library_def example_open_def example_guarded_def
        example_authenticator_def)

section \<open>Starts of the authentication chain\<close>

text \<open>
  Along every function of the kernel the slack of a transport and a document name does
  not decrease: a start of \<^verbatim>\<open>onAuthenticate\<close> sets the handshake flag in the same turn, and
  the flag is deleted only by the close callback of a connection.
\<close>

lemmas auth_slack_defs = auth_slack_def auth_starts_def connection_closes_def establishing_def

lemma auth_slack_emit [simp]:
  "auth_slack sid0 n0 (emit e s)
     = auth_slack sid0 n0 s + (if closes_connection sid0 n0 e then 1 else 0)
         - (if e = HookCall onAuthenticate (Some sid0) n0 None then 1 else 0)"
  by (simp add: auth_slack_defs emit_def)

lemma auth_slack_suspend [simp]: "auth_slack sid0 n0 (suspend k s) = auth_slack sid0 n0 s"
  by (simp add: auth_slack_defs suspend_def)

lemma auth_slack_on_document [simp]: "auth_slack sid0 n0 (on_document d f s) = auth_slack sid0 n0 s"
  by (simp add: auth_slack_defs on_document_def)

lemma auth_slack_call_hooks [simp]:
  "h \<noteq> onAuthenticate \<Longrightarrow> auth_slack sid0 n0 (call_hooks h sid n d k s) = auth_slack sid0 n0 s"
  by (simp add: call_hooks_def)

lemma auth_slack_on_socket [simp]:
  "connectionEstablishing (f (sockets s ! sid)) = connectionEstablishing (sockets s ! sid)
   \<Longrightarrow> auth_slack sid0 n0 (on_socket sid f s) = auth_slack sid0 n0 s"
  by (auto simp: auth_slack_defs on_socket_def nth_list_update_total)

lemma auth_slack_fields [simp]:
  "auth_slack sid0 n0 (s\<lparr>documents := a\<rparr>) = auth_slack sid0 n0 s"
  "auth_slack sid0 n0 (s\<lparr>timers := b\<rparr>) = auth_slack sid0 n0 s"
  "auth_slack sid0 n0 (s\<lparr>heap := c\<rparr>) = auth_slack sid0 n0 s"
  "auth_slack sid0 n0 (s\<lparr>timeouts := d\<rparr>) = auth_slack sid0 n0 s"
  "auth_slack sid0 n0 (s\<lparr>next_handle := e\<rparr>) = auth_slack sid0 n0 s"
  "auth_slack sid0 n0 (s\<lparr>pending := g\<rparr>) = auth_slack sid0 n0 s"
  "auth_slack sid0 n0 (s\<lparr>clock := h\<rparr>) = auth_slack sid0 n0 s"
  by (simp_all add: auth_slack_defs)

lemma auth_slack_ws_close [simp]: "auth_slack sid0 n0 (snd (ws_close sid c r s)) = auth_slack sid0 n0 s"
  by (simp add: ws_close_def)

lemma auth_slack_close_with [simp]: "auth_slack sid0 n0 (close_with sid ev s) = auth_slack sid0 n0 s"
  by (simp add: close_with_def)

lemma auth_slack_clearTimeout [simp]: "auth_slack sid0 n0 (clearTimeout h s) = auth_slack sid0 n0 s"
  by (simp add: clearTimeout_def)

lemma auth_slack_setTimeout [simp]: "auth_slack sid0 n0 (snd (setTimeout key func delay s)) = auth_slack sid0 n0 s"
  by (simp add: setTimeout_def)

lemma auth_slack_call_thunk [simp]: "auth_slack sid0 n0 (call_thunk func s) = auth_slack sid0 n0 s"
  by (cases func) simp

lemma auth_slack_run [simp]: "auth_slack sid0 n0 (run key func s) = auth_slack sid0 n0 s"
  by (simp add: run_def)

lemma auth_slack_debounce [simp]: "auth_slack sid0 n0 (debounce key func immediately s) = auth_slack sid0 n0 s"
  by (simp add: debounce_def setTimeout_def Let_def split: option.split)

lemma auth_slack_timeout_elapses [simp]: "auth_slack sid0 n0 (timeout_elapses h s) = auth_slack sid0 n0 s"
  by (simp add: timeout_elapses_def split: option.split)

lemma auth_slack_onConnect_catch [simp]: "auth_slack sid0 n0 (onConnect_catch sid e s) = auth_slack sid0 n0 s"
  by (simp add: onConnect_catch_def ws_close_def Let_def split: prod.split)

lemma auth_slack_onAuthenticate_catch [simp]: "auth_slack sid0 n0 (onAuthenticate_catch sid n e s) = auth_slack sid0 n0 s"
  by (simp add: onAuthenticate_catch_def)

lemma auth_slack_denial_sent [simp]: "auth_slack sid0 n0 (denial_sent sid e s) = auth_slack sid0 n0 s"
  by (simp add: denial_sent_def ws_close_def Let_def split: prod.split)

lemma auth_slack_setUp_failed [simp]: "auth_slack sid0 n0 (setUp_failed via sid n e s) = auth_slack sid0 n0 s"
  by (simp add: setUp_failed_def split: route.split)

lemma auth_slack_connection_receives [simp]: "auth_slack sid0 n0 (connection_receives sid data s) = auth_slack sid0 n0 s"
  by (simp add: connection_receives_def split: frame.split option.split prod.split)

lemma auth_slack_afterLoadDocument_settled [simp]: "auth_slack sid0 n0 (afterLoadDocument_settled via sid n d outcome s) = auth_slack sid0 n0 s"
  by (simp add: afterLoadDocument_settled_def split: promise.split)

lemma auth_slack_destroy [simp]: "auth_slack sid0 n0 (destroy d s) = auth_slack sid0 n0 s"
  by (simp add: destroy_def)

lemma auth_slack_handleConnection [simp]: "auth_slack sid0 n0 (handleConnection s) = auth_slack sid0 n0 s"
  by (auto simp: auth_slack_defs handleConnection_def nth_append)

lemma auth_slack_idle_timeout [simp]: "auth_slack sid0 n0 (idle_timeout sid s) = auth_slack sid0 n0 s"
  by (simp add: idle_timeout_def)

lemma auth_slack_createDocument [simp]: "auth_slack sid0 n0 (snd (createDocument via sid n s)) = auth_slack sid0 n0 s"
  by (simp add: createDocument_def Let_def split: option.split)

lemma auth_slack_setUpNewConnection [simp]: "auth_slack sid0 n0 (setUpNewConnection via sid n s) = auth_slack sid0 n0 s"
  by (cases "createDocument via sid n (on_socket sid (\<lambda>t. t\<lparr>closeIdleConnection := False\<rparr>) s)")
     (auto simp: setUpNewConnection_def createDocument_def Let_def split: option.splits)

lemma auth_slack_onAuthenticate_settled [simp]: "auth_slack sid0 n0 (onAuthenticate_settled sid n outcome s) = auth_slack sid0 n0 s"
  by (simp add: onAuthenticate_settled_def split: promise.split)

lemma auth_slack_handleDocumentUpdate [simp]: "auth_slack sid0 n0 (handleDocumentUpdate d origin s) = auth_slack sid0 n0 s"
  by (simp add: handleDocumentUpdate_def Let_def split: option.split)

lemma auth_slack_onStoreDocument_settled [simp]: "auth_slack sid0 n0 (onStoreDocument_settled origin sid d outcome s) = auth_slack sid0 n0 s"
  by (simp add: onStoreDocument_settled_def promise_catch_def store_catch_def split: promise.split)

lemma auth_slack_afterStoreDocument_settled [simp]: "auth_slack sid0 n0 (afterStoreDocument_settled origin sid d outcome s) = auth_slack sid0 n0 s"
  by (simp add: afterStoreDocument_settled_def split: promise.split store_origin.split)

lemma auth_slack_onDisconnect_settled [simp]: "auth_slack sid0 n0 (onDisconnect_settled sid d outcome s) = auth_slack sid0 n0 s"
  by (simp add: onDisconnect_settled_def split: promise.split)



lemma slack_set_establishing:
  assumes "sid < socket_count s"
    and "map_of (connectionEstablishing (sockets s ! sid)) n \<noteq> Some True"
  shows "auth_slack sid0 n0 (on_socket sid
            (\<lambda>t. t\<lparr>connectionEstablishing := AList.update n True (connectionEstablishing t)\<rparr>) s)
          = auth_slack sid0 n0 s + (if sid = sid0 \<and> n = n0 then 1 else 0)"
  using assms
  by (auto simp: auth_slack_defs socket_count_def on_socket_def nth_list_update_total update_conv')

lemma auth_slack_call_hooks_onAuthenticate:
  "auth_slack sid0 n0 (call_hooks onAuthenticate (Some sid) n None k s)
     = auth_slack sid0 n0 s - (if sid = sid0 \<and> n = n0 then 1 else 0)"
  by (auto simp: call_hooks_def)

lemma slack_handleQueueingMessage:
  assumes "sid < socket_count s" and "x \<le> auth_slack sid0 n0 s"
  shows "x \<le> auth_slack sid0 n0 (handleQueueingMessage sid data s)"
  using assms
  by (simp add: handleQueueingMessage_def Let_def slack_set_establishing
        auth_slack_call_hooks_onAuthenticate split: frame.split option.split)

lemma slack_messageHandler:
  assumes "sid < socket_count s" and "x \<le> auth_slack sid0 n0 s"
  shows "x \<le> auth_slack sid0 n0 (messageHandler sid data s)"
  using assms
  by (simp add: messageHandler_def slack_handleQueueingMessage split: frame.split)

lemma slack_socket_message:
  assumes "sid < socket_count s" and "x \<le> auth_slack sid0 n0 s"
  shows "x \<le> auth_slack sid0 n0 (socket_message sid data s)"
  using assms by (simp add: socket_message_def slack_messageHandler)

lemma slack_replay:
  assumes "sid < socket_count s" and "x \<le> auth_slack sid0 n0 s"
  shows "x \<le> auth_slack sid0 n0 (foldl (\<lambda>s3 input. socket_message sid input s3) s queue)"
  using assms
  by (induction queue arbitrary: s) (simp_all add: slack_socket_message)

lemma slack_clear_establishing:
  "auth_slack sid0 n0 s - (if sid = sid0 \<and> n = n0 then 1 else 0)
     \<le> auth_slack sid0 n0 (on_socket sid
            (\<lambda>t. t\<lparr>documentConnections := AList.delete n (documentConnections t),
                   incomingMessageQueue := AList.delete n (incomingMessageQueue t),
                   connectionEstablishing := AList.delete n (connectionEstablishing t)\<rparr>) s)"
  by (auto simp: auth_slack_defs on_socket_def nth_list_update_total delete_conv')

lemma slack_reset_handshake:
  "auth_slack sid0 n0 s - (if sid = sid0 \<and> n = n0 then 1 else 0)
     \<le> auth_slack sid0 n0 (reset_handshake sid n ev s)"
  using slack_clear_establishing [of sid0 n0 s sid n]
  by (simp add: reset_handshake_def Let_def)

lemma slack_connection_close:
  assumes "x \<le> auth_slack sid0 n0 s"
  shows "x \<le> auth_slack sid0 n0 (connection_close sid n ev s)"
proof (cases "map_of (instances (sockets s ! sid)) n")
  case None
  with assms show ?thesis by (simp add: connection_close_def)
next
  case (Some inst)
  obtain d registered where inst: "inst = (d, registered)" by (cases inst)
  define s3 where "s3 = call_hooks onDisconnect (Some sid)
       (document_name (heap (on_document d (\<lambda>doc. doc\<lparr>connections := remove1 sid (connections doc)\<rparr>)
           (on_socket sid (\<lambda>t. t\<lparr>instances := AList.delete n (instances t)\<rparr>) s)) ! d)) (Some d)
       (AwaitOnDisconnect sid d)
       (emit (ConnectionClosed sid n d)
          (on_document d (\<lambda>doc. doc\<lparr>connections := remove1 sid (connections doc)\<rparr>)
             (on_socket sid (\<lambda>t. t\<lparr>instances := AList.delete n (instances t)\<rparr>) s)))"
  have s3: "auth_slack sid0 n0 s3 = auth_slack sid0 n0 s + (if sid = sid0 \<and> n = n0 then 1 else 0)"
    unfolding s3_def by simp
  have r: "connection_close sid n ev s = (if registered then reset_handshake sid n ev s3 else s3)"
    unfolding s3_def by (simp add: connection_close_def Some inst Let_def)
  from slack_reset_handshake [of sid0 n0 s3 sid n ev] s3 assms show ?thesis
    unfolding r by (simp split: if_splits)
qed

lemma slack_close_all:
  assumes "x \<le> auth_slack sid0 n0 s"
  shows "x \<le> auth_slack sid0 n0 (foldl (\<lambda>s2 sid. connection_close sid (f s2) (g s2) s2) s sids)"
  using assms
  by (induction sids arbitrary: s) (simp_all add: slack_connection_close)

lemma slack_closeConnections_fold:
  assumes "x \<le> auth_slack sid0 n0 s"
  shows "x \<le> auth_slack sid0 n0 (foldl (\<lambda>s1 (n, d).
              if (case documentName of None \<Rightarrow> False
                  | Some wanted \<Rightarrow> wanted \<noteq> [] \<and> document_name (heap s1 ! d) \<noteq> wanted)
              then s1
              else foldl (\<lambda>s2 sid. connection_close sid (document_name (heap s2 ! d))
                                     (Some (ResetConnection (library s2))) s2)
                     s1 (connections (heap s1 ! d))) s xs)"
  using assms
  by (induction xs arbitrary: s) (simp_all add: slack_close_all split: prod.split)

lemma slack_closeConnections:
  "x \<le> auth_slack sid0 n0 s \<Longrightarrow> x \<le> auth_slack sid0 n0 (closeConnections n s)"
  unfolding closeConnections_def by (rule slack_closeConnections_fold)

lemma slack_createConnection:
  "x \<le> auth_slack sid0 n0 s \<Longrightarrow> x \<le> auth_slack sid0 n0 (createConnection sid n d s)"
  by (simp add: createConnection_def Let_def slack_connection_close)

lemma slack_createDocument_settled:
  assumes "sid < socket_count s" and "x \<le> auth_slack sid0 n0 s"
  shows "x \<le> auth_slack sid0 n0 (createDocument_settled via sid n d s)"
  using assms
  by (simp add: createDocument_settled_def Let_def slack_createConnection slack_replay
        split: option.split)

lemma slack_onLoadDocument_settled:
  "x \<le> auth_slack sid0 n0 s \<Longrightarrow> x \<le> auth_slack sid0 n0 (onLoadDocument_settled via sid n d outcome s)"
  by (simp add: onLoadDocument_settled_def Let_def slack_closeConnections split: promise.split)

lemma slack_onConnect_settled:
  "x \<le> auth_slack sid0 n0 s \<Longrightarrow> x \<le> auth_slack sid0 n0 (onConnect_settled sid n outcome s)"
proof -
  assume a: "x \<le> auth_slack sid0 n0 s"
  have "auth_slack sid0 n0 s \<le> auth_slack sid0 n0 (on_socket sid
                    (\<lambda>t. t\<lparr>connectionEstablishing :=
                             AList.update n True (connectionEstablishing t)\<rparr>) s)"
    by (auto simp: auth_slack_defs on_socket_def nth_list_update_total update_conv')
  with a show ?thesis
    by (simp add: onConnect_settled_def split: promise.split)
qed

lemma slack_resume:
  assumes "known s (task_refs k)" and "x \<le> auth_slack sid0 n0 s"
  shows "x \<le> auth_slack sid0 n0 (resume k outcome s)"
  using assms
  by (cases k)
     (simp_all add: known_def socket_count_def [symmetric] slack_onConnect_settled
        slack_onLoadDocument_settled slack_createDocument_settled split: promise.split)

lemma slack_step:
  assumes "x \<le> auth_slack sid0 n0 s"
  shows "x \<le> auth_slack sid0 n0 (step e s)"
proof (cases e)
  case (Settle k outcome)
  show ?thesis
  proof (cases "k \<in> set (pending s) \<and> known s (task_refs k)")
    case True
    let ?s1 = "emit (Settled k outcome) (s\<lparr>pending := remove1 k (pending s)\<rparr>)"
    have "known ?s1 (task_refs k)" using True by (auto simp: known_def emit_def split: option.splits)
    moreover have "x \<le> auth_slack sid0 n0 ?s1" using assms by simp
    ultimately have "x \<le> auth_slack sid0 n0 (resume k outcome ?s1)" by (rule slack_resume)
    with True Settle show ?thesis by simp
  next
    case False
    with assms Settle show ?thesis by auto
  qed
next
  case (Message sid data)
  with assms show ?thesis
    by (simp add: known_def socket_count_def [symmetric] slack_socket_message)
next
  case (ConnectionCloses sid n ev)
  with assms show ?thesis by (simp add: slack_connection_close)
next
  case (CloseConnections n)
  with assms show ?thesis by (simp add: slack_closeConnections)
qed (use assms in simp_all)

lemma slack_run_events:
  "x \<le> auth_slack sid0 n0 s \<Longrightarrow> x \<le> auth_slack sid0 n0 (run_events es s)"
  unfolding run_events_def
  by (induction es arbitrary: s) (simp_all add: slack_step)

lemma auth_slack_new_server: "auth_slack sid0 n0 (new_server lib cfg now) = 0"
  by (simp add: auth_slack_defs new_server_def)

lemma establishing_queues_auth:
  assumes "establishing sid n s"
  shows "handleQueueingMessage sid (Frame n Auth token) s
          = (case map_of (incomingMessageQueue (sockets s ! sid)) n of
               None \<Rightarrow> close_with sid (Unauthorized (library s)) s
             | Some queue \<Rightarrow>
                 on_socket sid
                   (\<lambda>t. t\<lparr>incomingMessageQueue :=
                            AList.update n (queue @ [Frame n Auth token]) (incomingMessageQueue t)\<rparr>) s)"
  using assms by (simp add: handleQueueingMessage_def establishing_def)

lemma auth_starts_close_with: "auth_starts sid0 n0 (close_with sid ev s) = auth_starts sid0 n0 s"
  by (simp add: auth_starts_def close_with_def ws_close_def emit_def on_socket_def)

lemma auth_starts_connection_receives:
  "auth_starts sid0 n0 (connection_receives sid data s) = auth_starts sid0 n0 s"
  by (simp add: auth_starts_def connection_receives_def emit_def
        split: frame.split option.split prod.split)

lemma auth_starts_on_socket: "auth_starts sid0 n0 (on_socket sid f s) = auth_starts sid0 n0 s"
  by (simp add: auth_starts_def on_socket_def)

lemma establishing_no_start_queueing:
  assumes "establishing sid n s"
  shows "auth_starts sid n (handleQueueingMessage sid (Frame n Auth token) s) = auth_starts sid n s"
  unfolding establishing_queues_auth [OF assms]
  by (simp add: auth_starts_close_with auth_starts_on_socket split: option.split)

lemma establishing_first_message:
  assumes "establishing sid n s"
  shows "establishing sid n
           (call_hooks h (Some sid) n None k
              (on_socket sid (\<lambda>t. t\<lparr>incomingMessageQueue := q t\<rparr>) s))"
  using assms
  by (simp add: establishing_def call_hooks_def emit_def suspend_def on_socket_def)

lemma auth_starts_first_message:
  "auth_starts sid0 n0
      (call_hooks onConnect (Some sid) n None k
         (on_socket sid (\<lambda>t. t\<lparr>incomingMessageQueue := q t\<rparr>) s))
     = auth_starts sid0 n0 s"
  by (simp add: auth_starts_def call_hooks_def emit_def suspend_def on_socket_def)

lemma establishing_no_start:
  assumes "establishing sid n s"
  shows "auth_starts sid n (socket_message sid (Frame n Auth token) s) = auth_starts sid n s"
  using assms
  by (simp add: socket_message_def messageHandler_def frame_name_def
        auth_starts_connection_receives establishing_no_start_queueing
        establishing_first_message auth_starts_first_message)

text \<open>
  Claim C9, amended. For every transport and document name, in every state a server
  reaches, the \<^verbatim>\<open>onAuthenticate\<close> chain has been started at most once more often than a
  \<^verbatim>\<open>Connection\<close> of that transport for that name has closed, and not more often than that
  unless \<^verbatim>\<open>connectionEstablishing[documentName]\<close> is set: one start per handshake. While the
  flag is set, an \<^verbatim>\<open>Auth\<close> message for the name is pushed on the queue of the name by
  \<^verbatim>\<open>handleQueueingMessage\<close>, and the \<^verbatim>\<open>'message'\<close> event that carries it starts no
  \<^verbatim>\<open>onAuthenticate\<close> chain.
\<close>

theorem onAuthenticate_started_once_per_handshake:
  "auth_starts sid n (run_events es (new_server lib cfg now))
     \<le> connection_closes sid n (run_events es (new_server lib cfg now))
        + (if establishing sid n (run_events es (new_server lib cfg now)) then 1 else 0)
   \<and> (establishing sid n s \<longrightarrow>
        handleQueueingMessage sid (Frame n Auth token) s
          = (case map_of (incomingMessageQueue (sockets s ! sid)) n of
               None \<Rightarrow> close_with sid (Unauthorized (library s)) s
             | Some queue \<Rightarrow>
                 on_socket sid
                   (\<lambda>t. t\<lparr>incomingMessageQueue :=
                            AList.update n (queue @ [Frame n Auth token]) (incomingMessageQueue t)\<rparr>) s)
        \<and> auth_starts sid n (socket_message sid (Frame n Auth token) s) = auth_starts sid n s)"
proof (intro conjI impI)
  have "0 \<le> auth_slack sid n (new_server lib cfg now)"
    by (simp add: auth_slack_new_server)
  then have "0 \<le> auth_slack sid n (run_events es (new_server lib cfg now))"
    by (rule slack_run_events)
  then show "auth_starts sid n (run_events es (new_server lib cfg now))
     \<le> connection_closes sid n (run_events es (new_server lib cfg now))
        + (if establishing sid n (run_events es (new_server lib cfg now)) then 1 else 0)"
    by (simp add: auth_slack_def split: if_splits)
qed (simp_all add: establishing_queues_auth establishing_no_start)

text \<open>
  Claim C9 as stated fails. In the run of \<open>example_reattach\<close> the connection of transport 0 to
  \<^verbatim>\<open>"b"\<close> is closed by \<^verbatim>\<open>closeConnections("b")\<close>; its close callback deletes
  \<^verbatim>\<open>connectionEstablishing["b"]\<close> and leaves the socket open, because \<^verbatim>\<open>"a"\<close> is still
  attached. The second \<^verbatim>\<open>Auth\<close> message of the transport for \<^verbatim>\<open>"b"\<close> then starts the
  \<^verbatim>\<open>onAuthenticate\<close> chain a second time.
\<close>

theorem second_Auth_message_after_close_starts_onAuthenticate_again:
  "auth_starts 0 ''b'' (run_events example_reattach (new_server example_library example_guarded 1000)) = 2
   \<and> connection_closes 0 ''b'' (run_events example_reattach (new_server example_library example_guarded 1000)) = 1"
  by (simp add: kernel_defs example_reattach_def example_library_def example_guarded_def
        example_authenticator_def auth_starts_def connection_closes_def)

text \<open>
  The amended claim on the run of \<open>example_reattach\<close>: after the first \<^verbatim>\<open>Auth\<close> message for
  \<^verbatim>\<open>"b"\<close> the flag is set and a further \<^verbatim>\<open>Auth\<close> message starts nothing; at the end of the
  run there are two starts and one close.
\<close>

theorem onAuthenticate_started_once_per_handshake_witness:
  "establishing 0 ''b'' (run_events (take 7 example_reattach) (new_server example_library example_guarded 1000))
   \<and> auth_starts 0 ''b'' (socket_message 0 (Frame ''b'' Auth (Some ''t''))
        (run_events (take 7 example_reattach) (new_server example_library example_guarded 1000))) = 1
   \<and> auth_starts 0 ''b'' (run_events example_reattach (new_server example_library example_guarded 1000))
       \<le> connection_closes 0 ''b'' (run_events example_reattach (new_server example_library example_guarded 1000)) + 1"
proof -
  define s :: "(unit, nat, nat list) server"
    where "s = run_events (take 7 example_reattach) (new_server example_library example_guarded 1000)"
  define t :: "(unit, nat, nat list) server"
    where "t = run_events example_reattach (new_server example_library example_guarded 1000)"
  have e: "establishing 0 ''b'' s" and a: "auth_starts 0 ''b'' s = 1"
    unfolding s_def
    by (simp_all add: kernel_defs example_reattach_def example_library_def example_guarded_def
          example_authenticator_def establishing_def auth_starts_def)
  have te: "establishing 0 ''b'' t"
    unfolding t_def
    by (simp add: kernel_defs example_reattach_def example_library_def example_guarded_def
          example_authenticator_def establishing_def)
  note local = onAuthenticate_started_once_per_handshake
      [of 0 "''b''" example_reattach example_library example_guarded 1000 s "Some ''t''",
       THEN conjunct2, THEN mp, OF e, THEN conjunct2]
  note global = onAuthenticate_started_once_per_handshake
      [of 0 "''b''" example_reattach example_library example_guarded 1000 s "Some ''t''",
       THEN conjunct1]
  from global te have "auth_starts 0 ''b'' t \<le> connection_closes 0 ''b'' t + 1"
    unfolding t_def by simp
  with e local a show ?thesis unfolding s_def t_def by simp
qed

section \<open>Authentication before service\<close>

text \<open>
  Once the \<^verbatim>\<open>onAuthenticate\<close> chain of a transport for a name has resolved, it has
  resolved in every later state: the trace only grows.
\<close>

lemma auth_done_emit [simp]:
  "auth_done sid0 n0 (emit e s) = (auth_done sid0 n0 s \<or> resolves_authentication sid0 n0 e)"
  by (auto simp: auth_done_def emit_def list_ex_iff)

lemma auth_done_suspend [simp]: "auth_done sid0 n0 (suspend k s) = auth_done sid0 n0 s"
  by (simp add: auth_done_def suspend_def)

lemma auth_done_on_socket [simp]: "auth_done sid0 n0 (on_socket sid f s) = auth_done sid0 n0 s"
  by (simp add: auth_done_def on_socket_def)

lemma auth_done_on_document [simp]: "auth_done sid0 n0 (on_document d f s) = auth_done sid0 n0 s"
  by (simp add: auth_done_def on_document_def)

lemma auth_done_handleConnection [simp]: "auth_done sid0 n0 (handleConnection s) = auth_done sid0 n0 s"
  by (simp add: auth_done_def handleConnection_def)

lemma auth_done_fields [simp]:
  "auth_done sid0 n0 (s\<lparr>documents := a\<rparr>) = auth_done sid0 n0 s"
  "auth_done sid0 n0 (s\<lparr>timers := b\<rparr>) = auth_done sid0 n0 s"
  "auth_done sid0 n0 (s\<lparr>heap := c\<rparr>) = auth_done sid0 n0 s"
  "auth_done sid0 n0 (s\<lparr>timeouts := d\<rparr>) = auth_done sid0 n0 s"
  "auth_done sid0 n0 (s\<lparr>next_handle := e\<rparr>) = auth_done sid0 n0 s"
  "auth_done sid0 n0 (s\<lparr>pending := g\<rparr>) = auth_done sid0 n0 s"
  "auth_done sid0 n0 (s\<lparr>clock := h\<rparr>) = auth_done sid0 n0 s"
  "auth_done sid0 n0 (s\<lparr>sockets := i\<rparr>) = auth_done sid0 n0 s"
  by (simp_all add: auth_done_def)

lemma auth_done_call_hooks [simp]: "auth_done sid0 n0 (call_hooks h sid n d k s) = auth_done sid0 n0 s"
  by (simp add: call_hooks_def)

lemma auth_done_ws_close [simp]: "auth_done sid0 n0 (snd (ws_close sid c r s)) = auth_done sid0 n0 s"
  by (simp add: ws_close_def)

lemma auth_done_close_with [simp]: "auth_done sid0 n0 (close_with sid ev s) = auth_done sid0 n0 s"
  by (simp add: close_with_def)

lemma auth_done_clearTimeout [simp]: "auth_done sid0 n0 (clearTimeout h s) = auth_done sid0 n0 s"
  by (simp add: clearTimeout_def)

lemma auth_done_setTimeout [simp]: "auth_done sid0 n0 (snd (setTimeout key func delay s)) = auth_done sid0 n0 s"
  by (simp add: setTimeout_def)

lemma auth_done_call_thunk [simp]: "auth_done sid0 n0 (call_thunk func s) = auth_done sid0 n0 s"
  by (cases func) simp

lemma auth_done_run [simp]: "auth_done sid0 n0 (run key func s) = auth_done sid0 n0 s"
  by (simp add: run_def)

lemma auth_done_debounce [simp]: "auth_done sid0 n0 (debounce key func immediately s) = auth_done sid0 n0 s"
  by (simp add: debounce_def setTimeout_def Let_def split: option.split)

lemma auth_done_timeout_elapses [simp]: "auth_done sid0 n0 (timeout_elapses h s) = auth_done sid0 n0 s"
  by (simp add: timeout_elapses_def split: option.split)

lemma auth_done_reset_handshake [simp]: "auth_done sid0 n0 (reset_handshake sid n ev s) = auth_done sid0 n0 s"
  by (simp add: reset_handshake_def Let_def)

lemma auth_done_connection_close [simp]: "auth_done sid0 n0 (connection_close sid n ev s) = auth_done sid0 n0 s"
  by (simp add: connection_close_def Let_def split: option.split prod.split)

lemma auth_done_close_all [simp]: "auth_done sid0 n0 (foldl (\<lambda>s2 sid. connection_close sid (f s2) (g s2) s2) s sids) = auth_done sid0 n0 s"
  by (induction sids arbitrary: s) simp_all

lemma auth_done_closeConnections_fold:
  "auth_done sid0 n0 (foldl (\<lambda>s1 (n, d).
              if (case documentName of None \<Rightarrow> False
                  | Some wanted \<Rightarrow> wanted \<noteq> [] \<and> document_name (heap s1 ! d) \<noteq> wanted)
              then s1
              else foldl (\<lambda>s2 sid. connection_close sid (document_name (heap s2 ! d))
                                     (Some (ResetConnection (library s2))) s2)
                     s1 (connections (heap s1 ! d))) s xs) = auth_done sid0 n0 s"
  by (induction xs arbitrary: s) (simp_all split: prod.split)

lemma auth_done_closeConnections [simp]: "auth_done sid0 n0 (closeConnections n s) = auth_done sid0 n0 s"
  unfolding closeConnections_def by (rule auth_done_closeConnections_fold)

lemma auth_done_onConnect_catch [simp]: "auth_done sid0 n0 (onConnect_catch sid e s) = auth_done sid0 n0 s"
  by (simp add: onConnect_catch_def ws_close_def Let_def split: prod.split)

lemma auth_done_onAuthenticate_catch [simp]: "auth_done sid0 n0 (onAuthenticate_catch sid n e s) = auth_done sid0 n0 s"
  by (simp add: onAuthenticate_catch_def)

lemma auth_done_denial_sent [simp]: "auth_done sid0 n0 (denial_sent sid e s) = auth_done sid0 n0 s"
  by (simp add: denial_sent_def ws_close_def Let_def split: prod.split)

lemma auth_done_setUp_failed [simp]: "auth_done sid0 n0 (setUp_failed via sid n e s) = auth_done sid0 n0 s"
  by (simp add: setUp_failed_def split: route.split)

lemma auth_done_handleQueueingMessage [simp]: "auth_done sid0 n0 (handleQueueingMessage sid data s) = auth_done sid0 n0 s"
  by (simp add: handleQueueingMessage_def Let_def split: frame.split option.split)

lemma auth_done_messageHandler [simp]: "auth_done sid0 n0 (messageHandler sid data s) = auth_done sid0 n0 s"
  by (simp add: messageHandler_def split: frame.split)

lemma auth_done_connection_receives [simp]: "auth_done sid0 n0 (connection_receives sid data s) = auth_done sid0 n0 s"
  by (simp add: connection_receives_def split: frame.split option.split prod.split)

lemma auth_done_socket_message [simp]: "auth_done sid0 n0 (socket_message sid data s) = auth_done sid0 n0 s"
  by (simp add: socket_message_def)

lemma auth_done_replay [simp]: "auth_done sid0 n0 (foldl (\<lambda>s3 input. socket_message sid input s3) s queue) = auth_done sid0 n0 s"
  by (induction queue arbitrary: s) simp_all

lemma auth_done_createConnection [simp]: "auth_done sid0 n0 (createConnection sid n d s) = auth_done sid0 n0 s"
  by (simp add: createConnection_def Let_def)

lemma auth_done_createDocument_settled [simp]: "auth_done sid0 n0 (createDocument_settled via sid n d s) = auth_done sid0 n0 s"
  by (simp add: createDocument_settled_def Let_def split: option.split)

lemma auth_done_afterLoadDocument_settled [simp]: "auth_done sid0 n0 (afterLoadDocument_settled via sid n d outcome s) = auth_done sid0 n0 s"
  by (simp add: afterLoadDocument_settled_def split: promise.split)

lemma auth_done_destroy [simp]: "auth_done sid0 n0 (destroy d s) = auth_done sid0 n0 s"
  by (simp add: destroy_def)

lemma auth_done_idle_timeout [simp]: "auth_done sid0 n0 (idle_timeout sid s) = auth_done sid0 n0 s"
  by (simp add: idle_timeout_def)

lemma auth_done_createDocument [simp]: "auth_done sid0 n0 (snd (createDocument via sid n s)) = auth_done sid0 n0 s"
  by (simp add: createDocument_def Let_def split: option.split)

lemma auth_done_setUpNewConnection [simp]: "auth_done sid0 n0 (setUpNewConnection via sid n s) = auth_done sid0 n0 s"
  by (cases "createDocument via sid n (on_socket sid (\<lambda>t. t\<lparr>closeIdleConnection := False\<rparr>) s)")
     (auto simp: setUpNewConnection_def createDocument_def Let_def split: option.splits)

lemma auth_done_onLoadDocument_settled [simp]: "auth_done sid0 n0 (onLoadDocument_settled via sid n d outcome s) = auth_done sid0 n0 s"
  by (simp add: onLoadDocument_settled_def Let_def split: promise.split)

lemma auth_done_onConnect_settled [simp]: "auth_done sid0 n0 (onConnect_settled sid n outcome s) = auth_done sid0 n0 s"
  by (simp add: onConnect_settled_def split: promise.split)

lemma auth_done_onAuthenticate_settled [simp]: "auth_done sid0 n0 (onAuthenticate_settled sid n outcome s) = auth_done sid0 n0 s"
  by (simp add: onAuthenticate_settled_def split: promise.split)

lemma auth_done_handleDocumentUpdate [simp]: "auth_done sid0 n0 (handleDocumentUpdate d origin s) = auth_done sid0 n0 s"
  by (simp add: handleDocumentUpdate_def Let_def split: option.split)

lemma auth_done_onStoreDocument_settled [simp]: "auth_done sid0 n0 (onStoreDocument_settled origin sid d outcome s) = auth_done sid0 n0 s"
  by (simp add: onStoreDocument_settled_def promise_catch_def store_catch_def split: promise.split)

lemma auth_done_afterStoreDocument_settled [simp]: "auth_done sid0 n0 (afterStoreDocument_settled origin sid d outcome s) = auth_done sid0 n0 s"
  by (simp add: afterStoreDocument_settled_def split: promise.split store_origin.split)

lemma auth_done_onDisconnect_settled [simp]: "auth_done sid0 n0 (onDisconnect_settled sid d outcome s) = auth_done sid0 n0 s"
  by (simp add: onDisconnect_settled_def split: promise.split)

lemma auth_done_resume [simp]: "auth_done sid0 n0 (resume k outcome s) = auth_done sid0 n0 s"
  by (cases k) (simp_all split: promise.split)


text \<open>
  What an effect appended to a trace does to \<open>served_after_authentication\<close>.
\<close>

lemma resolves_not_serves: "resolves_authentication sid n e \<Longrightarrow> \<not> serves sid n e"
  by (cases e) simp_all

lemma served_after_authentication_append:
  "served_after_authentication sid n (es @ [e])
     = (served_after_authentication sid n es
        \<and> (serves sid n e \<longrightarrow> list_ex (resolves_authentication sid n) es))"
  by (induction es) (auto simp: resolves_not_serves)

text \<open>The invariant along the primitives of the kernel.\<close>

lemma secure_emit [simp]:
  "secure sid0 n0 s \<Longrightarrow> \<not> serves sid0 n0 e \<or> auth_done sid0 n0 s \<Longrightarrow> secure sid0 n0 (emit e s)"
  by (auto simp: secure_def unattached_def auth_done_def emit_def served_after_authentication_append)

lemma secure_suspend [simp]:
  "secure sid0 n0 s \<Longrightarrow> \<not> attaches sid0 n0 k \<or> auth_done sid0 n0 s \<Longrightarrow> secure sid0 n0 (suspend k s)"
  by (auto simp: secure_def unattached_def auth_done_def suspend_def)

lemma secure_call_hooks [simp]:
  "secure sid0 n0 s
   \<Longrightarrow> (\<not> serves sid0 n0 (HookCall h sid n d) \<and> \<not> attaches sid0 n0 k) \<or> auth_done sid0 n0 s
   \<Longrightarrow> secure sid0 n0 (call_hooks h sid n d k s)"
  unfolding call_hooks_def by (rule secure_suspend) (auto intro: secure_emit)

lemma secure_on_socket [simp]:
  "secure sid0 n0 s
   \<Longrightarrow> auth_done sid0 n0 s \<or> sid \<noteq> sid0
       \<or> (requiresAuthentication (connection (sockets s ! sid))
            \<and> map_of (instances (sockets s ! sid)) n0 = None
          \<longrightarrow> requiresAuthentication (connection (f (sockets s ! sid)))
            \<and> map_of (instances (f (sockets s ! sid))) n0 = None)
   \<Longrightarrow> secure sid0 n0 (on_socket sid f s)"
  by (auto simp: secure_def unattached_def auth_done_def on_socket_def nth_list_update_total)

lemma secure_closing [simp]:
  "secure sid0 n0 s
   \<Longrightarrow> secure sid0 n0 (on_socket sid (\<lambda>t. if readyState t = Open then t\<lparr>readyState := Closing\<rparr> else t) s)"
  by (rule secure_on_socket) auto

lemma secure_delete_instance [simp]:
  "secure sid0 n0 s
   \<Longrightarrow> secure sid0 n0 (on_socket sid (\<lambda>t. t\<lparr>instances := AList.delete n (instances t)\<rparr>) s)"
  by (rule secure_on_socket) (auto simp: delete_conv')

lemma secure_on_document [simp]: "secure sid0 n0 (on_document d f s) = secure sid0 n0 s"
  by (simp add: secure_def unattached_def auth_done_def on_document_def)

lemma secure_fields [simp]:
  "secure sid0 n0 (s\<lparr>documents := a\<rparr>) = secure sid0 n0 s"
  "secure sid0 n0 (s\<lparr>timers := b\<rparr>) = secure sid0 n0 s"
  "secure sid0 n0 (s\<lparr>heap := c\<rparr>) = secure sid0 n0 s"
  "secure sid0 n0 (s\<lparr>timeouts := d\<rparr>) = secure sid0 n0 s"
  "secure sid0 n0 (s\<lparr>next_handle := e\<rparr>) = secure sid0 n0 s"
  "secure sid0 n0 (s\<lparr>clock := h\<rparr>) = secure sid0 n0 s"
  by (simp_all add: secure_def unattached_def auth_done_def)

lemma secure_ws_close [simp]: "secure sid0 n0 s \<Longrightarrow> secure sid0 n0 (snd (ws_close sid c r s))"
  by (simp add: ws_close_def)

lemma secure_close_with [simp]: "secure sid0 n0 s \<Longrightarrow> secure sid0 n0 (close_with sid ev s)"
  by (simp add: close_with_def)

lemma secure_clearTimeout [simp]: "secure sid0 n0 s \<Longrightarrow> secure sid0 n0 (clearTimeout h s)"
  by (simp add: clearTimeout_def)

lemma secure_setTimeout [simp]: "secure sid0 n0 s \<Longrightarrow> secure sid0 n0 (snd (setTimeout key func delay s))"
  by (simp add: setTimeout_def)

lemma secure_call_thunk [simp]: "secure sid0 n0 s \<Longrightarrow> secure sid0 n0 (call_thunk func s)"
  by (cases func) simp

lemma secure_run [simp]: "secure sid0 n0 s \<Longrightarrow> secure sid0 n0 (run key func s)"
  by (simp add: run_def)

lemma secure_debounce [simp]: "secure sid0 n0 s \<Longrightarrow> secure sid0 n0 (debounce key func immediately s)"
  by (simp add: debounce_def setTimeout_def Let_def split: option.split)

lemma secure_timeout_elapses [simp]: "secure sid0 n0 s \<Longrightarrow> secure sid0 n0 (timeout_elapses h s)"
  by (simp add: timeout_elapses_def split: option.split)

lemma secure_reset_handshake [simp]: "secure sid0 n0 s \<Longrightarrow> secure sid0 n0 (reset_handshake sid n ev s)"
  by (simp add: reset_handshake_def Let_def)

lemma secure_connection_close [simp]: "secure sid0 n0 s \<Longrightarrow> secure sid0 n0 (connection_close sid n ev s)"
  by (simp add: connection_close_def Let_def split: option.split prod.split)

lemma secure_close_all [simp]: "secure sid0 n0 s \<Longrightarrow> secure sid0 n0 (foldl (\<lambda>s2 sid. connection_close sid (f s2) (g s2) s2) s sids)"
  by (induction sids arbitrary: s) simp_all

lemma secure_closeConnections_fold:
  "secure sid0 n0 s \<Longrightarrow> secure sid0 n0 (foldl (\<lambda>s1 (n, d).
              if (case documentName of None \<Rightarrow> False
                  | Some wanted \<Rightarrow> wanted \<noteq> [] \<and> document_name (heap s1 ! d) \<noteq> wanted)
              then s1
              else foldl (\<lambda>s2 sid. connection_close sid (document_name (heap s2 ! d))
                                     (Some (ResetConnection (library s2))) s2)
                     s1 (connections (heap s1 ! d))) s xs)"
  by (induction xs arbitrary: s) (simp_all split: prod.split)

lemma secure_closeConnections [simp]: "secure sid0 n0 s \<Longrightarrow> secure sid0 n0 (closeConnections n s)"
  unfolding closeConnections_def by (rule secure_closeConnections_fold)

lemma secure_onConnect_catch [simp]: "secure sid0 n0 s \<Longrightarrow> secure sid0 n0 (onConnect_catch sid e s)"
  by (simp add: onConnect_catch_def ws_close_def Let_def split: prod.split)

lemma secure_onAuthenticate_catch [simp]: "secure sid0 n0 s \<Longrightarrow> secure sid0 n0 (onAuthenticate_catch sid n e s)"
  by (simp add: onAuthenticate_catch_def)

lemma secure_denial_sent [simp]: "secure sid0 n0 s \<Longrightarrow> secure sid0 n0 (denial_sent sid e s)"
  by (simp add: denial_sent_def ws_close_def Let_def split: prod.split)

lemma secure_setUp_failed [simp]: "secure sid0 n0 s \<Longrightarrow> secure sid0 n0 (setUp_failed via sid n e s)"
  by (simp add: setUp_failed_def split: route.split)

lemma secure_handleQueueingMessage [simp]: "secure sid0 n0 s \<Longrightarrow> secure sid0 n0 (handleQueueingMessage sid data s)"
  by (simp add: handleQueueingMessage_def Let_def split: frame.split option.split)

lemma secure_messageHandler [simp]: "secure sid0 n0 s \<Longrightarrow> secure sid0 n0 (messageHandler sid data s)"
  by (simp add: messageHandler_def split: frame.split)

lemma secure_destroy [simp]: "secure sid0 n0 s \<Longrightarrow> secure sid0 n0 (destroy d s)"
  by (simp add: destroy_def)

lemma secure_idle_timeout [simp]: "secure sid0 n0 s \<Longrightarrow> secure sid0 n0 (idle_timeout sid s)"
  by (simp add: idle_timeout_def)

lemma secure_handleDocumentUpdate [simp]: "secure sid0 n0 s \<Longrightarrow> secure sid0 n0 (handleDocumentUpdate d origin s)"
  by (simp add: handleDocumentUpdate_def Let_def split: option.split)

lemma secure_onStoreDocument_settled [simp]: "secure sid0 n0 s \<Longrightarrow> secure sid0 n0 (onStoreDocument_settled origin sid d outcome s)"
  by (simp add: onStoreDocument_settled_def promise_catch_def store_catch_def split: promise.split)

lemma secure_afterStoreDocument_settled [simp]: "secure sid0 n0 s \<Longrightarrow> secure sid0 n0 (afterStoreDocument_settled origin sid d outcome s)"
  by (simp add: afterStoreDocument_settled_def split: promise.split store_origin.split)

lemma secure_onDisconnect_settled [simp]: "secure sid0 n0 s \<Longrightarrow> secure sid0 n0 (onDisconnect_settled sid d outcome s)"
  by (simp add: onDisconnect_settled_def split: promise.split)

text \<open>
  The functions that attach a transport to a name keep the invariant when the name is
  another one or the authentication has resolved.
\<close>

lemma attached_is_authenticated:
  "secure sid0 n0 s \<Longrightarrow> sid0 < socket_count s
   \<Longrightarrow> map_of (instances (sockets s ! sid0)) n0 = Some x \<Longrightarrow> auth_done sid0 n0 s"
  by (auto simp: secure_def unattached_def socket_count_def)

lemma exempt_is_authenticated:
  "secure sid0 n0 s \<Longrightarrow> sid0 < socket_count s
   \<Longrightarrow> \<not> requiresAuthentication (connection (sockets s ! sid0)) \<Longrightarrow> auth_done sid0 n0 s"
  by (auto simp: secure_def unattached_def socket_count_def)

lemma attaching_is_authenticated:
  "secure sid0 n0 s \<Longrightarrow> k \<in> set (pending s) \<Longrightarrow> attaches sid0 n0 k \<Longrightarrow> auth_done sid0 n0 s"
  by (auto simp: secure_def unattached_def list_all_iff)

lemma secure_connection_receives:
  assumes "secure sid0 n0 s" and "sid < socket_count s"
  shows "secure sid0 n0 (connection_receives sid data s)"
proof (cases data)
  case (Frame n ty tok)
  show ?thesis
  proof (cases "map_of (instances (sockets s ! sid)) n")
    case None
    with Frame assms show ?thesis by (simp add: connection_receives_def)
  next
    case (Some inst)
    obtain d registered where inst: "inst = (d, registered)" by (cases inst)
    have "\<not> serves sid0 n0 (Delivered sid n data d) \<or> auth_done sid0 n0 s"
      using attached_is_authenticated [OF assms(1), of inst] assms(2) Some by auto
    with assms(1) have "secure sid0 n0 (emit (Delivered sid n data d) s)" by (rule secure_emit)
    with Frame Some inst show ?thesis by (simp add: connection_receives_def)
  qed
qed (simp_all add: connection_receives_def assms)

lemma secure_socket_message:
  "secure sid0 n0 s \<Longrightarrow> sid < socket_count s \<Longrightarrow> secure sid0 n0 (socket_message sid data s)"
  by (simp add: socket_message_def secure_connection_receives)

lemma secure_replay:
  "secure sid0 n0 s \<Longrightarrow> sid < socket_count s
   \<Longrightarrow> secure sid0 n0 (foldl (\<lambda>s3 input. socket_message sid input s3) s queue)"
  by (induction queue arbitrary: s) (simp_all add: secure_socket_message)

lemma secure_createConnection:
  assumes "secure sid0 n0 s" and "sid = sid0 \<and> n = n0 \<longrightarrow> auth_done sid0 n0 s"
  shows "secure sid0 n0 (createConnection sid n d s)"
proof -
  have "secure sid0 n0 (on_socket sid
          (\<lambda>t. t\<lparr>instances := AList.update n (d, False) (instances t)\<rparr>) s)"
    using assms by (intro secure_on_socket) (auto simp: update_conv')
  then show ?thesis by (simp add: createConnection_def Let_def)
qed

lemma map_of_registered:
  "map_of (map (\<lambda>(n, r, registered). if n = m then (n, r, True) else (n, r, registered)) xs) k = None
     \<longleftrightarrow> map_of xs k = None"
  by (induction xs) (auto split: if_splits)

lemma secure_createDocument_settled:
  assumes "secure sid0 n0 s" and "sid = sid0 \<and> n = n0 \<longrightarrow> auth_done sid0 n0 s"
    and "sid < socket_count s"
  shows "secure sid0 n0 (createDocument_settled via sid n d s)"
proof -
  define s1 where "s1 = createConnection sid n d s"
  define s2 where "s2 = on_socket sid
        (\<lambda>t. t\<lparr>instances := map (\<lambda>(n', r, registered). if n' = n then (n', r, True)
                                                     else (n', r, registered)) (instances t),
               documentConnections := AList.update n True (documentConnections t)\<rparr>) s1"
  have s1: "secure sid0 n0 s1" unfolding s1_def using assms(1,2) by (rule secure_createConnection)
  have "secure sid0 n0 s2" unfolding s2_def using s1
    by (intro secure_on_socket) (auto simp: map_of_registered)
  moreover have "sid < socket_count s2" unfolding s2_def s1_def using assms(3) by simp
  moreover have "sid = sid0 \<and> n = n0 \<longrightarrow> auth_done sid0 n0 s2"
    unfolding s2_def s1_def using assms(2) by simp
  ultimately have "secure sid0 n0
      (case map_of (incomingMessageQueue (sockets s2 ! sid)) n of
         None \<Rightarrow> setUp_failed via sid n (Thrown None None (Some ''TypeError'')) s2
       | Some queue \<Rightarrow>
           call_hooks connected (Some sid) n None (Detached connected)
             (foldl (\<lambda>s3 input. socket_message sid input s3) s2 queue))"
    by (auto simp: secure_replay split: option.split intro!: secure_call_hooks)
  then show ?thesis unfolding createDocument_settled_def s2_def s1_def Let_def .
qed

lemma secure_createDocument:
  assumes "secure sid0 n0 s" and "sid = sid0 \<and> n = n0 \<longrightarrow> auth_done sid0 n0 s"
  shows "secure sid0 n0 (snd (createDocument via sid n s))"
  using assms
  by (auto simp: createDocument_def Let_def split: option.split intro!: secure_call_hooks)

lemma secure_setUpNewConnection:
  assumes "secure sid0 n0 s" and "sid = sid0 \<and> n = n0 \<longrightarrow> auth_done sid0 n0 s"
  shows "secure sid0 n0 (setUpNewConnection via sid n s)"
proof -
  define s0 where "s0 = on_socket sid (\<lambda>t. t\<lparr>closeIdleConnection := False\<rparr>) s"
  have s0: "secure sid0 n0 s0" "sid = sid0 \<and> n = n0 \<longrightarrow> auth_done sid0 n0 s0"
    unfolding s0_def using assms by simp_all
  then have c: "secure sid0 n0 (snd (createDocument via sid n s0))" by (rule secure_createDocument)
  show ?thesis
  proof (cases "createDocument via sid n s0")
    case (Pair r s1)
    have "auth_done sid0 n0 s1 = auth_done sid0 n0 s0"
      using auth_done_createDocument [of sid0 n0 via sid n s0] unfolding Pair by simp
    with c s0(2) Pair have "secure sid0 n0 s1" "sid = sid0 \<and> n = n0 \<longrightarrow> auth_done sid0 n0 s1"
      by simp_all
    then have "secure sid0 n0 (case r of None \<Rightarrow> s1
                 | Some d \<Rightarrow> suspend (AwaitCreateDocument via sid n d) s1)"
      by (auto split: option.split intro!: secure_suspend)
    with Pair show ?thesis
      unfolding setUpNewConnection_def s0_def [symmetric] by (simp split: option.split)
  qed
qed

lemma secure_onLoadDocument_settled:
  assumes "secure sid0 n0 s" and "sid = sid0 \<and> n = n0 \<longrightarrow> auth_done sid0 n0 s"
  shows "secure sid0 n0 (onLoadDocument_settled via sid n d outcome s)"
  using assms
  by (auto simp: onLoadDocument_settled_def Let_def split: promise.split intro!: secure_call_hooks)

lemma secure_afterLoadDocument_settled:
  assumes "secure sid0 n0 s" and "sid = sid0 \<and> n = n0 \<longrightarrow> auth_done sid0 n0 s"
  shows "secure sid0 n0 (afterLoadDocument_settled via sid n d outcome s)"
  using assms
  by (auto simp: afterLoadDocument_settled_def split: promise.split intro!: secure_suspend)

lemma secure_onConnect_settled:
  assumes "secure sid0 n0 s" and "sid < socket_count s"
  shows "secure sid0 n0 (onConnect_settled sid n outcome s)"
proof (cases outcome)
  case (Rejected e)
  with assms show ?thesis by (simp add: onConnect_settled_def)
next
  case (Resolved u)
  show ?thesis
  proof (cases "requiresAuthentication (connection (sockets s ! sid))
                \<or> map_of (connectionEstablishing (sockets s ! sid)) n = Some True")
    case True
    with Resolved assms show ?thesis by (simp add: onConnect_settled_def)
  next
    case False
    define s1 where "s1 = on_socket sid
        (\<lambda>t. t\<lparr>connectionEstablishing := AList.update n True (connectionEstablishing t)\<rparr>) s"
    have a: "sid = sid0 \<and> n = n0 \<longrightarrow> auth_done sid0 n0 s"
      using exempt_is_authenticated [OF assms(1)] assms(2) False by auto
    have "secure sid0 n0 s1" unfolding s1_def using assms(1) by simp
    moreover have "sid = sid0 \<and> n = n0 \<longrightarrow> auth_done sid0 n0 s1" unfolding s1_def using a by simp
    ultimately have "secure sid0 n0 (setUpNewConnection ViaOnConnect sid n s1)"
      by (rule secure_setUpNewConnection)
    with Resolved False show ?thesis by (simp add: onConnect_settled_def s1_def)
  qed
qed

lemma secure_onAuthenticate_settled:
  assumes "secure sid0 n0 s"
    and "outcome = Resolved () \<and> sid = sid0 \<and> n = n0 \<longrightarrow> auth_done sid0 n0 s"
  shows "secure sid0 n0 (onAuthenticate_settled sid n outcome s)"
proof (cases outcome)
  case (Rejected e)
  with assms show ?thesis by (simp add: onAuthenticate_settled_def)
next
  case (Resolved u)
  define s1 where "s1 = emit (Send sid (Authenticated n))
       (on_socket sid (\<lambda>t. t\<lparr>connection := (connection t)\<lparr>isAuthenticated := True\<rparr>\<rparr>) s)"
  have "secure sid0 n0 s1" unfolding s1_def using assms(1) by simp
  moreover have "sid = sid0 \<and> n = n0 \<longrightarrow> auth_done sid0 n0 s1"
    unfolding s1_def using assms(2) Resolved by simp
  ultimately have "secure sid0 n0 (setUpNewConnection ViaOnAuthenticate sid n s1)"
    by (rule secure_setUpNewConnection)
  with Resolved show ?thesis by (simp add: onAuthenticate_settled_def s1_def)
qed

lemma secure_handleConnection:
  "secure sid0 n0 s \<Longrightarrow> get_requiresAuthentication s \<Longrightarrow> secure sid0 n0 (handleConnection s)"
  by (auto simp: secure_def unattached_def auth_done_def handleConnection_def nth_append)

lemma secure_resume:
  assumes "secure sid0 n0 s" and "known s (task_refs k)"
    and "attaches sid0 n0 k \<longrightarrow> auth_done sid0 n0 s"
    and "k = AwaitOnAuthenticate sid0 n0 \<and> outcome = Resolved () \<longrightarrow> auth_done sid0 n0 s"
  shows "secure sid0 n0 (resume k outcome s)"
  using assms
  by (cases k)
     (auto simp: known_def socket_count_def [symmetric] split: promise.split
        intro!: secure_onConnect_settled secure_onAuthenticate_settled
          secure_onLoadDocument_settled secure_afterLoadDocument_settled
          secure_createDocument_settled)

lemma secure_settle:
  assumes "secure sid0 n0 s" and "k \<in> set (pending s)"
  shows "secure sid0 n0 (emit (Settled k outcome) (s\<lparr>pending := remove1 k (pending s)\<rparr>))"
proof -
  have "set (remove1 k (pending s)) \<subseteq> set (pending s)" by (rule set_remove1_subset)
  with assms(1) have "secure sid0 n0 (s\<lparr>pending := remove1 k (pending s)\<rparr>)"
    by (auto simp: secure_def unattached_def auth_done_def list_all_iff)
  then show ?thesis by simp
qed

lemma secure_step:
  assumes "secure sid0 n0 s" and "get_requiresAuthentication s" and "keeps_requiresAuthentication e"
  shows "secure sid0 n0 (step e s)"
proof (cases e)
  case Accept
  with assms show ?thesis by (simp add: secure_handleConnection)
next
  case (Message sid data)
  with assms show ?thesis
    by (simp add: known_def socket_count_def [symmetric] secure_socket_message)
next
  case (Settle k outcome)
  show ?thesis
  proof (cases "k \<in> set (pending s) \<and> known s (task_refs k)")
    case True
    define s1 where "s1 = emit (Settled k outcome) (s\<lparr>pending := remove1 k (pending s)\<rparr>)"
    have "secure sid0 n0 s1" unfolding s1_def using assms(1) True by (simp add: secure_settle)
    moreover have "known s1 (task_refs k)"
      unfolding s1_def using True by (auto simp: known_def emit_def split: option.splits)
    moreover have "attaches sid0 n0 k \<longrightarrow> auth_done sid0 n0 s1"
      unfolding s1_def using attaching_is_authenticated [OF assms(1), of k] True by simp
    moreover have "k = AwaitOnAuthenticate sid0 n0 \<and> outcome = Resolved () \<longrightarrow> auth_done sid0 n0 s1"
      unfolding s1_def by simp
    ultimately have "secure sid0 n0 (resume k outcome s1)" by (rule secure_resume)
    with True Settle show ?thesis by (simp add: s1_def)
  next
    case False
    with assms Settle show ?thesis by auto
  qed
next
  case (HookSets sid c)
  with assms(3) have "requiresAuthentication c" by simp
  with assms(1) have "secure sid0 n0 (on_socket sid (\<lambda>t. t\<lparr>connection := c\<rparr>) s)"
    by (intro secure_on_socket) auto
  with assms HookSets show ?thesis by simp
next
  case (SocketClosed sid)
  with assms show ?thesis by (auto intro!: secure_on_socket)
next
  case (Tick n)
  with assms show ?thesis by simp
qed (use assms in simp_all)

lemma get_requiresAuthentication_step:
  "get_requiresAuthentication (step e s) = get_requiresAuthentication s"
  by (simp add: get_requiresAuthentication_def)

lemma secure_run_events:
  "secure sid0 n0 s \<Longrightarrow> get_requiresAuthentication s \<Longrightarrow> list_all keeps_requiresAuthentication es
   \<Longrightarrow> secure sid0 n0 (run_events es s)"
  unfolding run_events_def
  by (induction es arbitrary: s) (simp_all add: secure_step get_requiresAuthentication_step)

lemma secure_new_server: "secure sid0 n0 (new_server lib cfg now)"
  by (simp add: secure_def unattached_def auth_done_def new_server_def)

lemma served_after_authentication_iff:
  "served_after_authentication sid n es
     \<longleftrightarrow> (\<forall>i<length es. serves sid n (es ! i) \<longrightarrow> (\<exists>j<i. resolves_authentication sid n (es ! j)))"
  by (induction es) (auto simp: All_less_Suc2 Ex_less_Suc2 resolves_not_serves)

lemma required_waits_for_Auth:
  "requiresAuthentication (connection (sockets s ! sid))
   \<Longrightarrow> onConnect_settled sid n (Resolved ()) s = s"
  by (simp add: onConnect_settled_def)

lemma other_messages_are_queued:
  "ty \<noteq> Auth
   \<Longrightarrow> handleQueueingMessage sid (Frame n ty tok) s
        = (case map_of (incomingMessageQueue (sockets s ! sid)) n of
             None \<Rightarrow> close_with sid (Unauthorized (library s)) s
           | Some queue \<Rightarrow>
               on_socket sid
                 (\<lambda>t. t\<lparr>incomingMessageQueue :=
                          AList.update n (queue @ [Frame n ty tok]) (incomingMessageQueue t)\<rparr>) s)"
  by (simp add: handleQueueingMessage_def)




end
